theory Spec2Isabelle
  imports Complex_Main "HOL-Library.Word" "HOL-Library.Multiset"
begin

section \<open>Data model\<close>

text \<open>
  The atlas renderer of \<^verbatim>\<open>impeller/entity/contents/atlas_contents.cc\<close> and the
  compute pass of \<^verbatim>\<open>impeller/renderer/compute_pass.cc\<close>.

  \<^verbatim>\<open>Scalar\<close> is a C++ \<^verbatim>\<open>float\<close>; its values are modelled by \<^typ>\<open>real\<close> (no NaN, no
  infinity: a computation that leaves the range of \<^verbatim>\<open>float\<close> is outside the model).
  The arithmetic of the sub-atlas packer, which decides where the rectangles go and how
  large the canvas is, rounds every result as the code does; the rounding functions are
  collaborators. The arithmetic of the vertex attributes (premultiplication, division
  by the texture size) and the conversion of the canvas size back to a \<^verbatim>\<open>Rect\<close> are
  kept exact; no statement below depends on their values. \<^verbatim>\<open>Matrix\<close> is opaque to the
  code modelled here and stays a type variable \<open>'m\<close>.
  The geometry types and the blend-mode enumeration are declared in headers outside the
  sources; their shape is fixed below and the operations on them that the code calls are
  fields of the record \<open>collaborators\<close>.
\<close>

type_synonym Scalar = real

type_synonym Point = "Scalar \<times> Scalar"

text \<open>The four corners \<^verbatim>\<open>std::array<Point, 4>\<close> of a rectangle.\<close>

type_synonym Quad = "Point \<times> Point \<times> Point \<times> Point"

text \<open>
  Modelled from the spec: \<^verbatim>\<open>Rect\<close> (geometry/rect.h is not part of the sources), a
  rectangle read through \<^verbatim>\<open>GetX\<close>, \<^verbatim>\<open>GetY\<close>, \<^verbatim>\<open>GetWidth\<close>, \<^verbatim>\<open>GetHeight\<close> and built
  by \<^verbatim>\<open>Rect::MakeXYWH\<close>, \<^verbatim>\<open>Rect::MakeSize\<close>. A default-constructed \<^verbatim>\<open>Rect\<close> is all zero.
\<close>

record Rect =
  GetX :: Scalar
  GetY :: Scalar
  GetWidth :: Scalar
  GetHeight :: Scalar

definition MakeXYWH :: "Scalar \<Rightarrow> Scalar \<Rightarrow> Scalar \<Rightarrow> Scalar \<Rightarrow> Rect" where
  "MakeXYWH x y w h = \<lparr>GetX = x, GetY = y, GetWidth = w, GetHeight = h\<rparr>"

definition GetSize :: "Rect \<Rightarrow> Scalar \<times> Scalar" where
  "GetSize r = (GetWidth r, GetHeight r)"

definition MakeSize :: "Scalar \<times> Scalar \<Rightarrow> Rect" where
  "MakeSize sz = MakeXYWH 0 0 (fst sz) (snd sz)"

text \<open>
  \<^verbatim>\<open>ISize\<close>: a size in whole units, \<^verbatim>\<open>int64_t\<close> in the code. The fields are integers;
  the one place where the code computes an \<^verbatim>\<open>ISize\<close>, the canvas of the sub-atlas,
  converts into the 64-bit range (\<open>to_int64\<close> below).
\<close>

record ISize =
  width :: int
  height :: int

text \<open>
  Modelled from the spec: \<^verbatim>\<open>ISize::IsEmpty\<close> (geometry/size.h is not part of the sources);
  a size is empty (degenerate) unless both of its dimensions are positive.
\<close>

definition IsEmpty :: "ISize \<Rightarrow> bool" where
  "IsEmpty sz = (\<not> (0 < width sz \<and> 0 < height sz))"

text \<open>
  Modelled from the spec: \<^verbatim>\<open>Color\<close> (geometry/color.h is not part of the sources), four
  floating-point components; \<^verbatim>\<open>Premultiply\<close> scales the colour channels by alpha.
\<close>

record Color =
  red :: Scalar
  green :: Scalar
  blue :: Scalar
  opacity :: Scalar

definition Premultiply :: "Color \<Rightarrow> Color" where
  "Premultiply c =
     \<lparr>red = red c * opacity c, green = green c * opacity c, blue = blue c * opacity c,
      opacity = opacity c\<rparr>"

text \<open>
  Modelled from the spec: the \<^verbatim>\<open>BlendMode\<close> enumeration (geometry/color.h is not part of
  the sources), in declaration order: \<open>clear\<close>, \<open>source\<close>, \<open>destination\<close>, the other simple
  Porter-Duff modes up to \<open>modulate\<close>, then the advanced modes. \<open>blend_index\<close> is
  \<^verbatim>\<open>static_cast<int>\<close> of a mode, and the code's \<^verbatim>\<open>blend_mode_ <= BlendMode::kModulate\<close>
  compares these numbers.
\<close>

datatype BlendMode =
    kClear | kSource | kDestination | kSourceOver | kDestinationOver
  | kSourceIn | kDestinationIn | kSourceOut | kDestinationOut
  | kSourceATop | kDestinationATop | kXor | kPlus | kModulate
  | kScreen | kOverlay | kDarken | kLighten | kColorDodge | kColorBurn
  | kHardLight | kSoftLight | kDifference | kExclusion | kMultiply
  | kHue | kSaturation | kColor | kLuminosity

fun blend_index :: "BlendMode \<Rightarrow> nat" where
  "blend_index kClear = 0"
| "blend_index kSource = 1"
| "blend_index kDestination = 2"
| "blend_index kSourceOver = 3"
| "blend_index kDestinationOver = 4"
| "blend_index kSourceIn = 5"
| "blend_index kDestinationIn = 6"
| "blend_index kSourceOut = 7"
| "blend_index kDestinationOut = 8"
| "blend_index kSourceATop = 9"
| "blend_index kDestinationATop = 10"
| "blend_index kXor = 11"
| "blend_index kPlus = 12"
| "blend_index kModulate = 13"
| "blend_index kScreen = 14"
| "blend_index kOverlay = 15"
| "blend_index kDarken = 16"
| "blend_index kLighten = 17"
| "blend_index kColorDodge = 18"
| "blend_index kColorBurn = 19"
| "blend_index kHardLight = 20"
| "blend_index kSoftLight = 21"
| "blend_index kDifference = 22"
| "blend_index kExclusion = 23"
| "blend_index kMultiply = 24"
| "blend_index kHue = 25"
| "blend_index kSaturation = 26"
| "blend_index kColor = 27"
| "blend_index kLuminosity = 28"

text \<open>A texture, as far as the code reads it: its pixel size and its y-coordinate scale.\<close>

record Texture =
  Texture_GetSize :: ISize
  GetYCoordScale :: Scalar

datatype SamplerAddressMode = kClampToEdge | kRepeat | kMirror | kDecal

record SamplerDescriptor =
  width_address_mode :: SamplerAddressMode
  height_address_mode :: SamplerAddressMode

record 'm Entity =
  GetTransform :: 'm
  GetClipDepth :: nat

subsection \<open>Errors\<close>

text \<open>
  \<^verbatim>\<open>std::vector::operator[]\<close> past the end and \<^verbatim>\<open>->\<close> on a null pointer are undefined
  behaviour, and a failed \<^verbatim>\<open>FML_DCHECK\<close> aborts a checked build; all three are values of the
  model.
\<close>

datatype error = OutOfBounds | DCheckFailed | NullDereference

definition vector_at :: "'a list \<Rightarrow> nat \<Rightarrow> error + 'a" where
  "vector_at xs i = (if i < length xs then Inr (xs ! i) else Inl OutOfBounds)"

text \<open>Sequencing: the first error ends the computation.\<close>

fun and_then :: "error + 'a \<Rightarrow> ('a \<Rightarrow> error + 'b) \<Rightarrow> error + 'b" where
  "and_then (Inl e) f = Inl e"
| "and_then (Inr a) f = f a"

text \<open>\<^verbatim>\<open>for (i = ...; i < n; i++) body\<close> over the index list, stopping at the first error.\<close>

fun for_each :: "nat list \<Rightarrow> (nat \<Rightarrow> 'a \<Rightarrow> error + 'a) \<Rightarrow> 'a \<Rightarrow> error + 'a" where
  "for_each [] body a = Inr a"
| "for_each (i # is) body a = and_then (body i a) (for_each is body)"

subsection \<open>The instance set and the sub-atlas\<close>

text \<open>
  The data members of \<^verbatim>\<open>AtlasContents\<close>, named as in the code without the trailing
  underscore; \<^verbatim>\<open>texture_\<close> is a shared pointer that may be null.
\<close>

record 'm AtlasContents =
  texture :: "Texture option"
  texture_coords :: "Rect list"
  colors :: "Color list"
  transforms :: "'m list"
  blend_mode :: BlendMode
  cull_rect :: "Rect option"
  bounding_box_cache :: "Rect option"
  alpha :: Scalar
  sampler_descriptor :: SamplerDescriptor

record AtlasBlenderKey =
  color :: Color
  rect :: Rect
  color_key :: "32 word"

record 'm SubAtlasResult =
  sub_texture_coords :: "Rect list"
  sub_colors :: "Color list"
  sub_transforms :: "'m list"
  result_texture_coords :: "Rect list"
  result_transforms :: "'m list"
  result_size :: ISize

text \<open>
  The data-model invariant of an instance set: transforms and texture regions are
  index-aligned, and the colours are absent or index-aligned too.
\<close>

definition length_invariant :: "'m AtlasContents \<Rightarrow> bool" where
  "length_invariant s =
     (length (transforms s) = length (texture_coords s) \<and>
      (length (colors s) = 0 \<or> length (colors s) = length (transforms s)))"

subsection \<open>The child contents and the render pass\<close>

text \<open>
  \<^verbatim>\<open>AtlasTextureContents\<close> and \<^verbatim>\<open>AtlasColorContents\<close> hold a reference to their parent; the
  parent is not mutated while a child lives, so the model stores the parent's value.
  Their default member initialisers are in atlas_contents.h, outside the sources:
  alpha 1, an all-zero coverage, no sub-atlas, no texture, \<open>use_destination\<close> false.
\<close>

record 'm AtlasTextureContents =
  tex_parent :: "'m AtlasContents"
  tex_alpha :: Scalar
  tex_coverage :: Rect
  use_destination :: bool
  tex_subatlas :: "'m SubAtlasResult option"
  tex_texture :: "Texture option"

record 'm AtlasColorContents =
  col_parent :: "'m AtlasContents"
  col_alpha :: Scalar
  col_coverage :: Rect
  col_subatlas :: "'m SubAtlasResult option"

definition AtlasTextureContents_new :: "'m AtlasContents \<Rightarrow> 'm AtlasTextureContents" where
  "AtlasTextureContents_new parent =
     \<lparr>tex_parent = parent, tex_alpha = 1, tex_coverage = MakeXYWH 0 0 0 0,
      use_destination = False, tex_subatlas = None, tex_texture = None\<rparr>"

definition AtlasColorContents_new :: "'m AtlasContents \<Rightarrow> 'm AtlasColorContents" where
  "AtlasColorContents_new parent =
     \<lparr>col_parent = parent, col_alpha = 1, col_coverage = MakeXYWH 0 0 0 0, col_subatlas = None\<rparr>"

text \<open>
  \<^verbatim>\<open>OptionsFromPass(pass)\<close> and \<^verbatim>\<open>OptionsFromPassAndEntity(pass, entity)\<close>, the latter with the
  blend mode the caller overrides it with, if any.
\<close>

datatype 'm PipelineOptions =
    OptionsFromPass
  | OptionsFromPassAndEntity "'m Entity" "BlendMode option"

record PorterDuffFragInfo =
  src_coeff :: Scalar
  src_coeff_dst_alpha :: Scalar
  dst_coeff :: Scalar
  dst_coeff_src_alpha :: Scalar
  dst_coeff_src_color :: Scalar
  input_alpha :: Scalar
  output_alpha :: Scalar

text \<open>
  What a render pass has been given when \<^verbatim>\<open>pass.Draw()\<close> is called: the pipeline with its
  options, the vertex stream, the stencil reference and the bound uniforms, texture and
  sampler. One constructor per pipeline: texture fill (position, texture coordinates),
  geometry colour (position, colour) and Porter-Duff blend (position, texture
  coordinates, colour). The label of the Porter-Duff draw exists in debug builds only
  and is left out.
\<close>

datatype 'm Command =
    TextureFillCommand
      (tf_label: string) (tf_options: "'m PipelineOptions") (tf_stencil: nat)
      (tf_vertices: "(Point \<times> Point) list")
      (tf_mvp: 'm) (tf_y_coord_scale: Scalar) (tf_alpha: Scalar)
      (tf_texture: Texture) (tf_sampler: SamplerDescriptor)
  | GeometryColorCommand
      (gc_label: string) (gc_options: "'m PipelineOptions") (gc_stencil: nat)
      (gc_vertices: "(Point \<times> Color) list")
      (gc_mvp: 'm) (gc_alpha: Scalar)
  | PorterDuffBlendCommand
      (pd_options: "'m PipelineOptions") (pd_stencil: nat)
      (pd_vertices: "(Point \<times> Point \<times> Color) list")
      (pd_mvp: 'm) (pd_y_coord_scale: Scalar) (pd_frag_info: PorterDuffFragInfo)
      (pd_texture: Texture) (pd_sampler: SamplerDescriptor)

record 'm RenderPass =
  GetOrthographicTransform :: 'm
  commands :: "'m Command list"

subsection \<open>Collaborators\<close>

text \<open>
  What the code calls but the sources do not define, taken as parameters:
  the colour quantiser \<^verbatim>\<open>Color::ToIColor\<close>, \<^verbatim>\<open>fml::HashCombine\<close>, the matrix and
  rectangle geometry, the Porter-Duff tables, the device capability, the snapshot
  renderer of the blend filter, the outcome of \<^verbatim>\<open>pass.Draw()\<close>, the order in which a
  \<^verbatim>\<open>std::unordered_map\<close> is iterated, and whether \<^verbatim>\<open>FML_DCHECK\<close> is compiled in.
  The floating-point unit is a collaborator too: \<open>RoundToFloat\<close> and \<open>RoundToDouble\<close>
  give the \<^verbatim>\<open>float\<close> and the \<^verbatim>\<open>double\<close> that an operation delivers for its exact
  result, and \<open>ConvertOutOfRange\<close> is what the conversion of a floating-point number
  to \<^verbatim>\<open>int64_t\<close> yields when the number does not fit (undefined behaviour in C++,
  whatever the conversion instruction of the platform returns in practice).
\<close>

record 'm collaborators =
  ToIColor :: "Color \<Rightarrow> 32 word"
  HashCombine :: "32 word \<Rightarrow> Scalar \<Rightarrow> Scalar \<Rightarrow> Scalar \<Rightarrow> Scalar \<Rightarrow> nat"
  iteration_order :: "(AtlasBlenderKey \<times> 'm list) list \<Rightarrow> (AtlasBlenderKey \<times> 'm list) list"
  dchecks_enabled :: bool
  MakeTranslation :: "Point \<Rightarrow> 'm"
  MatrixMultiply :: "'m \<Rightarrow> 'm \<Rightarrow> 'm"
  TransformBounds :: "Rect \<Rightarrow> 'm \<Rightarrow> Rect"
  Union :: "Rect \<Rightarrow> Rect \<Rightarrow> Rect"
  GetPoints :: "Rect \<Rightarrow> Quad"
  GetTransformedPoints :: "Rect \<Rightarrow> 'm \<Rightarrow> Quad"
  InvertPorterDuffBlend :: "BlendMode \<Rightarrow> BlendMode option"
  kPorterDuffCoefficients :: "nat \<Rightarrow> Scalar \<times> Scalar \<times> Scalar \<times> Scalar \<times> Scalar"
  SupportsDecalSamplerAddressMode :: bool
  RenderToSnapshot ::
    "BlendMode \<Rightarrow> 'm AtlasColorContents \<Rightarrow> 'm AtlasTextureContents \<Rightarrow> Texture option"
  Draw :: "'m Command \<Rightarrow> bool"
  RoundToFloat :: "real \<Rightarrow> Scalar"
  RoundToDouble :: "real \<Rightarrow> real"
  ConvertOutOfRange :: "int \<Rightarrow> 64 word"

text \<open>
  The hash map's iteration order is unspecified; all that is known of it is that it
  visits every entry once.
\<close>

definition visits_each_entry_once :: "'m collaborators \<Rightarrow> bool" where
  "visits_each_entry_once E = (\<forall>m. mset (iteration_order E m) = mset m)"

text \<open>
  The conversion of an integral floating-point number to \<^verbatim>\<open>int64_t\<close>: the number itself
  when it lies in the 64-bit range, and some 64-bit integer otherwise.
\<close>

definition fits_int64 :: "int \<Rightarrow> bool" where
  "fits_int64 n = (- (2 ^ 63) \<le> n \<and> n < 2 ^ 63)"

definition to_int64 :: "'m collaborators \<Rightarrow> int \<Rightarrow> int" where
  "to_int64 E n = (if fits_int64 n then n else sint (ConvertOutOfRange E n))"

section \<open>The sub-atlas packer: \<^verbatim>\<open>AtlasContents::GenerateSubAtlas\<close>\<close>

subsection \<open>The deduplication key\<close>

definition Hash :: "'m collaborators \<Rightarrow> AtlasBlenderKey \<Rightarrow> nat" where
  "Hash E key =
     HashCombine E (color_key key) (GetWidth (rect key)) (GetHeight (rect key))
       (GetX (rect key)) (GetY (rect key))"

definition Equal :: "AtlasBlenderKey \<Rightarrow> AtlasBlenderKey \<Rightarrow> bool" where
  "Equal lhs rhs = (rect lhs = rect rhs \<and> color_key lhs = color_key rhs)"

subsection \<open>The map from keys to member transforms\<close>

text \<open>
  The \<^verbatim>\<open>std::unordered_map\<close> is a list of entries in insertion order, searched with
  \<open>Equal\<close>. \<^verbatim>\<open>sub_atlas.find(key)\<close> is \<open>sub_atlas_find\<close>;
  \<^verbatim>\<open>sub_atlas[key] = {t}\<close> on a missing key is \<open>sub_atlas_insert\<close> (the entry keeps the
  key it was created with) and \<^verbatim>\<open>sub_atlas[key].push_back(t)\<close> is \<open>sub_atlas_push_back\<close>.
\<close>

fun sub_atlas_find ::
  "AtlasBlenderKey \<Rightarrow> (AtlasBlenderKey \<times> 'm list) list \<Rightarrow> (AtlasBlenderKey \<times> 'm list) option" where
  "sub_atlas_find key [] = None"
| "sub_atlas_find key ((k, ts) # rest) =
     (if Equal k key then Some (k, ts) else sub_atlas_find key rest)"

definition sub_atlas_insert ::
  "AtlasBlenderKey \<Rightarrow> 'm \<Rightarrow> (AtlasBlenderKey \<times> 'm list) list \<Rightarrow> (AtlasBlenderKey \<times> 'm list) list" where
  "sub_atlas_insert key t m = m @ [(key, [t])]"

fun sub_atlas_push_back ::
  "AtlasBlenderKey \<Rightarrow> 'm \<Rightarrow> (AtlasBlenderKey \<times> 'm list) list \<Rightarrow> (AtlasBlenderKey \<times> 'm list) list" where
  "sub_atlas_push_back key t [] = []"
| "sub_atlas_push_back key t ((k, ts) # rest) =
     (if Equal k key then (k, ts @ [t]) # rest else (k, ts) # sub_atlas_push_back key t rest)"

text \<open>The key of instance \<open>i\<close>, as the first loop builds it.\<close>

definition instance_key ::
  "'m collaborators \<Rightarrow> 'm AtlasContents \<Rightarrow> nat \<Rightarrow> error + AtlasBlenderKey" where
  "instance_key E s i =
     and_then (vector_at (colors s) i) (\<lambda>c.
     and_then (vector_at (texture_coords s) i) (\<lambda>r.
       Inr \<lparr>color = c, rect = r, color_key = ToIColor E c\<rparr>))"

text \<open>The body of the first loop.\<close>

definition group_instance ::
  "'m collaborators \<Rightarrow> 'm AtlasContents \<Rightarrow> nat \<Rightarrow>
     (AtlasBlenderKey \<times> 'm list) list \<Rightarrow> error + (AtlasBlenderKey \<times> 'm list) list" where
  "group_instance E s i sub_atlas =
     and_then (instance_key E s i) (\<lambda>key.
     and_then (vector_at (transforms s) i) (\<lambda>t.
       if sub_atlas_find key sub_atlas = None
       then Inr (sub_atlas_insert key t sub_atlas)
       else Inr (sub_atlas_push_back key t sub_atlas)))"

definition group_instances ::
  "'m collaborators \<Rightarrow> 'm AtlasContents \<Rightarrow>
     error + (AtlasBlenderKey \<times> 'm list) list" where
  "group_instances E s = for_each [0..<length (texture_coords s)] (group_instance E s) []"

subsection \<open>Shelf packing\<close>

text \<open>The local variables of the second loop, with the result under construction.\<close>

record 'm packer =
  x_offset :: Scalar
  y_offset :: Scalar
  x_extent :: Scalar
  y_extent :: Scalar
  result :: "'m SubAtlasResult"

definition empty_result :: "'m SubAtlasResult" where
  "empty_result =
     \<lparr>sub_texture_coords = [], sub_colors = [], sub_transforms = [],
      result_texture_coords = [], result_transforms = [],
      result_size = \<lparr>width = 0, height = 0\<rparr>\<rparr>"

definition packer_init :: "'m packer" where
  "packer_init = \<lparr>x_offset = 0, y_offset = 0, x_extent = 0, y_extent = 0, result = empty_result\<rparr>"

text \<open>
  The body of the second loop, for one map entry. The cursor and the extents are
  \<^verbatim>\<open>float\<close>s. \<^verbatim>\<open>y_extent + 1\<close> and \<^verbatim>\<open>y_offset + key.rect.GetHeight()\<close> are \<^verbatim>\<open>float\<close>
  sums. In \<^verbatim>\<open>x_offset += std::ceil(key.rect.GetWidth()) + 1.0\<close> the constant is a
  \<^verbatim>\<open>double\<close>, so both sums are \<^verbatim>\<open>double\<close> sums and the result is converted back to
  \<^verbatim>\<open>float\<close>. \<^verbatim>\<open>std::ceil\<close> and \<^verbatim>\<open>std::max\<close> are exact.
\<close>

definition pack_entry ::
  "'m collaborators \<Rightarrow> AtlasBlenderKey \<times> 'm list \<Rightarrow> 'm packer \<Rightarrow> 'm packer" where
  "pack_entry E entry p =
     (let p1 = (if x_offset p \<ge> 1000
                then p\<lparr>y_offset := RoundToFloat E (y_extent p + 1), x_offset := 0\<rparr> else p);
          key = fst entry;
          members = snd entry;
          new_rect = MakeXYWH (x_offset p1) (y_offset p1)
                       (GetWidth (rect key)) (GetHeight (rect key));
          sub_transform = MakeTranslation E (x_offset p1, y_offset p1);
          p2 = p1\<lparr>x_offset :=
                     RoundToFloat E
                       (RoundToDouble E
                          (x_offset p1 +
                           RoundToDouble E (of_int \<lceil>GetWidth (rect key)\<rceil> + 1)))\<rparr>;
          r = result p2;
          r1 = r\<lparr>sub_texture_coords := sub_texture_coords r @ [rect key],
                 sub_colors := sub_colors r @ [color key],
                 sub_transforms := sub_transforms r @ [sub_transform]\<rparr>;
          p3 = p2\<lparr>x_extent := max (x_extent p2) (x_offset p2),
                   y_extent := max (y_extent p2)
                                 (of_int \<lceil>RoundToFloat E
                                            (y_offset p2 + GetHeight (rect key))\<rceil>)\<rparr>;
          r2 = r1\<lparr>result_texture_coords :=
                     result_texture_coords r1 @ replicate (length members) new_rect,
                  result_transforms := result_transforms r1 @ members\<rparr>
      in p3\<lparr>result := r2\<rparr>)"

text \<open>
  The loop over the map, and \<^verbatim>\<open>result->size = ISize(std::ceil(x_extent), std::ceil(y_extent))\<close>,
  which converts the two \<^verbatim>\<open>float\<close>s to \<^verbatim>\<open>int64_t\<close>.
\<close>

definition pack_entries ::
  "'m collaborators \<Rightarrow> (AtlasBlenderKey \<times> 'm list) list \<Rightarrow> 'm SubAtlasResult" where
  "pack_entries E sub_atlas =
     (let p = fold (pack_entry E) sub_atlas packer_init
      in (result p)\<lparr>result_size := \<lparr>width = to_int64 E \<lceil>x_extent p\<rceil>,
                                      height = to_int64 E \<lceil>y_extent p\<rceil>\<rparr>\<rparr>)"

text \<open>
  The entry assertion
  \<^verbatim>\<open>FML_DCHECK(colors_.size() > 0 && blend_mode_ != kSource && blend_mode_ != kDestination)\<close>.
\<close>

definition GenerateSubAtlas_precondition :: "'m AtlasContents \<Rightarrow> bool" where
  "GenerateSubAtlas_precondition s =
     (length (colors s) > 0 \<and> blend_mode s \<noteq> kSource \<and> blend_mode s \<noteq> kDestination)"

definition GenerateSubAtlas ::
  "'m collaborators \<Rightarrow> 'm AtlasContents \<Rightarrow> error + 'm SubAtlasResult" where
  "GenerateSubAtlas E s =
     (if dchecks_enabled E \<and> \<not> GenerateSubAtlas_precondition s then Inl DCheckFailed
      else and_then (group_instances E s) (\<lambda>sub_atlas.
             Inr (pack_entries E (iteration_order E sub_atlas))))"

section \<open>Bounds: \<^verbatim>\<open>ComputeBoundingBox\<close> and \<^verbatim>\<open>GetCoverage\<close>\<close>

text \<open>The setters that touch the geometry drop the cached bounding box.\<close>

definition SetTransforms :: "'m list \<Rightarrow> 'm AtlasContents \<Rightarrow> 'm AtlasContents" where
  "SetTransforms ts s = s\<lparr>transforms := ts, bounding_box_cache := None\<rparr>"

definition SetTextureCoordinates :: "Rect list \<Rightarrow> 'm AtlasContents \<Rightarrow> 'm AtlasContents" where
  "SetTextureCoordinates rs s = s\<lparr>texture_coords := rs, bounding_box_cache := None\<rparr>"

definition SetCullRect :: "Rect option \<Rightarrow> 'm AtlasContents \<Rightarrow> 'm AtlasContents" where
  "SetCullRect r s = s\<lparr>cull_rect := r\<rparr>"

text \<open>The body of the loop of \<^verbatim>\<open>ComputeBoundingBox\<close>.\<close>

definition extend_bounding_box ::
  "'m collaborators \<Rightarrow> 'm AtlasContents \<Rightarrow> nat \<Rightarrow> Rect \<Rightarrow> error + Rect" where
  "extend_bounding_box E s i bounding_box =
     and_then (vector_at (transforms s) i) (\<lambda>matrix.
     and_then (vector_at (texture_coords s) i) (\<lambda>sample_rect.
       let bounds = TransformBounds E (MakeSize (GetSize sample_rect)) matrix
       in Inr (Union E bounds bounding_box)))"

text \<open>
  \<^verbatim>\<open>ComputeBoundingBox\<close> is \<^verbatim>\<open>const\<close> but fills the \<^verbatim>\<open>mutable\<close> cache, so it returns the
  instance set as well.
\<close>

definition ComputeBoundingBox ::
  "'m collaborators \<Rightarrow> 'm AtlasContents \<Rightarrow> error + (Rect \<times> 'm AtlasContents)" where
  "ComputeBoundingBox E s =
     (case bounding_box_cache s of
        Some cached \<Rightarrow> Inr (cached, s)
      | None \<Rightarrow>
          and_then
            (for_each [0..<length (texture_coords s)] (extend_bounding_box E s)
               (MakeXYWH 0 0 0 0))
            (\<lambda>bounding_box. Inr (bounding_box, s\<lparr>bounding_box_cache := Some bounding_box\<rparr>)))"

definition GetCoverage ::
  "'m collaborators \<Rightarrow> 'm AtlasContents \<Rightarrow> 'm Entity \<Rightarrow>
     error + (Rect option \<times> 'm AtlasContents)" where
  "GetCoverage E s entity =
     (case cull_rect s of
        Some cull \<Rightarrow> Inr (Some (TransformBounds E cull (GetTransform entity)), s)
      | None \<Rightarrow>
          and_then (ComputeBoundingBox E s) (\<lambda>(bounding_box, s').
            Inr (Some (TransformBounds E bounding_box (GetTransform entity)), s')))"

section \<open>The rendering strategies\<close>

text \<open>\<^verbatim>\<open>constexpr size_t indices[6] = {0, 1, 2, 1, 2, 3}\<close> into the four corners of a quad.\<close>

definition indices :: "nat list" where
  "indices = [0, 1, 2, 1, 2, 3]"

definition quad_point :: "Quad \<Rightarrow> nat \<Rightarrow> Point" where
  "quad_point q j =
     (case q of (p0, p1, p2, p3) \<Rightarrow>
        if j = 0 then p0 else if j = 1 then p1 else if j = 2 then p2 else p3)"

text \<open>
  \<^verbatim>\<open>Point / Size\<close>, component by component. A zero texture size gives an infinity or a
  NaN in the code and \<open>0\<close> on \<^typ>\<open>real\<close>, and the quotient is not rounded; no statement
  below depends on it.
\<close>

definition point_div :: "Point \<Rightarrow> ISize \<Rightarrow> Point" where
  "point_div p sz = (fst p / of_int (width sz), snd p / of_int (height sz))"

subsection \<open>\<^verbatim>\<open>AtlasTextureContents::Render\<close>\<close>

definition texture_quad ::
  "'m collaborators \<Rightarrow> Rect list \<Rightarrow> 'm list \<Rightarrow> ISize \<Rightarrow> nat \<Rightarrow>
     (Point \<times> Point) list \<Rightarrow> error + (Point \<times> Point) list" where
  "texture_quad E coords matrices texture_size i vertex_builder =
     and_then (vector_at coords i) (\<lambda>sample_rect.
     and_then (vector_at matrices i) (\<lambda>matrix.
       let points = GetPoints E sample_rect;
           transformed_points = GetTransformedPoints E (MakeSize (GetSize sample_rect)) matrix
       in Inr (vertex_builder @
                 map (\<lambda>j. (quad_point transformed_points j,
                            point_div (quad_point points j) texture_size)) indices)))"

definition AtlasTextureContents_Render ::
  "'m collaborators \<Rightarrow> 'm AtlasTextureContents \<Rightarrow> 'm Entity \<Rightarrow> 'm RenderPass \<Rightarrow>
     error + (bool \<times> 'm RenderPass)" where
  "AtlasTextureContents_Render E c entity pass =
     (case (case tex_texture c of Some t \<Rightarrow> Some t | None \<Rightarrow> texture (tex_parent c)) of
        None \<Rightarrow> Inr (True, pass)
      | Some tex \<Rightarrow>
          let coords = (case tex_subatlas c of
                          Some sub \<Rightarrow> if use_destination c then result_texture_coords sub
                                      else sub_texture_coords sub
                        | None \<Rightarrow> texture_coords (tex_parent c));
              matrices = (case tex_subatlas c of
                            Some sub \<Rightarrow> if use_destination c then result_transforms sub
                                        else sub_transforms sub
                          | None \<Rightarrow> transforms (tex_parent c))
          in and_then
               (for_each [0..<length coords]
                  (texture_quad E coords matrices (Texture_GetSize tex)) [])
               (\<lambda>vertex_builder.
                  if vertex_builder = [] then Inr (True, pass)
                  else
                    let cmd = TextureFillCommand ''AtlasTexture''
                                (OptionsFromPassAndEntity entity None) (GetClipDepth entity)
                                vertex_builder
                                (MatrixMultiply E (GetOrthographicTransform pass)
                                   (GetTransform entity))
                                (GetYCoordScale tex) (tex_alpha c)
                                tex (sampler_descriptor (tex_parent c))
                    in Inr (Draw E cmd, pass\<lparr>commands := commands pass @ [cmd]\<rparr>)))"

subsection \<open>\<^verbatim>\<open>AtlasColorContents::Render\<close>\<close>

definition color_quad ::
  "'m collaborators \<Rightarrow> Rect list \<Rightarrow> 'm list \<Rightarrow> Color list \<Rightarrow> nat \<Rightarrow>
     (Point \<times> Color) list \<Rightarrow> error + (Point \<times> Color) list" where
  "color_quad E coords matrices cols i vertex_builder =
     and_then (vector_at coords i) (\<lambda>sample_rect.
     and_then (vector_at matrices i) (\<lambda>matrix.
       let transformed_points = GetTransformedPoints E (MakeSize (GetSize sample_rect)) matrix
       in and_then (vector_at cols i) (\<lambda>c.
            Inr (vertex_builder @
                   map (\<lambda>j. (quad_point transformed_points j, Premultiply c)) indices))))"

definition AtlasColorContents_Render ::
  "'m collaborators \<Rightarrow> 'm AtlasColorContents \<Rightarrow> 'm Entity \<Rightarrow> 'm RenderPass \<Rightarrow>
     error + (bool \<times> 'm RenderPass)" where
  "AtlasColorContents_Render E c entity pass =
     (let coords = (case col_subatlas c of
                      Some sub \<Rightarrow> sub_texture_coords sub
                    | None \<Rightarrow> texture_coords (col_parent c));
          cols = (case col_subatlas c of
                    Some sub \<Rightarrow> sub_colors sub
                  | None \<Rightarrow> colors (col_parent c));
          matrices = (case col_subatlas c of
                        Some sub \<Rightarrow> sub_transforms sub
                      | None \<Rightarrow> transforms (col_parent c))
      in and_then
           (for_each [0..<length coords] (color_quad E coords matrices cols) [])
           (\<lambda>vertex_builder.
              if vertex_builder = [] then Inr (True, pass)
              else
                let cmd = GeometryColorCommand ''AtlasColors''
                            (OptionsFromPassAndEntity entity (Some kSourceOver))
                            (GetClipDepth entity) vertex_builder
                            (MatrixMultiply E (GetOrthographicTransform pass)
                               (GetTransform entity))
                            (col_alpha c)
                in Inr (Draw E cmd, pass\<lparr>commands := commands pass @ [cmd]\<rparr>)))"

subsection \<open>The single-pass Porter-Duff branch of \<^verbatim>\<open>AtlasContents::Render\<close>\<close>

definition porter_duff_quad ::
  "'m collaborators \<Rightarrow> 'm AtlasContents \<Rightarrow> ISize \<Rightarrow> nat \<Rightarrow>
     (Point \<times> Point \<times> Color) list \<Rightarrow> error + (Point \<times> Point \<times> Color) list" where
  "porter_duff_quad E s texture_size i vtx_builder =
     and_then (vector_at (texture_coords s) i) (\<lambda>sample_rect.
     and_then (vector_at (transforms s) i) (\<lambda>matrix.
       let points = GetPoints E sample_rect;
           transformed_points = GetTransformedPoints E (MakeSize (GetSize sample_rect)) matrix
       in and_then (vector_at (colors s) i) (\<lambda>c.
            let premultiplied = Premultiply c
            in Inr (vtx_builder @
                      map (\<lambda>j. (quad_point transformed_points j,
                                 point_div (quad_point points j) texture_size,
                                 premultiplied)) indices))))"

definition porter_duff_frag_info :: "'m collaborators \<Rightarrow> 'm AtlasContents \<Rightarrow> PorterDuffFragInfo" where
  "porter_duff_frag_info E s =
     (let inverted_blend_mode =
            (case InvertPorterDuffBlend E (blend_mode s) of Some m \<Rightarrow> m | None \<Rightarrow> kSource);
          blend_coefficients = kPorterDuffCoefficients E (blend_index inverted_blend_mode)
      in case blend_coefficients of (c0, c1, c2, c3, c4) \<Rightarrow>
           \<lparr>src_coeff = c0, src_coeff_dst_alpha = c1, dst_coeff = c2,
            dst_coeff_src_alpha = c3, dst_coeff_src_color = c4,
            input_alpha = 1, output_alpha = alpha s\<rparr>)"

definition PorterDuff_Render ::
  "'m collaborators \<Rightarrow> 'm AtlasContents \<Rightarrow> 'm Entity \<Rightarrow> 'm RenderPass \<Rightarrow>
     error + (bool \<times> 'm RenderPass)" where
  "PorterDuff_Render E s entity pass =
     (case texture s of
        None \<Rightarrow> Inl NullDereference
      | Some tex \<Rightarrow>
          and_then
            (for_each [0..<length (texture_coords s)]
               (porter_duff_quad E s (Texture_GetSize tex)) [])
            (\<lambda>vtx_builder.
               let dst_sampler_descriptor =
                     (if SupportsDecalSamplerAddressMode E
                      then (sampler_descriptor s)\<lparr>width_address_mode := kDecal,
                                                    height_address_mode := kDecal\<rparr>
                      else sampler_descriptor s);
                   cmd = PorterDuffBlendCommand OptionsFromPass (GetClipDepth entity)
                           vtx_builder
                           (MatrixMultiply E (GetOrthographicTransform pass)
                              (GetTransform entity))
                           (GetYCoordScale tex) (porter_duff_frag_info E s)
                           tex dst_sampler_descriptor
               in Inr (Draw E cmd, pass\<lparr>commands := commands pass @ [cmd]\<rparr>)))"

section \<open>The dispatcher: \<^verbatim>\<open>AtlasContents::Render\<close>\<close>

text \<open>
  The strategy \<^verbatim>\<open>Render\<close> selects, with the child contents it has configured for it.
  The single-pass branch is handed no coverage; the compositing branch keeps
  \<^verbatim>\<open>coverage\<close> for the child it renders last.
\<close>

datatype 'm Strategy =
    NoOp
  | DirectTexture "'m AtlasTextureContents"
  | DirectColor "'m AtlasColorContents"
  | SinglePassBlend
  | Compositing Rect

definition select_strategy ::
  "'m collaborators \<Rightarrow> 'm AtlasContents \<Rightarrow> error + ('m Strategy \<times> 'm AtlasContents)" where
  "select_strategy E s =
     (if texture s = None \<or> blend_mode s = kClear \<or> alpha s \<le> 0 then Inr (NoOp, s)
      else
        and_then (ComputeBoundingBox E s) (\<lambda>(coverage, s').
          if blend_mode s' = kSource \<or> length (colors s') = 0
          then Inr (DirectTexture
                      ((AtlasTextureContents_new s')\<lparr>tex_alpha := alpha s',
                                                       tex_coverage := coverage\<rparr>), s')
          else if blend_mode s' = kDestination
          then Inr (DirectColor
                      ((AtlasColorContents_new s')\<lparr>col_alpha := alpha s',
                                                     col_coverage := coverage\<rparr>), s')
          else if blend_index (blend_mode s') \<le> blend_index kModulate
          then Inr (SinglePassBlend, s')
          else Inr (Compositing coverage, s')))"

text \<open>The three contents of the compositing branch.\<close>

definition sub_coverage :: "'m SubAtlasResult \<Rightarrow> Rect" where
  "sub_coverage sub_atlas =
     MakeSize (of_int (width (result_size sub_atlas)), of_int (height (result_size sub_atlas)))"

definition src_contents :: "'m AtlasContents \<Rightarrow> 'm SubAtlasResult \<Rightarrow> 'm AtlasTextureContents" where
  "src_contents s sub_atlas =
     (AtlasTextureContents_new s)\<lparr>tex_subatlas := Some sub_atlas,
                                   tex_coverage := sub_coverage sub_atlas\<rparr>"

definition dst_contents :: "'m AtlasContents \<Rightarrow> 'm SubAtlasResult \<Rightarrow> 'm AtlasColorContents" where
  "dst_contents s sub_atlas =
     (AtlasColorContents_new s)\<lparr>col_subatlas := Some sub_atlas,
                                 col_coverage := sub_coverage sub_atlas\<rparr>"

definition resample_contents ::
  "'m AtlasContents \<Rightarrow> Rect \<Rightarrow> Texture \<Rightarrow> 'm SubAtlasResult \<Rightarrow> 'm AtlasTextureContents" where
  "resample_contents s coverage snapshot_texture sub_atlas =
     (AtlasTextureContents_new s)\<lparr>tex_alpha := alpha s, tex_coverage := coverage,
                                   tex_texture := Some snapshot_texture,
                                   use_destination := True,
                                   tex_subatlas := Some sub_atlas\<rparr>"

text \<open>
  A child contents object is local to \<^verbatim>\<open>Render\<close>: it is configured, rendered and dropped.
  To keep what it was configured with observable, the strategies return, next to their
  result, the children that \<^verbatim>\<open>Render\<close> itself has rendered, in order.
\<close>

datatype 'm Rendered =
    RenderedTexture "'m AtlasTextureContents"
  | RenderedColor "'m AtlasColorContents"

fun child_coverage :: "'m Rendered \<Rightarrow> Rect" where
  "child_coverage (RenderedTexture child_contents) = tex_coverage child_contents"
| "child_coverage (RenderedColor child_contents) = col_coverage child_contents"

text \<open>
  The advanced-blend branch. The blend filter that renders \<open>dst_contents\<close> and
  \<open>src_contents\<close> into a snapshot is a collaborator; it yields a texture or nothing.
  The child rendered last resamples the snapshot.
\<close>

definition Compositing_Render ::
  "'m collaborators \<Rightarrow> 'm AtlasContents \<Rightarrow> Rect \<Rightarrow> 'm Entity \<Rightarrow> 'm RenderPass \<Rightarrow>
     error + (bool \<times> 'm RenderPass \<times> 'm Rendered list)" where
  "Compositing_Render E s coverage entity pass =
     and_then (GenerateSubAtlas E s) (\<lambda>sub_atlas.
       case RenderToSnapshot E (blend_mode s) (dst_contents s sub_atlas)
              (src_contents s sub_atlas) of
         None \<Rightarrow> Inr (False, pass, [])
       | Some snapshot_texture \<Rightarrow>
           let child_contents = resample_contents s coverage snapshot_texture sub_atlas
           in and_then (AtlasTextureContents_Render E child_contents entity pass)
                (\<lambda>(ok, pass'). Inr (ok, pass', [RenderedTexture child_contents])))"

definition run_strategy_logged ::
  "'m collaborators \<Rightarrow> 'm Strategy \<Rightarrow> 'm AtlasContents \<Rightarrow> 'm Entity \<Rightarrow> 'm RenderPass \<Rightarrow>
     error + (bool \<times> 'm RenderPass \<times> 'm Rendered list)" where
  "run_strategy_logged E strategy s entity pass =
     (case strategy of
        NoOp \<Rightarrow> Inr (True, pass, [])
      | DirectTexture child_contents \<Rightarrow>
          and_then (AtlasTextureContents_Render E child_contents entity pass)
            (\<lambda>(ok, pass'). Inr (ok, pass', [RenderedTexture child_contents]))
      | DirectColor child_contents \<Rightarrow>
          and_then (AtlasColorContents_Render E child_contents entity pass)
            (\<lambda>(ok, pass'). Inr (ok, pass', [RenderedColor child_contents]))
      | SinglePassBlend \<Rightarrow>
          and_then (PorterDuff_Render E s entity pass) (\<lambda>(ok, pass'). Inr (ok, pass', []))
      | Compositing coverage \<Rightarrow> Compositing_Render E s coverage entity pass)"

text \<open>The strategy's result proper: the success flag and the render pass afterwards.\<close>

definition run_strategy ::
  "'m collaborators \<Rightarrow> 'm Strategy \<Rightarrow> 'm AtlasContents \<Rightarrow> 'm Entity \<Rightarrow> 'm RenderPass \<Rightarrow>
     error + (bool \<times> 'm RenderPass)" where
  "run_strategy E strategy s entity pass =
     and_then (run_strategy_logged E strategy s entity pass) (\<lambda>(ok, pass', children).
       Inr (ok, pass'))"

text \<open>
  \<^verbatim>\<open>AtlasContents::Render\<close>: the success flag, the render pass afterwards and the instance
  set afterwards (only its bounding-box cache can have changed).
\<close>

definition Render ::
  "'m collaborators \<Rightarrow> 'm AtlasContents \<Rightarrow> 'm Entity \<Rightarrow> 'm RenderPass \<Rightarrow>
     error + (bool \<times> 'm RenderPass \<times> 'm AtlasContents)" where
  "Render E s entity pass =
     and_then (select_strategy E s) (\<lambda>(strategy, s').
     and_then (run_strategy E strategy s' entity pass) (\<lambda>(ok, pass').
       Inr (ok, pass', s')))"

text \<open>The children one call of \<^verbatim>\<open>Render\<close> renders.\<close>

definition Render_children ::
  "'m collaborators \<Rightarrow> 'm AtlasContents \<Rightarrow> 'm Entity \<Rightarrow> 'm RenderPass \<Rightarrow>
     error + 'm Rendered list" where
  "Render_children E s entity pass =
     and_then (select_strategy E s) (\<lambda>(strategy, s').
     and_then (run_strategy_logged E strategy s' entity pass) (\<lambda>(ok, pass', children).
       Inr children))"

section \<open>\<^verbatim>\<open>ComputePass::EncodeCommands\<close>\<close>

text \<open>
  The compute pass holds a weak pointer to its context: \<open>None\<close> once the context is
  gone. \<^verbatim>\<open>OnEncodeCommands\<close> is the backend's virtual function, a parameter here.
  \<^verbatim>\<open>FML_DLOG(WARNING)\<close> writes a diagnostic in a debug build and is compiled out under
  \<^verbatim>\<open>NDEBUG\<close>; \<open>dlog_enabled\<close> tells which build runs, and the model returns what was
  logged.
\<close>

record 'ctx ComputePass =
  pass_context :: "'ctx option"
  grid_size :: ISize
  thread_group_size :: ISize

datatype diagnostic = WARNING string

definition SetGridSize :: "ISize \<Rightarrow> 'ctx ComputePass \<Rightarrow> 'ctx ComputePass" where
  "SetGridSize sz p = p\<lparr>grid_size := sz\<rparr>"

definition SetThreadGroupSize :: "ISize \<Rightarrow> 'ctx ComputePass \<Rightarrow> 'ctx ComputePass" where
  "SetThreadGroupSize sz p = p\<lparr>thread_group_size := sz\<rparr>"

definition FML_DLOG :: "bool \<Rightarrow> diagnostic \<Rightarrow> diagnostic list" where
  "FML_DLOG dlog_enabled message = (if dlog_enabled then [message] else [])"

definition EncodeCommands ::
  "bool \<Rightarrow> ('ctx \<Rightarrow> ISize \<Rightarrow> ISize \<Rightarrow> bool) \<Rightarrow> 'ctx ComputePass \<Rightarrow>
     bool \<times> diagnostic list" where
  "EncodeCommands dlog_enabled OnEncodeCommands p =
     (if IsEmpty (grid_size p) \<or> IsEmpty (thread_group_size p)
      then (False,
            FML_DLOG dlog_enabled
              (WARNING ''Attempted to encode a compute pass with an empty grid or thread group size.''))
      else case pass_context p of
             None \<Rightarrow> (False, [])
           | Some ctx \<Rightarrow> (OnEncodeCommands ctx (grid_size p) (thread_group_size p), []))"

section \<open>The shelf-packing algorithm in the words of the specification\<close>

text \<open>
  The specification's own account of the packer, kept apart from the model of the code
  and compared with it below: a cursor \<open>(xOffset, yOffset)\<close> and running extents
  \<open>(xExtent, yExtent)\<close>, all starting at zero. They are \<^verbatim>\<open>Scalar\<close>s, and the sums below
  are sums of \<^verbatim>\<open>Scalar\<close>s, rounded by the floating-point unit of the environment: the
  sum that advances \<open>xOffset\<close> is taken in double precision and stored in single
  precision, the other two are taken in single precision.
\<close>

record spec_cursor =
  xOffset :: Scalar
  yOffset :: Scalar
  xExtent :: Scalar
  yExtent :: Scalar

definition spec_start :: spec_cursor where
  "spec_start = \<lparr>xOffset = 0, yOffset = 0, xExtent = 0, yExtent = 0\<rparr>"

text \<open>If \<open>xOffset >= 1000\<close>, start a new row: \<open>yOffset = yExtent + 1; xOffset = 0\<close>.\<close>

definition spec_new_row :: "'m collaborators \<Rightarrow> spec_cursor \<Rightarrow> spec_cursor" where
  "spec_new_row E c =
     (if xOffset c \<ge> 1000
      then c\<lparr>yOffset := RoundToFloat E (yExtent c + 1), xOffset := 0\<rparr> else c)"

text \<open>Place the group's rectangle at \<open>(xOffset, yOffset)\<close> with its original width and height.\<close>

definition spec_place :: "'m collaborators \<Rightarrow> spec_cursor \<Rightarrow> Rect \<Rightarrow> Rect" where
  "spec_place E c region =
     MakeXYWH (xOffset (spec_new_row E c)) (yOffset (spec_new_row E c))
       (GetWidth region) (GetHeight region)"

text \<open>
  Advance \<open>xOffset += ceil(width) + 1\<close>; update
  \<open>yExtent = max(yExtent, ceil(yOffset + height))\<close>, \<open>xExtent = max(xExtent, xOffset)\<close>.
\<close>

definition spec_advance :: "'m collaborators \<Rightarrow> spec_cursor \<Rightarrow> Rect \<Rightarrow> spec_cursor" where
  "spec_advance E c region =
     (let c1 = spec_new_row E c;
          c2 = c1\<lparr>xOffset :=
                     RoundToFloat E
                       (RoundToDouble E
                          (xOffset c1 + RoundToDouble E (of_int \<lceil>GetWidth region\<rceil> + 1)))\<rparr>;
          c3 = c2\<lparr>yExtent :=
                     max (yExtent c2)
                       (of_int \<lceil>RoundToFloat E (yOffset c2 + GetHeight region)\<rceil>)\<rparr>
      in c3\<lparr>xExtent := max (xExtent c3) (xOffset c3)\<rparr>)"

text \<open>The rectangles placed for the groups' regions, in iteration order, and the cursor at the end.\<close>

fun spec_shelf :: "'m collaborators \<Rightarrow> spec_cursor \<Rightarrow> Rect list \<Rightarrow> Rect list" where
  "spec_shelf E c [] = []"
| "spec_shelf E c (region # regions) =
     spec_place E c region # spec_shelf E (spec_advance E c region) regions"

fun spec_final :: "'m collaborators \<Rightarrow> spec_cursor \<Rightarrow> Rect list \<Rightarrow> spec_cursor" where
  "spec_final E c [] = c"
| "spec_final E c (region # regions) = spec_final E (spec_advance E c region) regions"

text \<open>Final canvas size = \<open>(ceil(xExtent), ceil(yExtent))\<close>.\<close>

definition spec_canvas :: "spec_cursor \<Rightarrow> ISize" where
  "spec_canvas c = \<lparr>width = \<lceil>xExtent c\<rceil>, height = \<lceil>yExtent c\<rceil>\<rparr>"

text \<open>
  For every member of a group, the group's placed rectangle is appended to the
  per-instance regions.
\<close>

definition placed_members :: "Rect list \<Rightarrow> (AtlasBlenderKey \<times> 'm list) list \<Rightarrow> Rect list" where
  "placed_members ps gs = concat (map2 (\<lambda>p g. replicate (length (snd g)) p) ps gs)"

definition origin_of :: "Rect \<Rightarrow> Point" where
  "origin_of r = (GetX r, GetY r)"

section \<open>Notions used in the statements and proofs\<close>

text \<open>
  All three parallel arrays have one length: the data-model invariant together with
  non-empty colours, or an instance set without instances.
\<close>

definition aligned :: "'m AtlasContents \<Rightarrow> bool" where
  "aligned s =
     (length (transforms s) = length (texture_coords s) \<and>
      length (colors s) = length (texture_coords s))"

text \<open>Every index of a texture region is an index of a colour and of a transform.\<close>

definition indexable :: "'m AtlasContents \<Rightarrow> bool" where
  "indexable s =
     (length (texture_coords s) \<le> length (colors s) \<and>
      length (texture_coords s) \<le> length (transforms s))"

text \<open>The entry assertion of \<^verbatim>\<open>GenerateSubAtlas\<close> holds or is compiled out.\<close>

definition entry_check_passes :: "'m collaborators \<Rightarrow> 'm AtlasContents \<Rightarrow> bool" where
  "entry_check_passes E s = (dchecks_enabled E \<longrightarrow> GenerateSubAtlas_precondition s)"

text \<open>The key and the body of the first loop when every index is in range.\<close>

definition key_of :: "'m collaborators \<Rightarrow> 'm AtlasContents \<Rightarrow> nat \<Rightarrow> AtlasBlenderKey" where
  "key_of E s i =
     \<lparr>color = colors s ! i, rect = texture_coords s ! i, color_key = ToIColor E (colors s ! i)\<rparr>"

definition group_step ::
  "AtlasBlenderKey \<Rightarrow> 'm \<Rightarrow> (AtlasBlenderKey \<times> 'm list) list \<Rightarrow> (AtlasBlenderKey \<times> 'm list) list" where
  "group_step key t m =
     (if sub_atlas_find key m = None then sub_atlas_insert key t m
      else sub_atlas_push_back key t m)"

text \<open>No two entries of the map have \<open>Equal\<close> keys.\<close>

fun keys_distinct :: "(AtlasBlenderKey \<times> 'm list) list \<Rightarrow> bool" where
  "keys_distinct [] = True"
| "keys_distinct (e # rest) =
     ((\<forall>e'\<in>set rest. \<not> Equal (fst e) (fst e')) \<and> keys_distinct rest)"

text \<open>The transforms, in order, of the instances seen so far whose key is \<open>Equal\<close> to \<open>k\<close>.\<close>

definition members_of :: "AtlasBlenderKey \<Rightarrow> (AtlasBlenderKey \<times> 'm) list \<Rightarrow> 'm list" where
  "members_of k kts = map snd (filter (\<lambda>p. Equal k (fst p)) kts)"

text \<open>The invariant of the first loop, after the instances \<open>kts\<close>.\<close>

definition grouping_inv ::
  "(AtlasBlenderKey \<times> 'm list) list \<Rightarrow> (AtlasBlenderKey \<times> 'm) list \<Rightarrow> bool" where
  "grouping_inv m kts =
     (keys_distinct m \<and> (\<forall>e\<in>set m. snd e = members_of (fst e) kts) \<and>
      (\<forall>p\<in>set kts. sub_atlas_find (fst p) m \<noteq> None))"

text \<open>The cursor part of the second loop's variables.\<close>

definition cursor_of :: "'m packer \<Rightarrow> spec_cursor" where
  "cursor_of p =
     \<lparr>xOffset = x_offset p, yOffset = y_offset p, xExtent = x_extent p, yExtent = y_extent p\<rparr>"









text \<open>The conditions under which the dispatcher reaches the single-pass branch.\<close>

definition single_pass_selected :: "'m AtlasContents \<Rightarrow> bool" where
  "single_pass_selected s =
     (blend_mode s \<noteq> kSource \<and> length (colors s) \<noteq> 0 \<and> blend_mode s \<noteq> kDestination \<and>
      blend_index (blend_mode s) \<le> blend_index kModulate)"

text \<open>
  The conditions under which the dispatcher reaches a direct strategy (texture only, or
  colour only).
\<close>

definition direct_selected :: "'m AtlasContents \<Rightarrow> bool" where
  "direct_selected s =
     (blend_mode s = kSource \<or> length (colors s) = 0 \<or> blend_mode s = kDestination)"






text \<open>The six vertices the loops append for instance \<open>i\<close> when its reads are in range.\<close>

definition texture_vertices ::
  "'m collaborators \<Rightarrow> Rect list \<Rightarrow> 'm list \<Rightarrow> ISize \<Rightarrow> nat \<Rightarrow> (Point \<times> Point) list" where
  "texture_vertices E coords matrices texture_size i =
     map (\<lambda>j. (quad_point (GetTransformedPoints E (MakeSize (GetSize (coords ! i))) (matrices ! i)) j,
                point_div (quad_point (GetPoints E (coords ! i)) j) texture_size)) indices"

definition color_vertices ::
  "'m collaborators \<Rightarrow> Rect list \<Rightarrow> 'm list \<Rightarrow> Color list \<Rightarrow> nat \<Rightarrow> (Point \<times> Color) list" where
  "color_vertices E coords matrices cols i =
     map (\<lambda>j. (quad_point (GetTransformedPoints E (MakeSize (GetSize (coords ! i))) (matrices ! i)) j,
                Premultiply (cols ! i))) indices"

definition porter_duff_vertices ::
  "'m collaborators \<Rightarrow> 'm AtlasContents \<Rightarrow> ISize \<Rightarrow> nat \<Rightarrow> (Point \<times> Point \<times> Color) list" where
  "porter_duff_vertices E s texture_size i =
     map (\<lambda>j. (quad_point (GetTransformedPoints E (MakeSize (GetSize (texture_coords s ! i)))
                              (transforms s ! i)) j,
                point_div (quad_point (GetPoints E (texture_coords s ! i)) j) texture_size,
                Premultiply (colors s ! i))) indices"

text \<open>The arrays and the texture a child contents renders from.\<close>

definition selected_texture :: "'m AtlasTextureContents \<Rightarrow> Texture option" where
  "selected_texture c = (case tex_texture c of Some t \<Rightarrow> Some t | None \<Rightarrow> texture (tex_parent c))"

definition selected_coords :: "'m AtlasTextureContents \<Rightarrow> Rect list" where
  "selected_coords c =
     (case tex_subatlas c of
        Some sub \<Rightarrow> if use_destination c then result_texture_coords sub else sub_texture_coords sub
      | None \<Rightarrow> texture_coords (tex_parent c))"

definition selected_matrices :: "'m AtlasTextureContents \<Rightarrow> 'm list" where
  "selected_matrices c =
     (case tex_subatlas c of
        Some sub \<Rightarrow> if use_destination c then result_transforms sub else sub_transforms sub
      | None \<Rightarrow> transforms (tex_parent c))"

definition color_coords :: "'m AtlasColorContents \<Rightarrow> Rect list" where
  "color_coords c =
     (case col_subatlas c of Some sub \<Rightarrow> sub_texture_coords sub
      | None \<Rightarrow> texture_coords (col_parent c))"

definition color_colors :: "'m AtlasColorContents \<Rightarrow> Color list" where
  "color_colors c =
     (case col_subatlas c of Some sub \<Rightarrow> sub_colors sub | None \<Rightarrow> colors (col_parent c))"

definition color_matrices :: "'m AtlasColorContents \<Rightarrow> 'm list" where
  "color_matrices c =
     (case col_subatlas c of Some sub \<Rightarrow> sub_transforms sub | None \<Rightarrow> transforms (col_parent c))"

text \<open>The output of a render call without the instance set: the flag and the pass.\<close>

definition render_output ::
  "error + (bool \<times> 'm RenderPass \<times> 'm AtlasContents) \<Rightarrow> error + (bool \<times> 'm RenderPass)" where
  "render_output res = and_then res (\<lambda>(ok, pass, s). Inr (ok, pass))"

text \<open>The draw each strategy submits when all its reads are in range, and the submission.\<close>

definition texture_command ::
  "'m collaborators \<Rightarrow> 'm AtlasTextureContents \<Rightarrow> Texture \<Rightarrow> 'm Entity \<Rightarrow> 'm RenderPass \<Rightarrow>
     'm Command" where
  "texture_command E c tex entity pass =
     TextureFillCommand ''AtlasTexture'' (OptionsFromPassAndEntity entity None)
       (GetClipDepth entity)
       (concat (map (texture_vertices E (selected_coords c) (selected_matrices c)
                       (Texture_GetSize tex)) [0..<length (selected_coords c)]))
       (MatrixMultiply E (GetOrthographicTransform pass) (GetTransform entity))
       (GetYCoordScale tex) (tex_alpha c) tex (sampler_descriptor (tex_parent c))"

definition color_command ::
  "'m collaborators \<Rightarrow> 'm AtlasColorContents \<Rightarrow> 'm Entity \<Rightarrow> 'm RenderPass \<Rightarrow> 'm Command" where
  "color_command E c entity pass =
     GeometryColorCommand ''AtlasColors'' (OptionsFromPassAndEntity entity (Some kSourceOver))
       (GetClipDepth entity)
       (concat (map (color_vertices E (color_coords c) (color_matrices c) (color_colors c))
                  [0..<length (color_coords c)]))
       (MatrixMultiply E (GetOrthographicTransform pass) (GetTransform entity))
       (col_alpha c)"

definition porter_duff_command ::
  "'m collaborators \<Rightarrow> 'm AtlasContents \<Rightarrow> Texture \<Rightarrow> 'm Entity \<Rightarrow> 'm RenderPass \<Rightarrow>
     'm Command" where
  "porter_duff_command E s tex entity pass =
     PorterDuffBlendCommand OptionsFromPass (GetClipDepth entity)
       (concat (map (porter_duff_vertices E s (Texture_GetSize tex))
                  [0..<length (texture_coords s)]))
       (MatrixMultiply E (GetOrthographicTransform pass) (GetTransform entity))
       (GetYCoordScale tex) (porter_duff_frag_info E s) tex
       (if SupportsDecalSamplerAddressMode E
        then (sampler_descriptor s)\<lparr>width_address_mode := kDecal, height_address_mode := kDecal\<rparr>
        else sampler_descriptor s)"

definition submit :: "'m collaborators \<Rightarrow> 'm Command \<Rightarrow> 'm RenderPass \<Rightarrow> bool \<times> 'm RenderPass" where
  "submit E cmd pass = (Draw E cmd, pass\<lparr>commands := commands pass @ [cmd]\<rparr>)"

text \<open>The strategies that read the colours.\<close>

definition colors_consumed :: "'m Strategy \<Rightarrow> bool" where
  "colors_consumed strategy =
     (case strategy of
        NoOp \<Rightarrow> False
      | DirectTexture child_contents \<Rightarrow> False
      | DirectColor child_contents \<Rightarrow> True
      | SinglePassBlend \<Rightarrow> True
      | Compositing coverage \<Rightarrow> True)"

section \<open>A concrete environment\<close>

text \<open>
  Concrete collaborators on which the model is evaluated: a matrix is a translation
  vector, \<open>Union\<close> is the smallest enclosing rectangle, the quantiser takes the integer part
  of each component scaled by 255, every draw succeeds and the hash map is iterated in
  insertion order. The floating-point unit rounds to the nearest number of 24 (single
  precision) or 53 (double precision) significant bits, ties to even, as IEEE 754
  prescribes (without a bound on the exponent), and a floating-point number that does
  not fit \<^verbatim>\<open>int64_t\<close> converts to the least 64-bit integer, as on x86-64.
\<close>

definition round_half_even :: "real \<Rightarrow> int" where
  "round_half_even r =
     (let f = \<lfloor>r\<rfloor>
      in if r - of_int f < 1 / 2 then f
         else if 1 / 2 < r - of_int f then f + 1
         else if even f then f else f + 1)"

definition unit_in_last_place :: "nat \<Rightarrow> real \<Rightarrow> real" where
  "unit_in_last_place p x = 2 powr of_int (\<lfloor>log 2 \<bar>x\<bar>\<rfloor> + 1 - int p)"

definition round_to_precision :: "nat \<Rightarrow> real \<Rightarrow> real" where
  "round_to_precision p x =
     (if x = 0 then 0
      else unit_in_last_place p x * of_int (round_half_even (x / unit_in_last_place p x)))"

definition demo_ConvertOutOfRange :: "int \<Rightarrow> 64 word" where
  "demo_ConvertOutOfRange n = word_of_int (- (2 ^ 63))"

definition demo_ToIColor :: "Color \<Rightarrow> 32 word" where
  "demo_ToIColor c =
     word_of_int \<lfloor>255 * opacity c\<rfloor> * 16777216 + word_of_int \<lfloor>255 * red c\<rfloor> * 65536 +
     word_of_int \<lfloor>255 * green c\<rfloor> * 256 + word_of_int \<lfloor>255 * blue c\<rfloor>"

definition demo_translate :: "Point \<Rightarrow> Point \<Rightarrow> Point" where
  "demo_translate m p = (fst p + fst m, snd p + snd m)"

definition demo_GetPoints :: "Rect \<Rightarrow> Quad" where
  "demo_GetPoints r =
     ((GetX r, GetY r), (GetX r + GetWidth r, GetY r),
      (GetX r, GetY r + GetHeight r), (GetX r + GetWidth r, GetY r + GetHeight r))"

definition demo_GetTransformedPoints :: "Rect \<Rightarrow> Point \<Rightarrow> Quad" where
  "demo_GetTransformedPoints r m =
     (case demo_GetPoints r of (p0, p1, p2, p3) \<Rightarrow>
        (demo_translate m p0, demo_translate m p1, demo_translate m p2, demo_translate m p3))"

definition demo_TransformBounds :: "Rect \<Rightarrow> Point \<Rightarrow> Rect" where
  "demo_TransformBounds r m =
     MakeXYWH (GetX r + fst m) (GetY r + snd m) (GetWidth r) (GetHeight r)"

definition demo_Union :: "Rect \<Rightarrow> Rect \<Rightarrow> Rect" where
  "demo_Union a b =
     (let l = min (GetX a) (GetX b); t = min (GetY a) (GetY b);
          r = max (GetX a + GetWidth a) (GetX b + GetWidth b);
          bt = max (GetY a + GetHeight a) (GetY b + GetHeight b)
      in MakeXYWH l t (r - l) (bt - t))"

definition demo_InvertPorterDuffBlend :: "BlendMode \<Rightarrow> BlendMode option" where
  "demo_InvertPorterDuffBlend m =
     (if m = kSourceOver then Some kDestinationOver
      else if m = kDestinationOver then Some kSourceOver
      else if m = kPlus then Some kPlus
      else None)"

definition demo_kPorterDuffCoefficients ::
  "nat \<Rightarrow> Scalar \<times> Scalar \<times> Scalar \<times> Scalar \<times> Scalar" where
  "demo_kPorterDuffCoefficients i =
     (if i = 1 then (1, 0, 0, 0, 0)
      else if i = 3 then (1, 0, 1, -1, 0)
      else if i = 4 then (1, -1, 1, 0, 0)
      else if i = 12 then (1, 0, 1, 0, 0)
      else (0, 0, 0, 0, 0))"

definition demo_texture :: Texture where
  "demo_texture = \<lparr>Texture_GetSize = \<lparr>width = 64, height = 64\<rparr>, GetYCoordScale = 1\<rparr>"

definition demo_RenderToSnapshot ::
  "BlendMode \<Rightarrow> Point AtlasColorContents \<Rightarrow> Point AtlasTextureContents \<Rightarrow> Texture option" where
  "demo_RenderToSnapshot m dst src = Some demo_texture"

definition demo_Draw :: "Point Command \<Rightarrow> bool" where
  "demo_Draw cmd = True"

definition demo_HashCombine :: "32 word \<Rightarrow> Scalar \<Rightarrow> Scalar \<Rightarrow> Scalar \<Rightarrow> Scalar \<Rightarrow> nat" where
  "demo_HashCombine k w h x y = unat k + nat \<lfloor>w\<rfloor> + nat \<lfloor>h\<rfloor> + nat \<lfloor>x\<rfloor> + nat \<lfloor>y\<rfloor>"

definition demo_iteration_order ::
  "(AtlasBlenderKey \<times> Point list) list \<Rightarrow> (AtlasBlenderKey \<times> Point list) list" where
  "demo_iteration_order m = m"

definition demo_collaborators :: "Point collaborators" where
  "demo_collaborators =
     \<lparr>ToIColor = demo_ToIColor, HashCombine = demo_HashCombine,
      iteration_order = demo_iteration_order, dchecks_enabled = True,
      MakeTranslation = id, MatrixMultiply = demo_translate,
      TransformBounds = demo_TransformBounds, Union = demo_Union,
      GetPoints = demo_GetPoints, GetTransformedPoints = demo_GetTransformedPoints,
      InvertPorterDuffBlend = demo_InvertPorterDuffBlend,
      kPorterDuffCoefficients = demo_kPorterDuffCoefficients,
      SupportsDecalSamplerAddressMode = True,
      RenderToSnapshot = demo_RenderToSnapshot, Draw = demo_Draw,
      RoundToFloat = round_to_precision 24, RoundToDouble = round_to_precision 53,
      ConvertOutOfRange = demo_ConvertOutOfRange\<rparr>"

definition demo_entity :: "Point Entity" where
  "demo_entity = \<lparr>GetTransform = (0, 0), GetClipDepth = 0\<rparr>"

definition demo_pass :: "Point RenderPass" where
  "demo_pass = \<lparr>GetOrthographicTransform = (0, 0), commands = []\<rparr>"

definition white :: Color where
  "white = \<lparr>red = 1, green = 1, blue = 1, opacity = 1\<rparr>"

definition demo_sampler :: SamplerDescriptor where
  "demo_sampler = \<lparr>width_address_mode = kClampToEdge, height_address_mode = kClampToEdge\<rparr>"

text \<open>One instance of region (0,0,50,50) at the origin, cull rect (0,0,5,5), blend mode source.\<close>

definition cull_rect_atlas :: "Point AtlasContents" where
  "cull_rect_atlas =
     \<lparr>texture = Some demo_texture, texture_coords = [MakeXYWH 0 0 50 50], colors = [white],
      transforms = [(0, 0)], blend_mode = kSource, cull_rect = Some (MakeXYWH 0 0 5 5),
      bounding_box_cache = None, alpha = 1, sampler_descriptor = demo_sampler\<rparr>"

text \<open>The same instance and cull rect under an advanced blend mode.\<close>

definition cull_rect_multiply_atlas :: "Point AtlasContents" where
  "cull_rect_multiply_atlas = cull_rect_atlas\<lparr>blend_mode := kMultiply\<rparr>"

text \<open>A backend that encodes successfully, and a compute pass whose grid size is (0,0).\<close>

definition demo_OnEncodeCommands :: "unit \<Rightarrow> ISize \<Rightarrow> ISize \<Rightarrow> bool" where
  "demo_OnEncodeCommands ctx grid threads = True"

definition empty_grid_pass :: "unit ComputePass" where
  "empty_grid_pass =
     SetThreadGroupSize \<lparr>width = 8, height = 8\<rparr>
       (SetGridSize \<lparr>width = 0, height = 0\<rparr>
          \<lparr>pass_context = Some (), grid_size = \<lparr>width = 1, height = 1\<rparr>,
           thread_group_size = \<lparr>width = 1, height = 1\<rparr>\<rparr>)"

text \<open>
  Three instances under an advanced blend mode; the first and the third share their
  region and colour.
\<close>

definition dedup_atlas :: "Point AtlasContents" where
  "dedup_atlas =
     \<lparr>texture = Some demo_texture,
      texture_coords = [MakeXYWH 0 0 4 4, MakeXYWH 8 0 6 3, MakeXYWH 0 0 4 4],
      colors = [white, white, white],
      transforms = [(10, 10), (20, 20), (30, 30)],
      blend_mode = kMultiply, cull_rect = None,
      bounding_box_cache = None, alpha = 1, sampler_descriptor = demo_sampler\<rparr>"

definition white_key :: "Rect \<Rightarrow> AtlasBlenderKey" where
  "white_key r = \<lparr>color = white, rect = r, color_key = 4294967295\<rparr>"



text \<open>
  One instance whose region is \<open>2^24\<close> wide and 1 high, and one instance whose region is
  \<open>2^63\<close> wide and 1 high.
\<close>

definition tie_width_atlas :: "Point AtlasContents" where
  "tie_width_atlas =
     \<lparr>texture = Some demo_texture,
      texture_coords = [MakeXYWH 0 0 16777216 1],
      colors = [white],
      transforms = [(10, 10)],
      blend_mode = kMultiply, cull_rect = None,
      bounding_box_cache = None, alpha = 1, sampler_descriptor = demo_sampler\<rparr>"

definition huge_width_atlas :: "Point AtlasContents" where
  "huge_width_atlas =
     \<lparr>texture = Some demo_texture,
      texture_coords = [MakeXYWH 0 0 9223372036854775808 1],
      colors = [white],
      transforms = [(10, 10)],
      blend_mode = kMultiply, cull_rect = None,
      bounding_box_cache = None, alpha = 1, sampler_descriptor = demo_sampler\<rparr>"

text \<open>
  One white instance of region (0,0,10,10) at the origin under source-over, and an
  instance set without instances under source.
\<close>

definition source_over_atlas :: "Point AtlasContents" where
  "source_over_atlas =
     \<lparr>texture = Some demo_texture, texture_coords = [MakeXYWH 0 0 10 10], colors = [white],
      transforms = [(0, 0)], blend_mode = kSourceOver, cull_rect = None,
      bounding_box_cache = None, alpha = 1, sampler_descriptor = demo_sampler\<rparr>"

definition empty_source_atlas :: "Point AtlasContents" where
  "empty_source_atlas =
     \<lparr>texture = Some demo_texture, texture_coords = [], colors = [],
      transforms = [], blend_mode = kSource, cull_rect = None,
      bounding_box_cache = None, alpha = 1, sampler_descriptor = demo_sampler\<rparr>"

text \<open>
  Two instances of one region whose colours differ in the red component (0.5 and 0.501)
  and quantise to the same value.
\<close>

definition half_red :: Color where
  "half_red = \<lparr>red = 1 / 2, green = 1, blue = 1, opacity = 1\<rparr>"

definition near_half_red :: Color where
  "near_half_red = \<lparr>red = 501 / 1000, green = 1, blue = 1, opacity = 1\<rparr>"

definition quantized_atlas :: "Point AtlasContents" where
  "quantized_atlas =
     \<lparr>texture = Some demo_texture,
      texture_coords = [MakeXYWH 0 0 4 4, MakeXYWH 0 0 4 4],
      colors = [half_red, near_half_red],
      transforms = [(10, 10), (20, 20)],
      blend_mode = kMultiply, cull_rect = None,
      bounding_box_cache = None, alpha = 1, sampler_descriptor = demo_sampler\<rparr>"

text \<open>Three instances with three different regions, two of them 600 wide.\<close>

definition wide_atlas :: "Point AtlasContents" where
  "wide_atlas =
     \<lparr>texture = Some demo_texture,
      texture_coords = [MakeXYWH 0 0 600 10, MakeXYWH 0 0 600 20, MakeXYWH 0 0 10 10],
      colors = [white, white, white],
      transforms = [(10, 10), (20, 20), (30, 30)],
      blend_mode = kMultiply, cull_rect = None,
      bounding_box_cache = None, alpha = 1, sampler_descriptor = demo_sampler\<rparr>"

section \<open>Sequencing and the bounding-box cache\<close>

lemma and_then_Inr_iff:
  "and_then x f = Inr y \<longleftrightarrow> (\<exists>a. x = Inr a \<and> f a = Inr y)"
  by (cases x) simp_all

lemma ComputeBoundingBox_frame:
  "ComputeBoundingBox E s = Inr (bb, s') \<Longrightarrow> s' = s\<lparr>bounding_box_cache := Some bb\<rparr>"
  by (auto simp: ComputeBoundingBox_def and_then_Inr_iff split: option.splits)

lemma cull_rect_atlas_bounding_box:
  "ComputeBoundingBox demo_collaborators cull_rect_atlas =
     Inr (MakeXYWH 0 0 50 50, cull_rect_atlas\<lparr>bounding_box_cache := Some (MakeXYWH 0 0 50 50)\<rparr>)"
  by (simp add: ComputeBoundingBox_def cull_rect_atlas_def extend_bounding_box_def vector_at_def
        demo_collaborators_def demo_TransformBounds_def demo_Union_def MakeSize_def GetSize_def
        MakeXYWH_def Let_def)

lemma and_then_drop_log:
  "and_then (and_then x (\<lambda>(ok, pass'). Inr (ok, pass', children))) (\<lambda>(ok, pass', children). Inr (ok, pass')) = x"
  by (cases x) auto

lemma run_strategy_cases:
  "run_strategy E strategy s entity pass =
     (case strategy of
        NoOp \<Rightarrow> Inr (True, pass)
      | DirectTexture child_contents \<Rightarrow> AtlasTextureContents_Render E child_contents entity pass
      | DirectColor child_contents \<Rightarrow> AtlasColorContents_Render E child_contents entity pass
      | SinglePassBlend \<Rightarrow> PorterDuff_Render E s entity pass
      | Compositing coverage \<Rightarrow>
          and_then (Compositing_Render E s coverage entity pass) (\<lambda>(ok, pass', children).
            Inr (ok, pass')))"
  by (cases strategy) (simp_all add: run_strategy_def run_strategy_logged_def and_then_drop_log)

section \<open>Grouping: the first loop of the packer\<close>

lemma for_each_pure:
  "(\<And>i a. i \<in> set is \<Longrightarrow> body i a = Inr (g i a)) \<Longrightarrow> for_each is body a = Inr (fold g is a)"
  by (induction "is" arbitrary: a) simp_all

lemma aligned_indexable: "aligned s \<Longrightarrow> indexable s"
  by (simp add: aligned_def indexable_def)

lemma invariant_aligned:
  "length_invariant s \<Longrightarrow> GenerateSubAtlas_precondition s \<Longrightarrow> aligned s"
  by (auto simp: length_invariant_def GenerateSubAtlas_precondition_def aligned_def)

lemma instance_key_indexable:
  "indexable s \<Longrightarrow> i < length (texture_coords s) \<Longrightarrow> instance_key E s i = Inr (key_of E s i)"
  by (simp add: indexable_def instance_key_def vector_at_def key_of_def)

lemma group_instance_indexable:
  "indexable s \<Longrightarrow> i < length (texture_coords s) \<Longrightarrow>
   group_instance E s i m = Inr (group_step (key_of E s i) (transforms s ! i) m)"
  by (simp add: group_instance_def instance_key_indexable group_step_def)
     (simp add: indexable_def vector_at_def)

lemma group_instances_indexable:
  "indexable s \<Longrightarrow>
   group_instances E s =
     Inr (fold (\<lambda>i. group_step (key_of E s i) (transforms s ! i))
            [0..<length (texture_coords s)] [])"
  unfolding group_instances_def
  by (rule for_each_pure) (simp add: group_instance_indexable)

lemma push_back_members:
  "sub_atlas_find key m \<noteq> None \<Longrightarrow>
   mset (concat (map snd (sub_atlas_push_back key t m))) = mset (concat (map snd m)) + {#t#}"
  by (induction key t m rule: sub_atlas_push_back.induct) auto

lemma group_step_members:
  "mset (concat (map snd (group_step key t m))) = mset (concat (map snd m)) + {#t#}"
  by (simp add: group_step_def push_back_members sub_atlas_insert_def)

lemma fold_group_step_members:
  "mset (concat (map snd (fold (\<lambda>i. group_step (K i) (T i)) is m))) = mset (concat (map snd m)) + mset (map T is)"
  by (induction "is" arbitrary: m) (simp_all add: group_step_members)

lemma group_instances_members:
  assumes "aligned s" "group_instances E s = Inr G"
  shows "mset (concat (map snd G)) = mset (transforms s)"
proof -
  let ?T = "\<lambda>i. transforms s ! i"
  have G: "G = fold (\<lambda>i. group_step (key_of E s i) (?T i)) [0..<length (texture_coords s)] []"
    using assms by (simp add: group_instances_indexable aligned_indexable)
  have "mset (concat (map snd G)) = mset (concat (map snd [])) + mset (map ?T [0..<length (texture_coords s)])"
    unfolding G using fold_group_step_members[of "key_of E s" "(!) (transforms s)" _ "[]"] by simp
  also have "map ?T [0..<length (texture_coords s)] = transforms s"
    using assms(1) map_nth[of "transforms s"] by (simp add: aligned_def)
  finally show ?thesis by simp
qed

lemma Equal_refl: "Equal a a" by (simp add: Equal_def)

lemma Equal_sym: "Equal a b \<Longrightarrow> Equal b a" by (simp add: Equal_def)

lemma Equal_trans: "Equal a b \<Longrightarrow> Equal b c \<Longrightarrow> Equal a c" by (simp add: Equal_def)

lemma find_None_iff: "sub_atlas_find key m = None \<longleftrightarrow> (\<forall>e\<in>set m. \<not> Equal (fst e) key)"
  by (induction key m rule: sub_atlas_find.induct) auto

lemma find_Some_D: "sub_atlas_find key m = Some e \<Longrightarrow> e \<in> set m \<and> Equal (fst e) key"
  by (induction key m rule: sub_atlas_find.induct) (auto split: if_splits)

lemma find_cong: "Equal a b \<Longrightarrow> sub_atlas_find a m = sub_atlas_find b m"
  by (induction a m rule: sub_atlas_find.induct) (auto simp: Equal_def)

lemma find_append:
  "sub_atlas_find key (m @ m') = (case sub_atlas_find key m of Some e \<Rightarrow> Some e | None \<Rightarrow> sub_atlas_find key m')"
  by (induction key m rule: sub_atlas_find.induct) auto

lemma keys_distinct_append:
  "keys_distinct (m @ [e]) \<longleftrightarrow> keys_distinct m \<and> (\<forall>e'\<in>set m. \<not> Equal (fst e') (fst e))"
  by (induction m) auto

lemma push_back_map:
  "keys_distinct m \<Longrightarrow>
   sub_atlas_push_back key t m = map (\<lambda>e. if Equal (fst e) key then (fst e, snd e @ [t]) else e) m"
proof (induction key t m rule: sub_atlas_push_back.induct)
  case (1 key t)
  then show ?case by simp
next
  case (2 key t k ts rest)
  show ?case
  proof (cases "Equal k key")
    case True
    have "\<forall>e'\<in>set rest. \<not> Equal (fst e') key"
      using 2(2) True by (auto simp: Equal_def)
    then have "map (\<lambda>e. if Equal (fst e) key then (fst e, snd e @ [t]) else e) rest = rest"
      by (induction rest) auto
    with True show ?thesis by simp
  next
    case False
    with 2 show ?thesis by simp
  qed
qed

lemma grouping_inv_step:
  assumes "grouping_inv m kts"
  shows "grouping_inv (group_step key t m) (kts @ [(key, t)])"
proof (cases "sub_atlas_find key m = None")
  case True
  then have none: "\<forall>e\<in>set m. \<not> Equal (fst e) key" by (simp add: find_None_iff)
  have fresh: "members_of key kts = []"
  proof -
    have "\<not> Equal key (fst p)" if "p \<in> set kts" for p
    proof
      assume eq: "Equal key (fst p)"
      from assms that obtain e where "e \<in> set m" "Equal (fst e) (fst p)"
        by (auto simp: grouping_inv_def find_None_iff)
      then have "Equal (fst e) key" using eq by (auto simp: Equal_def)
      with none \<open>e \<in> set m\<close> show False by blast
    qed
    then show ?thesis by (simp add: members_of_def filter_empty_conv)
  qed
  have step: "group_step key t m = m @ [(key, [t])]"
    using True by (simp add: group_step_def sub_atlas_insert_def)
  show ?thesis
    unfolding step grouping_inv_def
  proof (intro conjI ballI)
    show "keys_distinct (m @ [(key, [t])])"
      using assms none by (simp add: keys_distinct_append grouping_inv_def)
  next
    fix e assume "e \<in> set (m @ [(key, [t])])"
    then show "snd e = members_of (fst e) (kts @ [(key, t)])"
      using assms none fresh by (auto simp: grouping_inv_def members_of_def Equal_refl)
  next
    fix p assume "p \<in> set (kts @ [(key, t)])"
    then show "sub_atlas_find (fst p) (m @ [(key, [t])]) \<noteq> None"
      using assms by (auto simp: grouping_inv_def find_append Equal_refl split: option.splits)
  qed
next
  case False
  have kd: "keys_distinct m" using assms by (simp add: grouping_inv_def)
  let ?f = "\<lambda>e::AtlasBlenderKey \<times> 'a list. if Equal (fst e) key then (fst e, snd e @ [t]) else e"
  have step: "group_step key t m = map ?f m"
    using False by (simp add: group_step_def push_back_map[OF kd] del: not_None_eq)
  have fst_f: "fst (?f e) = fst e" for e by simp
  have kd': "keys_distinct (map ?f m)"
    using kd by (induction m) auto
  have find_f: "sub_atlas_find k (map ?f m) = map_option ?f (sub_atlas_find k m)" for k
    by (induction k m rule: sub_atlas_find.induct) auto
  show ?thesis
    unfolding step grouping_inv_def
  proof (intro conjI ballI)
    show "keys_distinct (map ?f m)" by (rule kd')
  next
    fix e assume "e \<in> set (map ?f m)"
    then obtain e0 where e0: "e0 \<in> set m" "e = ?f e0" unfolding set_map by blast
    then have "snd e0 = members_of (fst e0) kts" using assms by (simp add: grouping_inv_def)
    then show "snd e = members_of (fst e) (kts @ [(key, t)])"
      using e0 by (auto simp: members_of_def)
  next
    fix p assume "p \<in> set (kts @ [(key, t)])"
    then show "sub_atlas_find (fst p) (map ?f m) \<noteq> None"
      using assms False by (auto simp: grouping_inv_def find_f)
  qed
qed

lemma grouping_inv_fold:
  "grouping_inv m kts \<Longrightarrow>
   grouping_inv (fold (\<lambda>i. group_step (K i) (T i)) is m) (kts @ map (\<lambda>i. (K i, T i)) is)"
proof (induction "is" arbitrary: m kts)
  case Nil
  then show ?case by simp
next
  case (Cons i "is")
  from grouping_inv_step[OF Cons.prems, of "K i" "T i"]
  have "grouping_inv (group_step (K i) (T i) m) (kts @ [(K i, T i)])" .
  from Cons.IH[OF this] show ?case by simp
qed

lemma grouping_inv_instances:
  assumes "indexable s" "group_instances E s = Inr G"
  shows "grouping_inv G (map (\<lambda>i. (key_of E s i, transforms s ! i)) [0..<length (texture_coords s)])"
proof -
  have "grouping_inv ([] :: (AtlasBlenderKey \<times> 'a list) list) []"
    by (simp add: grouping_inv_def)
  from grouping_inv_fold[OF this, of "key_of E s" "\<lambda>i. transforms s ! i" "[0..<length (texture_coords s)]"]
  show ?thesis using assms by (simp add: group_instances_indexable)
qed

section \<open>Packing: the second loop of the packer\<close>

lemma cursor_of_pack_entry:
  "cursor_of (pack_entry E g p) = spec_advance E (cursor_of p) (rect (fst g))"
  by (simp add: pack_entry_def cursor_of_def spec_advance_def spec_new_row_def Let_def)

lemma result_pack_entry:
  "result (pack_entry E g p) =
     (result p)\<lparr>sub_texture_coords := sub_texture_coords (result p) @ [rect (fst g)],
       sub_colors := sub_colors (result p) @ [color (fst g)],
       sub_transforms := sub_transforms (result p) @ [MakeTranslation E (origin_of (spec_place E (cursor_of p) (rect (fst g))))],
       result_texture_coords := result_texture_coords (result p) @ replicate (length (snd g)) (spec_place E (cursor_of p) (rect (fst g))),
       result_transforms := result_transforms (result p) @ snd g\<rparr>"
  by (simp add: pack_entry_def cursor_of_def spec_place_def spec_new_row_def Let_def origin_of_def MakeXYWH_def)

lemma fold_pack_entry:
  "cursor_of (fold (pack_entry E) gs p) = spec_final E (cursor_of p) (map (rect \<circ> fst) gs) \<and>
   result (fold (pack_entry E) gs p) =
     (result p)\<lparr>sub_texture_coords := sub_texture_coords (result p) @ map (rect \<circ> fst) gs,
       sub_colors := sub_colors (result p) @ map (color \<circ> fst) gs,
       sub_transforms := sub_transforms (result p) @
          map (MakeTranslation E \<circ> origin_of) (spec_shelf E (cursor_of p) (map (rect \<circ> fst) gs)),
       result_texture_coords := result_texture_coords (result p) @
          placed_members (spec_shelf E (cursor_of p) (map (rect \<circ> fst) gs)) gs,
       result_transforms := result_transforms (result p) @ concat (map snd gs)\<rparr>"
proof (induction gs arbitrary: p)
  case Nil
  show ?case by (simp add: placed_members_def)
next
  case (Cons g gs)
  show ?case
    by (simp add: Cons.IH cursor_of_pack_entry result_pack_entry placed_members_def)
qed

lemma pack_entries_spec:
  "pack_entries E gs =
     \<lparr>sub_texture_coords = map (rect \<circ> fst) gs,
      sub_colors = map (color \<circ> fst) gs,
      sub_transforms = map (MakeTranslation E \<circ> origin_of) (spec_shelf E spec_start (map (rect \<circ> fst) gs)),
      result_texture_coords = placed_members (spec_shelf E spec_start (map (rect \<circ> fst) gs)) gs,
      result_transforms = concat (map snd gs),
      result_size =
        \<lparr>width = to_int64 E (width (spec_canvas (spec_final E spec_start (map (rect \<circ> fst) gs)))),
         height = to_int64 E (height (spec_canvas (spec_final E spec_start (map (rect \<circ> fst) gs))))\<rparr>\<rparr>"
proof -
  have c0: "cursor_of (packer_init :: 'a packer) = spec_start"
    by (simp add: cursor_of_def packer_init_def spec_start_def)
  have sz: "\<lparr>width = to_int64 E \<lceil>x_extent p\<rceil>, height = to_int64 E \<lceil>y_extent p\<rceil>\<rparr> =
            \<lparr>width = to_int64 E (width (spec_canvas (cursor_of p))),
             height = to_int64 E (height (spec_canvas (cursor_of p)))\<rparr>" for p :: "'a packer"
    by (simp add: spec_canvas_def cursor_of_def)
  show ?thesis
    unfolding pack_entries_def Let_def sz
    using fold_pack_entry[of E gs packer_init]
    by (simp add: c0) (simp add: packer_init_def empty_result_def)
qed

lemma to_int64_fits: "fits_int64 n \<Longrightarrow> to_int64 E n = n"
  by (simp add: to_int64_def)

lemma length_spec_shelf: "length (spec_shelf E c regions) = length regions"
  by (induction regions arbitrary: c) simp_all




subsection \<open>The shelf in exact arithmetic\<close>
















subsection \<open>The demo floating-point unit\<close>

lemma round_half_even_of_int: "round_half_even (of_int n) = n"
  by (simp add: round_half_even_def)

lemma unit_in_last_place_eq:
  assumes "2 powr of_int e \<le> \<bar>x\<bar>" and "\<bar>x\<bar> < 2 powr of_int (e + 1)"
  shows "unit_in_last_place p x = 2 powr of_int (e + 1 - int p)"
proof -
  have "0 < \<bar>x\<bar>" using assms(1) by (smt (verit) powr_gt_zero)
  then have "\<lfloor>log 2 \<bar>x\<bar>\<rfloor> = e"
    using assms by (simp add: floor_log_eq_powr_iff)
  then show ?thesis by (simp add: unit_in_last_place_def)
qed

lemma round_to_precision_whole:
  assumes "x \<in> \<int>" and "\<bar>x\<bar> \<le> 2 ^ p" and "0 < p"
  shows "round_to_precision p x = x"
proof (cases "x = 0")
  case True
  then show ?thesis by (simp add: round_to_precision_def)
next
  case False
  from assms(1) obtain n where n: "x = of_int n" by (auto elim: Ints_cases)
  with False have "n \<noteq> 0" by simp
  then have one: "1 \<le> \<bar>x\<bar>" unfolding n by (simp flip: of_int_abs)
  define e where "e = \<lfloor>log 2 \<bar>x\<bar>\<rfloor>"
  have pos: "0 < \<bar>x\<bar>" using one by simp
  have bounds: "2 powr of_int e \<le> \<bar>x\<bar>" "\<bar>x\<bar> < 2 powr of_int (e + 1)"
    using floor_log_eq_powr_iff[of "\<bar>x\<bar>" 2 e] pos by (simp_all add: e_def)
  have e0: "0 \<le> e" unfolding e_def using one by simp
  have "log 2 \<bar>x\<bar> \<le> log 2 (2 ^ p)"
    using pos assms(2) by (simp del: log_pow_cancel)
  then have "log 2 \<bar>x\<bar> \<le> of_nat p" by simp
  then have ep: "e \<le> int p" unfolding e_def by (simp add: floor_le_iff)
  define u where "u = unit_in_last_place p x"
  have u: "u = 2 powr of_int (e + 1 - int p)"
    by (simp add: u_def unit_in_last_place_def e_def)
  have "u * of_int (round_half_even (x / u)) = x"
  proof (cases "e = int p")
    case True
    then have u2: "u = 2" by (simp add: u)
    from bounds(1) True have "2 ^ p \<le> \<bar>x\<bar>" by (simp add: powr_realpow)
    with assms(2) have ax: "\<bar>x\<bar> = 2 ^ p" by simp
    then have "\<bar>n\<bar> = 2 ^ p" unfolding n
      by (metis of_int_abs of_int_eq_iff of_int_numeral of_int_power)
    then have "even n" using assms(3) by (metis even_abs_add_iff even_add even_numeral even_power)
    then obtain m where m: "n = 2 * m" by (auto elim: evenE)
    have "x / u = of_int m" by (simp add: u2 n m)
    then show ?thesis by (simp add: round_half_even_of_int u2 n m)
  next
    case False
    with ep have le: "e + 1 - int p \<le> 0" by simp
    define k where "k = nat (int p - e - 1)"
    have u3: "u = 1 / 2 ^ k"
    proof (cases "e + 1 - int p = 0")
      case True
      then show ?thesis by (simp add: u k_def)
    next
      case False
      with le have neg: "e + 1 - int p < 0" by simp
      have "2 powr real_of_int (e + 1 - int p) = 1 / 2 ^ nat (- (e + 1 - int p))"
        using neg by (simp only: powr_int) simp
      moreover have "- (e + 1 - int p) = int p - e - 1" by simp
      ultimately show ?thesis unfolding u k_def by (simp only:)
    qed
    have "x / u = of_int (n * 2 ^ k)" by (simp add: u3 n)
    then have "round_half_even (x / u) = n * 2 ^ k" by (simp only: round_half_even_of_int)
    then show ?thesis by (simp add: u3 n)
  qed
  then show ?thesis using \<open>x \<noteq> 0\<close> by (simp add: round_to_precision_def u_def)
qed

lemma round_to_precision_eval:
  assumes "x \<noteq> 0" and "2 powr of_int e \<le> \<bar>x\<bar>" and "\<bar>x\<bar> < 2 powr of_int (e + 1)"
  shows "round_to_precision p x =
           2 powr of_int (e + 1 - int p) * of_int (round_half_even (x / 2 powr of_int (e + 1 - int p)))"
  using assms by (simp add: round_to_precision_def unit_in_last_place_eq[OF assms(2,3)])

lemma demo_float_whole:
  "x \<in> \<int> \<Longrightarrow> \<bar>x\<bar> \<le> 16777216 \<Longrightarrow> RoundToFloat demo_collaborators x = x"
  using round_to_precision_whole[of x 24] by (simp add: demo_collaborators_def)

lemma demo_double_whole:
  "x \<in> \<int> \<Longrightarrow> \<bar>x\<bar> \<le> 9007199254740992 \<Longrightarrow> RoundToDouble demo_collaborators x = x"
  using round_to_precision_whole[of x 53] by (simp add: demo_collaborators_def)


text \<open>The tie \<open>2^24 + 1\<close> goes to the even neighbour \<open>2^24\<close>.\<close>

lemma demo_float_tie: "RoundToFloat demo_collaborators 16777217 = 16777216"
  unfolding demo_collaborators_def
  by (simp, subst round_to_precision_eval[where e = 24]) (simp_all add: round_half_even_def)

lemma demo_double_2_63_plus_1:
  "RoundToDouble demo_collaborators 9223372036854775809 = 9223372036854775808"
  unfolding demo_collaborators_def
  by (simp, subst round_to_precision_eval[where e = 63]) (simp_all add: round_half_even_def)

lemma demo_double_2_63:
  "RoundToDouble demo_collaborators 9223372036854775808 = 9223372036854775808"
  unfolding demo_collaborators_def
  by (simp, subst round_to_precision_eval[where e = 63]) (simp_all add: round_half_even_def)

lemma demo_float_2_63:
  "RoundToFloat demo_collaborators 9223372036854775808 = 9223372036854775808"
  unfolding demo_collaborators_def
  by (simp, subst round_to_precision_eval[where e = 63]) (simp_all add: round_half_even_def)

subsection \<open>On pixel regions the packer's arithmetic is exact\<close>










section \<open>The packer as a whole\<close>

lemma GenerateSubAtlas_indexable:
  assumes "entry_check_passes E s" "indexable s"
  shows "\<exists>G. group_instances E s = Inr G \<and>
             GenerateSubAtlas E s = Inr (pack_entries E (iteration_order E G))"
  using assms
  by (auto simp: GenerateSubAtlas_def entry_check_passes_def group_instances_indexable)









lemma mset_concat_map_perm:
  "mset xs = mset ys \<Longrightarrow> mset (concat (map f xs)) = mset (concat (map f ys))"
proof -
  assume a: "mset xs = mset ys"
  have eq: "mset (concat (map f zs)) = (\<Sum>z\<in>#mset zs. mset (f z))" for zs
    by (induction zs) simp_all
  show ?thesis unfolding eq a ..
qed

lemma length_concat_members:
  "length (concat (map snd gs)) = sum_list (map (length \<circ> snd) gs)"
  by (induction gs) simp_all


lemma length_placed_members:
  "length ps = length gs \<Longrightarrow> length (placed_members ps gs) = sum_list (map (length \<circ> snd) gs)"
  unfolding placed_members_def
  by (induction ps gs rule: list_induct2) simp_all

lemma visits_set: "visits_each_entry_once E \<Longrightarrow> set (iteration_order E m) = set m"
proof -
  assume "visits_each_entry_once E"
  then have "mset (iteration_order E m) = mset m" by (simp add: visits_each_entry_once_def)
  then show ?thesis by (rule mset_eq_setD)
qed

lemma visits_sum:
  "visits_each_entry_once E \<Longrightarrow>
   sum_list (map (length \<circ> snd) (iteration_order E m)) = sum_list (map (length \<circ> snd) m)"
proof -
  assume "visits_each_entry_once E"
  then have "mset (iteration_order E m) = mset m" by (simp add: visits_each_entry_once_def)
  then have "mset (concat (map snd (iteration_order E m))) = mset (concat (map snd m))"
    by (rule mset_concat_map_perm)
  then have "length (concat (map snd (iteration_order E m))) = length (concat (map snd m))"
    by (rule mset_eq_length)
  then show ?thesis by (simp only: length_concat_members)
qed

lemma visits_empty: "visits_each_entry_once E \<Longrightarrow> iteration_order E [] = []"
  using visits_set[of E "[]"] by simp

lemma members_of_instances:
  "members_of k (map (\<lambda>i. (K i, T i)) is) = map T (filter (\<lambda>i. Equal k (K i)) is)"
  by (induction "is") (simp_all add: members_of_def)

lemma Equal_key_of:
  "Equal k (key_of E s j) \<longleftrightarrow>
     (rect k = texture_coords s ! j \<and> color_key k = ToIColor E (colors s ! j))"
  by (simp add: Equal_def key_of_def)

lemma zip_map_same: "zip (map f xs) (map g xs) = map (\<lambda>x. (f x, g x)) xs"
  by (induction xs) simp_all

lemma visits_keys:
  assumes "visits_each_entry_once E"
  shows "mset (map f (iteration_order E m)) = mset (map f m)"
proof -
  have "mset (iteration_order E m) = mset m"
    using assms by (simp add: visits_each_entry_once_def)
  then have "image_mset f (mset (iteration_order E m)) = image_mset f (mset m)"
    by (rule arg_cong)
  then show ?thesis by (simp only: mset_map)
qed

text \<open>In a checked build the entry assertion rejects an instance set without colours.\<close>

lemma GenerateSubAtlas_dcheck:
  "dchecks_enabled E \<Longrightarrow> colors s = [] \<Longrightarrow> GenerateSubAtlas E s = Inl DCheckFailed"
  by (simp add: GenerateSubAtlas_def GenerateSubAtlas_precondition_def)

subsection \<open>The packer on a concrete instance set\<close>

lemma demo_ToIColor_white: "demo_ToIColor white = 4294967295"
  by (simp add: demo_ToIColor_def white_def)

lemma dedup_atlas_hyps:
  "length_invariant dedup_atlas" "GenerateSubAtlas_precondition dedup_atlas"
  "visits_each_entry_once demo_collaborators" "aligned dedup_atlas" "indexable dedup_atlas"
  "entry_check_passes demo_collaborators dedup_atlas"
  by (simp_all add: length_invariant_def GenerateSubAtlas_precondition_def dedup_atlas_def
        visits_each_entry_once_def demo_collaborators_def demo_iteration_order_def aligned_def
        indexable_def entry_check_passes_def)

lemma upt_3: "[0..<3] = [0, 1, 2]"
  by code_simp

lemma dedup_atlas_groups:
  "group_instances demo_collaborators dedup_atlas =
     Inr [(white_key (MakeXYWH 0 0 4 4), [(10, 10), (30, 30)]),
          (white_key (MakeXYWH 8 0 6 3), [(20, 20)])]"
  by (simp add: group_instances_def dedup_atlas_def upt_3 group_instance_def instance_key_def
        vector_at_def demo_collaborators_def demo_ToIColor_white white_key_def Equal_def
        sub_atlas_insert_def MakeXYWH_def)

lemma dedup_atlas_result:
  "GenerateSubAtlas demo_collaborators dedup_atlas =
     Inr \<lparr>sub_texture_coords = [MakeXYWH 0 0 4 4, MakeXYWH 8 0 6 3],
          sub_colors = [white, white],
          sub_transforms = [(0, 0), (5, 0)],
          result_texture_coords = [MakeXYWH 0 0 4 4, MakeXYWH 0 0 4 4, MakeXYWH 5 0 6 3],
          result_transforms = [(10, 10), (30, 30), (20, 20)],
          result_size = \<lparr>width = 12, height = 4\<rparr>\<rparr>"
  by (simp add: GenerateSubAtlas_def dedup_atlas_groups)
     (simp add: GenerateSubAtlas_precondition_def dedup_atlas_def demo_collaborators_def
        demo_iteration_order_def pack_entries_def pack_entry_def packer_init_def empty_result_def
        white_key_def MakeXYWH_def Let_def round_to_precision_whole to_int64_def fits_int64_def)




lemma upt_2: "[0..<2] = [0, 1]"
  by code_simp




lemma tie_width_atlas_groups:
  "group_instances demo_collaborators tie_width_atlas =
     Inr [(white_key (MakeXYWH 0 0 16777216 1), [(10, 10)])]"
  by (simp add: group_instances_def tie_width_atlas_def group_instance_def
        instance_key_def vector_at_def demo_collaborators_def demo_ToIColor_white white_key_def
        Equal_def sub_atlas_insert_def MakeXYWH_def)

lemma tie_width_atlas_cursor:
  "spec_advance demo_collaborators spec_start (MakeXYWH 0 0 16777216 1) =
     \<lparr>xOffset = 16777216, yOffset = 0, xExtent = 16777216, yExtent = 1\<rparr>"
  by (simp add: spec_advance_def spec_new_row_def spec_start_def MakeXYWH_def Let_def
        demo_double_whole demo_float_tie demo_float_whole)

lemma tie_width_atlas_result:
  "GenerateSubAtlas demo_collaborators tie_width_atlas =
     Inr \<lparr>sub_texture_coords = [MakeXYWH 0 0 16777216 1],
          sub_colors = [white],
          sub_transforms = [(0, 0)],
          result_texture_coords = [MakeXYWH 0 0 16777216 1],
          result_transforms = [(10, 10)],
          result_size = \<lparr>width = 16777216, height = 1\<rparr>\<rparr>"
proof -
  have "GenerateSubAtlas demo_collaborators tie_width_atlas =
          Inr (pack_entries demo_collaborators
                 [(white_key (MakeXYWH 0 0 16777216 1), [(10, 10)])])"
    by (simp add: GenerateSubAtlas_def tie_width_atlas_groups)
       (simp add: GenerateSubAtlas_precondition_def tie_width_atlas_def demo_collaborators_def
          demo_iteration_order_def)
  then show ?thesis
    by (simp add: pack_entries_spec white_key_def tie_width_atlas_cursor)
       (simp add: spec_canvas_def to_int64_def fits_int64_def placed_members_def spec_place_def
          spec_new_row_def spec_start_def origin_of_def demo_collaborators_def MakeXYWH_def)
qed

lemma huge_width_atlas_groups:
  "group_instances demo_collaborators huge_width_atlas =
     Inr [(white_key (MakeXYWH 0 0 9223372036854775808 1), [(10, 10)])]"
  by (simp add: group_instances_def huge_width_atlas_def group_instance_def
        instance_key_def vector_at_def demo_collaborators_def demo_ToIColor_white white_key_def
        Equal_def sub_atlas_insert_def MakeXYWH_def)

lemma huge_width_atlas_cursor:
  "spec_advance demo_collaborators spec_start (MakeXYWH 0 0 9223372036854775808 1) =
     \<lparr>xOffset = 9223372036854775808, yOffset = 0, xExtent = 9223372036854775808, yExtent = 1\<rparr>"
  by (simp add: spec_advance_def spec_new_row_def spec_start_def MakeXYWH_def Let_def
        demo_double_2_63_plus_1 demo_double_2_63 demo_float_2_63 demo_float_whole)

lemma huge_width_atlas_result:
  "GenerateSubAtlas demo_collaborators huge_width_atlas =
     Inr \<lparr>sub_texture_coords = [MakeXYWH 0 0 9223372036854775808 1],
          sub_colors = [white],
          sub_transforms = [(0, 0)],
          result_texture_coords = [MakeXYWH 0 0 9223372036854775808 1],
          result_transforms = [(10, 10)],
          result_size = \<lparr>width = - 9223372036854775808, height = 1\<rparr>\<rparr>"
proof -
  have "GenerateSubAtlas demo_collaborators huge_width_atlas =
          Inr (pack_entries demo_collaborators
                 [(white_key (MakeXYWH 0 0 9223372036854775808 1), [(10, 10)])])"
    by (simp add: GenerateSubAtlas_def huge_width_atlas_groups)
       (simp add: GenerateSubAtlas_precondition_def huge_width_atlas_def demo_collaborators_def
          demo_iteration_order_def)
  then show ?thesis
    by (simp add: pack_entries_spec white_key_def huge_width_atlas_cursor)
       (simp add: spec_canvas_def to_int64_def fits_int64_def placed_members_def spec_place_def
          spec_new_row_def spec_start_def origin_of_def demo_collaborators_def
          demo_ConvertOutOfRange_def MakeXYWH_def)
qed

lemma quantized_atlas_keys:
  "demo_ToIColor half_red = 4286578687" "demo_ToIColor near_half_red = 4286578687"
  by (simp_all add: demo_ToIColor_def half_red_def near_half_red_def)

lemma quantized_atlas_groups:
  "group_instances demo_collaborators quantized_atlas =
     Inr [(\<lparr>color = half_red, rect = MakeXYWH 0 0 4 4, color_key = 4286578687\<rparr>,
           [(10, 10), (20, 20)])]"
  by (simp add: group_instances_def quantized_atlas_def upt_2 group_instance_def instance_key_def
        vector_at_def demo_collaborators_def quantized_atlas_keys Equal_def sub_atlas_insert_def)

lemma wide_atlas_hyps:
  "entry_check_passes demo_collaborators wide_atlas" "indexable wide_atlas"
  by (simp_all add: entry_check_passes_def GenerateSubAtlas_precondition_def indexable_def
        wide_atlas_def)

lemma wide_atlas_groups:
  "group_instances demo_collaborators wide_atlas =
     Inr [(white_key (MakeXYWH 0 0 600 10), [(10, 10)]),
          (white_key (MakeXYWH 0 0 600 20), [(20, 20)]),
          (white_key (MakeXYWH 0 0 10 10), [(30, 30)])]"
  by (simp add: group_instances_def wide_atlas_def upt_3 group_instance_def
        instance_key_def vector_at_def demo_collaborators_def demo_ToIColor_white white_key_def
        Equal_def sub_atlas_insert_def MakeXYWH_def)

lemma wide_atlas_result:
  "GenerateSubAtlas demo_collaborators wide_atlas =
     Inr \<lparr>sub_texture_coords = [MakeXYWH 0 0 600 10, MakeXYWH 0 0 600 20, MakeXYWH 0 0 10 10],
          sub_colors = [white, white, white],
          sub_transforms = [(0, 0), (601, 0), (0, 21)],
          result_texture_coords =
            [MakeXYWH 0 0 600 10, MakeXYWH 601 0 600 20, MakeXYWH 0 21 10 10],
          result_transforms = [(10, 10), (20, 20), (30, 30)],
          result_size = \<lparr>width = 1202, height = 31\<rparr>\<rparr>"
  by (simp add: GenerateSubAtlas_def wide_atlas_groups)
     (simp add: GenerateSubAtlas_precondition_def wide_atlas_def demo_collaborators_def
        demo_iteration_order_def pack_entries_def pack_entry_def packer_init_def empty_result_def
        white_key_def MakeXYWH_def Let_def round_to_precision_whole to_int64_def fits_int64_def)

lemma to_int64_range: "fits_int64 (to_int64 E n)"
  using sint_ge[of "ConvertOutOfRange E n"] sint_lt[of "ConvertOutOfRange E n"]
  by (simp add: to_int64_def fits_int64_def)

lemma huge_width_atlas_hyps:
  "entry_check_passes demo_collaborators huge_width_atlas" "indexable huge_width_atlas"
  "length_invariant huge_width_atlas" "GenerateSubAtlas_precondition huge_width_atlas"
  by (simp_all add: entry_check_passes_def GenerateSubAtlas_precondition_def indexable_def
        huge_width_atlas_def length_invariant_def)

lemma tie_width_atlas_hyps:
  "entry_check_passes demo_collaborators tie_width_atlas" "indexable tie_width_atlas"
  "length_invariant tie_width_atlas" "GenerateSubAtlas_precondition tie_width_atlas"
  by (simp_all add: entry_check_passes_def GenerateSubAtlas_precondition_def indexable_def
        tie_width_atlas_def length_invariant_def)



section \<open>Every instance is packed exactly once\<close>

text \<open>
  C2: for an instance set that satisfies the length invariant and the packer's
  precondition, and a hash map whose iteration visits every entry once, the packer
  returns a result; the member counts of the deduplication groups add up to the number
  of instances; the per-instance transforms are the original transforms, each exactly as
  often as it was given; and both per-instance arrays have one entry per instance.
\<close>

theorem GenerateSubAtlas_every_instance_once:
  assumes "length_invariant s" "GenerateSubAtlas_precondition s" "visits_each_entry_once E"
  shows "\<exists>G r. group_instances E s = Inr G \<and> GenerateSubAtlas E s = Inr r \<and>
           sum_list (map (length \<circ> snd) G) = length (texture_coords s) \<and>
           mset (result_transforms r) = mset (transforms s) \<and>
           length (result_texture_coords r) = length (texture_coords s) \<and>
           length (result_transforms r) = length (texture_coords s)"
proof -
  have al: "aligned s" using assms(1,2) by (rule invariant_aligned)
  have ec: "entry_check_passes E s" using assms(2) by (simp add: entry_check_passes_def)
  from GenerateSubAtlas_indexable[OF ec aligned_indexable[OF al]]
  obtain G where G: "group_instances E s = Inr G"
    and r: "GenerateSubAtlas E s = Inr (pack_entries E (iteration_order E G))" by blast
  let ?gs = "iteration_order E G"
  let ?r = "pack_entries E ?gs"
  have members: "mset (concat (map snd G)) = mset (transforms s)"
    using al G by (rule group_instances_members)
  have n: "length (transforms s) = length (texture_coords s)"
    using al by (simp add: aligned_def)
  have total: "sum_list (map (length \<circ> snd) G) = length (texture_coords s)"
    using mset_eq_length[OF members] n by (simp only: length_concat_members)
  have rt: "result_transforms ?r = concat (map snd ?gs)"
    by (simp add: pack_entries_spec)
  have rc: "result_texture_coords ?r =
              placed_members (spec_shelf E spec_start (map (rect \<circ> fst) ?gs)) ?gs"
    by (simp add: pack_entries_spec)
  have perm: "mset ?gs = mset G" using assms(3) by (simp add: visits_each_entry_once_def)
  have "mset (result_transforms ?r) = mset (transforms s)"
    unfolding rt using mset_concat_map_perm[OF perm, of snd] members by simp
  moreover have "length (result_texture_coords ?r) = length (texture_coords s)"
    using visits_sum[OF assms(3), of G] total
    by (simp add: rc length_placed_members length_spec_shelf)
  moreover have "length (result_transforms ?r) = length (texture_coords s)"
    using visits_sum[OF assms(3), of G] total by (simp only: rt length_concat_members)
  ultimately show ?thesis using G r total by blast
qed

theorem GenerateSubAtlas_every_instance_once_witness:
  "\<exists>G r. group_instances demo_collaborators dedup_atlas = Inr G \<and>
         GenerateSubAtlas demo_collaborators dedup_atlas = Inr r \<and>
         sum_list (map (length \<circ> snd) G) = length (texture_coords dedup_atlas) \<and>
         mset (result_transforms r) = mset (transforms dedup_atlas) \<and>
         length (result_texture_coords r) = length (texture_coords dedup_atlas) \<and>
         length (result_transforms r) = length (texture_coords dedup_atlas)"
  by (rule GenerateSubAtlas_every_instance_once[OF dedup_atlas_hyps(1,2,3)])

section \<open>Packed rectangles and the canvas\<close>




section \<open>Deduplication by region and quantised colour\<close>

text \<open>
  C4: for an instance set that satisfies the length invariant and the packer's
  precondition, every instance \<open>i\<close> has an entry \<open>e\<close> in the map; the members of \<open>e\<close> are
  the transforms of exactly the instances whose region is the entry's region and whose
  colour quantises to the entry's 32-bit colour key; another instance \<open>j\<close> has the same
  entry if and only if the regions of \<open>i\<close> and \<open>j\<close> are equal and their colours quantise
  to the same value; every map entry becomes one packed entry. The hash is a function
  of the colour key and the region's width, height, x and y only, so equal keys hash
  alike, and key equality does not look at the full-precision colour.
\<close>

theorem grouping_by_region_and_quantized_color:
  assumes "length_invariant s" "GenerateSubAtlas_precondition s" "visits_each_entry_once E"
  shows "\<exists>G r. group_instances E s = Inr G \<and> GenerateSubAtlas E s = Inr r \<and>
           mset (zip (sub_texture_coords r) (sub_colors r)) =
             mset (map (\<lambda>e. (rect (fst e), color (fst e))) G) \<and>
           (\<forall>i j. i < length (texture_coords s) \<and> j < length (texture_coords s) \<longrightarrow>
              (\<exists>ki kj e. instance_key E s i = Inr ki \<and> instance_key E s j = Inr kj \<and>
                 sub_atlas_find ki G = Some e \<and>
                 snd e = map ((!) (transforms s))
                           (filter (\<lambda>n. texture_coords s ! n = rect (fst e) \<and>
                                         ToIColor E (colors s ! n) = color_key (fst e))
                              [0..<length (texture_coords s)]) \<and>
                 (sub_atlas_find kj G = Some e \<longleftrightarrow>
                    texture_coords s ! i = texture_coords s ! j \<and>
                    ToIColor E (colors s ! i) = ToIColor E (colors s ! j)))) \<and>
           (\<forall>k. Hash E k =
                  HashCombine E (color_key k) (GetWidth (rect k)) (GetHeight (rect k))
                    (GetX (rect k)) (GetY (rect k))) \<and>
           (\<forall>a b. Equal a b \<longrightarrow> Hash E a = Hash E b) \<and>
           (\<forall>a b c d. Equal (a\<lparr>color := c\<rparr>) (b\<lparr>color := d\<rparr>) = Equal a b)"
proof -
  have al: "aligned s" using assms(1,2) by (rule invariant_aligned)
  have ix: "indexable s" using al by (rule aligned_indexable)
  have ec: "entry_check_passes E s" using assms(2) by (simp add: entry_check_passes_def)
  from GenerateSubAtlas_indexable[OF ec ix]
  obtain G where G: "group_instances E s = Inr G"
    and r: "GenerateSubAtlas E s = Inr (pack_entries E (iteration_order E G))" by blast
  define R where "R = pack_entries E (iteration_order E G)"
  define n where "n = length (texture_coords s)"
  define kts where "kts = map (\<lambda>i. (key_of E s i, transforms s ! i)) [0..<n]"
  have r': "GenerateSubAtlas E s = Inr R" using r by (simp add: R_def)
  have inv: "grouping_inv G kts"
    unfolding kts_def n_def using ix G by (rule grouping_inv_instances)
  have packed: "mset (zip (sub_texture_coords R) (sub_colors R)) =
                  mset (map (\<lambda>e. (rect (fst e), color (fst e))) G)"
    unfolding R_def using visits_keys[OF assms(3), of "\<lambda>e. (rect (fst e), color (fst e))" G]
    by (simp add: pack_entries_spec zip_map_same)
  have inst: "\<exists>ki kj e. instance_key E s i = Inr ki \<and> instance_key E s j = Inr kj \<and>
                 sub_atlas_find ki G = Some e \<and>
                 snd e = map ((!) (transforms s))
                           (filter (\<lambda>n. texture_coords s ! n = rect (fst e) \<and>
                                         ToIColor E (colors s ! n) = color_key (fst e))
                              [0..<n]) \<and>
                 (sub_atlas_find kj G = Some e \<longleftrightarrow>
                    texture_coords s ! i = texture_coords s ! j \<and>
                    ToIColor E (colors s ! i) = ToIColor E (colors s ! j))"
    if i: "i < n" and j: "j < n" for i j
  proof -
    let ?ki = "key_of E s i" and ?kj = "key_of E s j"
    have ki: "instance_key E s i = Inr ?ki" and kj: "instance_key E s j = Inr ?kj"
      using ix i j by (simp_all add: n_def instance_key_indexable)
    have "(?ki, transforms s ! i) \<in> set kts" "(?kj, transforms s ! j) \<in> set kts"
      using i j by (auto simp: kts_def)
    then have "sub_atlas_find ?ki G \<noteq> None" "sub_atlas_find ?kj G \<noteq> None"
      using inv by (auto simp: grouping_inv_def simp del: not_None_eq)
    then obtain e e' where e: "sub_atlas_find ?ki G = Some e"
      and e': "sub_atlas_find ?kj G = Some e'" by auto
    have eG: "e \<in> set G" and eq: "Equal (fst e) ?ki" using find_Some_D[OF e] by simp_all
    have eq': "Equal (fst e') ?kj" using find_Some_D[OF e'] by simp
    have "snd e = members_of (fst e) kts" using inv eG by (simp add: grouping_inv_def)
    also have "\<dots> = map ((!) (transforms s)) (filter (\<lambda>n. Equal (fst e) (key_of E s n)) [0..<n])"
      unfolding kts_def by (rule members_of_instances)
    also have "(\<lambda>n. Equal (fst e) (key_of E s n)) =
               (\<lambda>n. texture_coords s ! n = rect (fst e) \<and>
                    ToIColor E (colors s ! n) = color_key (fst e))"
      by (auto simp: Equal_key_of)
    finally have mem: "snd e = map ((!) (transforms s))
                           (filter (\<lambda>n. texture_coords s ! n = rect (fst e) \<and>
                                         ToIColor E (colors s ! n) = color_key (fst e))
                              [0..<n])" .
    have "sub_atlas_find ?kj G = Some e \<longleftrightarrow> Equal ?ki ?kj"
    proof
      assume "sub_atlas_find ?kj G = Some e"
      then have "Equal (fst e) ?kj" using find_Some_D by blast
      with eq show "Equal ?ki ?kj" by (simp add: Equal_def)
    next
      assume "Equal ?ki ?kj"
      then have "sub_atlas_find ?ki G = sub_atlas_find ?kj G" by (rule find_cong)
      with e show "sub_atlas_find ?kj G = Some e" by simp
    qed
    then have "sub_atlas_find ?kj G = Some e \<longleftrightarrow>
                 texture_coords s ! i = texture_coords s ! j \<and>
                 ToIColor E (colors s ! i) = ToIColor E (colors s ! j)"
      by (simp add: Equal_def key_of_def)
    with ki kj e mem show ?thesis by blast
  qed
  have hash: "\<forall>a b. Equal a b \<longrightarrow> Hash E a = Hash E b"
    by (simp add: Equal_def Hash_def)
  have blind: "\<forall>a b c d. Equal (a\<lparr>color := c\<rparr>) (b\<lparr>color := d\<rparr>) = Equal a b"
    by (simp add: Equal_def)
  have combine: "\<forall>k. Hash E k =
                  HashCombine E (color_key k) (GetWidth (rect k)) (GetHeight (rect k))
                    (GetX (rect k)) (GetY (rect k))"
    by (simp add: Hash_def)
  from G r' packed inst combine hash blind show ?thesis unfolding n_def by blast
qed

theorem grouping_by_region_and_quantized_color_witness:
  "(\<exists>G r k0 k1 k2 e.
      group_instances demo_collaborators dedup_atlas = Inr G \<and>
      GenerateSubAtlas demo_collaborators dedup_atlas = Inr r \<and>
      instance_key demo_collaborators dedup_atlas 0 = Inr k0 \<and>
      instance_key demo_collaborators dedup_atlas 1 = Inr k1 \<and>
      instance_key demo_collaborators dedup_atlas 2 = Inr k2 \<and>
      sub_atlas_find k0 G = Some e \<and> sub_atlas_find k2 G = Some e \<and>
      sub_atlas_find k1 G \<noteq> Some e \<and> snd e = [(10, 10), (30, 30)]) \<and>
   half_red \<noteq> near_half_red \<and>
   group_instances demo_collaborators quantized_atlas =
     Inr [(\<lparr>color = half_red, rect = MakeXYWH 0 0 4 4, color_key = 4286578687\<rparr>,
           [(10, 10), (20, 20)])]"
proof -
  from grouping_by_region_and_quantized_color[OF dedup_atlas_hyps(1,2,3)]
  obtain G r where G: "group_instances demo_collaborators dedup_atlas = Inr G"
    and r: "GenerateSubAtlas demo_collaborators dedup_atlas = Inr r" by blast
  have G': "G = [(white_key (MakeXYWH 0 0 4 4), [(10, 10), (30, 30)]),
                 (white_key (MakeXYWH 8 0 6 3), [(20, 20)])]"
    using G by (simp add: dedup_atlas_groups)
  have k: "instance_key demo_collaborators dedup_atlas 0 = Inr (white_key (MakeXYWH 0 0 4 4))"
    "instance_key demo_collaborators dedup_atlas 1 = Inr (white_key (MakeXYWH 8 0 6 3))"
    "instance_key demo_collaborators dedup_atlas 2 = Inr (white_key (MakeXYWH 0 0 4 4))"
    by (simp_all add: instance_key_def dedup_atlas_def vector_at_def demo_collaborators_def
          demo_ToIColor_white white_key_def)
  have f: "sub_atlas_find (white_key (MakeXYWH 0 0 4 4)) G =
             Some (white_key (MakeXYWH 0 0 4 4), [(10, 10), (30, 30)])"
    "sub_atlas_find (white_key (MakeXYWH 8 0 6 3)) G =
             Some (white_key (MakeXYWH 8 0 6 3), [(20, 20)])"
    by (simp_all add: G' Equal_def white_key_def MakeXYWH_def)
  have "\<exists>G r k0 k1 k2 e.
      group_instances demo_collaborators dedup_atlas = Inr G \<and>
      GenerateSubAtlas demo_collaborators dedup_atlas = Inr r \<and>
      instance_key demo_collaborators dedup_atlas 0 = Inr k0 \<and>
      instance_key demo_collaborators dedup_atlas 1 = Inr k1 \<and>
      instance_key demo_collaborators dedup_atlas 2 = Inr k2 \<and>
      sub_atlas_find k0 G = Some e \<and> sub_atlas_find k2 G = Some e \<and>
      sub_atlas_find k1 G \<noteq> Some e \<and> snd e = [(10, 10), (30, 30)]"
    using G r k f by (intro exI[of _ G] exI[of _ r]) auto
  moreover have "half_red \<noteq> near_half_red"
    by (simp add: half_red_def near_half_red_def)
  ultimately show ?thesis using quantized_atlas_groups by blast
qed

section \<open>The packer is the specification's shelf packing\<close>

text \<open>
  C5, as stated, fails. With one region \<open>2^63\<close> wide and 1 high, the final extents are
  \<open>(2^63, 1)\<close>, and so is the canvas \<open>(ceil(xExtent), ceil(yExtent))\<close> of the
  specification; but \<open>2^63\<close> does not fit the 64-bit integers of \<^verbatim>\<open>ISize\<close>, and the packer
  returns the canvas \<open>(-2^63, 1)\<close>. And the sums are floating-point sums: with one region
  \<open>2^24\<close> wide, \<open>xOffset\<close> advances from 0 to \<open>2^24\<close> and the canvas is \<open>2^24\<close> wide, whereas
  \<open>ceil(width) + 1\<close> is \<open>2^24 + 1\<close>.
\<close>

theorem GenerateSubAtlas_canvas_counterexample:
  "indexable huge_width_atlas \<and> GenerateSubAtlas_precondition huge_width_atlas \<and>
   GenerateSubAtlas demo_collaborators huge_width_atlas =
     Inr \<lparr>sub_texture_coords = [MakeXYWH 0 0 9223372036854775808 1],
          sub_colors = [white],
          sub_transforms = [(0, 0)],
          result_texture_coords = [MakeXYWH 0 0 9223372036854775808 1],
          result_transforms = [(10, 10)],
          result_size = \<lparr>width = - 9223372036854775808, height = 1\<rparr>\<rparr> \<and>
   spec_canvas (spec_final demo_collaborators spec_start [MakeXYWH 0 0 9223372036854775808 1]) =
     \<lparr>width = 9223372036854775808, height = 1\<rparr> \<and>
   indexable tie_width_atlas \<and> GenerateSubAtlas_precondition tie_width_atlas \<and>
   GenerateSubAtlas demo_collaborators tie_width_atlas =
     Inr \<lparr>sub_texture_coords = [MakeXYWH 0 0 16777216 1],
          sub_colors = [white],
          sub_transforms = [(0, 0)],
          result_texture_coords = [MakeXYWH 0 0 16777216 1],
          result_transforms = [(10, 10)],
          result_size = \<lparr>width = 16777216, height = 1\<rparr>\<rparr> \<and>
   xOffset (spec_final demo_collaborators spec_start [MakeXYWH 0 0 16777216 1]) = 16777216 \<and>
   (0 :: real) + (of_int \<lceil>GetWidth (MakeXYWH 0 0 16777216 1)\<rceil> + 1) = 16777217"
  by (simp add: huge_width_atlas_result huge_width_atlas_cursor tie_width_atlas_result
        tie_width_atlas_cursor huge_width_atlas_hyps tie_width_atlas_hyps spec_canvas_def)
     (simp add: MakeXYWH_def)

text \<open>
  C5, amended: whenever the entry assertion of \<^verbatim>\<open>GenerateSubAtlas\<close> does not fire and every
  region index is an index of a colour and of a transform, the packer returns a result,
  and that result is the shelf packing of the specification, its sums evaluated in the
  floating-point arithmetic of the program, applied to the groups in iteration order:
  the packed regions and colours are the groups' keys, the packed translations and the
  per-instance regions are the rectangles \<open>spec_shelf\<close> places from a zero cursor, and the
  per-instance transforms are the groups' members. The canvas is \<open>spec_canvas\<close> of the
  final cursor converted to 64-bit integers: it always fits 64 bits, and it is
  \<open>spec_canvas\<close> itself whenever both of \<open>ceil(xExtent)\<close> and \<open>ceil(yExtent)\<close> fit. Without
  instances the result is empty and the canvas is (0,0).
\<close>

theorem GenerateSubAtlas_is_shelf_packing:
  assumes "entry_check_passes E s" "indexable s" "visits_each_entry_once E"
  shows "\<exists>G r canvas.
           group_instances E s = Inr G \<and> GenerateSubAtlas E s = Inr r \<and>
           sub_texture_coords r = map (rect \<circ> fst) (iteration_order E G) \<and>
           sub_colors r = map (color \<circ> fst) (iteration_order E G) \<and>
           sub_transforms r =
             map (MakeTranslation E \<circ> origin_of)
               (spec_shelf E spec_start (sub_texture_coords r)) \<and>
           result_texture_coords r =
             placed_members (spec_shelf E spec_start (sub_texture_coords r))
               (iteration_order E G) \<and>
           result_transforms r = concat (map snd (iteration_order E G)) \<and>
           canvas = spec_canvas (spec_final E spec_start (sub_texture_coords r)) \<and>
           result_size r =
             \<lparr>width = to_int64 E (width canvas), height = to_int64 E (height canvas)\<rparr> \<and>
           fits_int64 (width (result_size r)) \<and> fits_int64 (height (result_size r)) \<and>
           (fits_int64 (width canvas) \<and> fits_int64 (height canvas) \<longrightarrow>
              result_size r = canvas) \<and>
           (texture_coords s = [] \<longrightarrow>
              sub_texture_coords r = [] \<and> result_texture_coords r = [] \<and>
              result_size r = \<lparr>width = 0, height = 0\<rparr>)"
proof -
  from GenerateSubAtlas_indexable[OF assms(1,2)]
  obtain G where G: "group_instances E s = Inr G"
    and r: "GenerateSubAtlas E s = Inr (pack_entries E (iteration_order E G))" by blast
  have zero: "iteration_order E G = []" if "texture_coords s = []"
  proof -
    have "G = []" using G that by (simp add: group_instances_def)
    then show ?thesis using assms(3) by (simp add: visits_empty)
  qed
  define R where "R = pack_entries E (iteration_order E G)"
  define canvas where "canvas = spec_canvas (spec_final E spec_start (sub_texture_coords R))"
  have r': "GenerateSubAtlas E s = Inr R" using r by (simp add: R_def)
  have f1: "sub_texture_coords R = map (rect \<circ> fst) (iteration_order E G)"
    by (simp add: R_def pack_entries_spec)
  have f2: "sub_colors R = map (color \<circ> fst) (iteration_order E G)"
    by (simp add: R_def pack_entries_spec)
  have f3: "sub_transforms R =
      map (MakeTranslation E \<circ> origin_of) (spec_shelf E spec_start (sub_texture_coords R))"
    unfolding f1 by (simp add: R_def pack_entries_spec)
  have f4: "result_texture_coords R =
      placed_members (spec_shelf E spec_start (sub_texture_coords R)) (iteration_order E G)"
    unfolding f1 by (simp add: R_def pack_entries_spec)
  have f5: "result_transforms R = concat (map snd (iteration_order E G))"
    by (simp add: R_def pack_entries_spec)
  have f6: "result_size R =
      \<lparr>width = to_int64 E (width canvas), height = to_int64 E (height canvas)\<rparr>"
    unfolding canvas_def f1 by (simp add: R_def pack_entries_spec)
  have f7: "fits_int64 (width (result_size R))" "fits_int64 (height (result_size R))"
    unfolding f6 by (simp_all add: to_int64_range)
  have f8: "fits_int64 (width canvas) \<and> fits_int64 (height canvas) \<longrightarrow> result_size R = canvas"
    unfolding f6 by (simp add: to_int64_fits)
  have f9: "texture_coords s = [] \<longrightarrow>
      sub_texture_coords R = [] \<and> result_texture_coords R = [] \<and>
      result_size R = \<lparr>width = 0, height = 0\<rparr>"
    by (auto simp: R_def zero pack_entries_spec placed_members_def spec_canvas_def spec_start_def
          to_int64_def fits_int64_def)
  show ?thesis
    by (rule exI[of _ G], rule exI[of _ R], rule exI[of _ canvas])
       (intro conjI G r' f1 f2 f3 f4 f5 canvas_def f6 f7 f8 f9)
qed

theorem GenerateSubAtlas_is_shelf_packing_witness:
  "(\<exists>G r. group_instances demo_collaborators wide_atlas = Inr G \<and>
      GenerateSubAtlas demo_collaborators wide_atlas = Inr r \<and>
      sub_texture_coords r = map (rect \<circ> fst) (iteration_order demo_collaborators G) \<and>
      sub_transforms r =
        map (MakeTranslation demo_collaborators \<circ> origin_of)
          (spec_shelf demo_collaborators spec_start (sub_texture_coords r)) \<and>
      result_texture_coords r =
        placed_members (spec_shelf demo_collaborators spec_start (sub_texture_coords r))
          (iteration_order demo_collaborators G) \<and>
      result_size r =
        \<lparr>width = to_int64 demo_collaborators
                   (width (spec_canvas (spec_final demo_collaborators spec_start
                                          (sub_texture_coords r)))),
         height = to_int64 demo_collaborators
                    (height (spec_canvas (spec_final demo_collaborators spec_start
                                            (sub_texture_coords r))))\<rparr>) \<and>
   GenerateSubAtlas demo_collaborators wide_atlas =
     Inr \<lparr>sub_texture_coords = [MakeXYWH 0 0 600 10, MakeXYWH 0 0 600 20, MakeXYWH 0 0 10 10],
          sub_colors = [white, white, white],
          sub_transforms = [(0, 0), (601, 0), (0, 21)],
          result_texture_coords =
            [MakeXYWH 0 0 600 10, MakeXYWH 601 0 600 20, MakeXYWH 0 21 10 10],
          result_transforms = [(10, 10), (20, 20), (30, 30)],
          result_size = \<lparr>width = 1202, height = 31\<rparr>\<rparr>"
proof -
  from GenerateSubAtlas_is_shelf_packing[OF wide_atlas_hyps dedup_atlas_hyps(3)]
  obtain G r canvas where
    "group_instances demo_collaborators wide_atlas = Inr G"
    "GenerateSubAtlas demo_collaborators wide_atlas = Inr r"
    "sub_texture_coords r = map (rect \<circ> fst) (iteration_order demo_collaborators G)"
    "sub_transforms r =
        map (MakeTranslation demo_collaborators \<circ> origin_of)
          (spec_shelf demo_collaborators spec_start (sub_texture_coords r))"
    "result_texture_coords r =
        placed_members (spec_shelf demo_collaborators spec_start (sub_texture_coords r))
          (iteration_order demo_collaborators G)"
    "canvas = spec_canvas (spec_final demo_collaborators spec_start (sub_texture_coords r))"
    "result_size r =
       \<lparr>width = to_int64 demo_collaborators (width canvas),
        height = to_int64 demo_collaborators (height canvas)\<rparr>"
    by (elim exE conjE) (rule that)
  then show ?thesis using wide_atlas_result by (intro conjI exI[of _ G] exI[of _ r]) simp_all
qed

section \<open>The vertex loops and the strategies\<close>

lemma for_each_append:
  "(\<And>i a. i \<in> set is \<Longrightarrow> body i a = Inr (a @ q i)) \<Longrightarrow>
   for_each is body a = Inr (a @ concat (map q is))"
  by (induction "is" arbitrary: a) simp_all

lemma indices_nonempty: "indices \<noteq> []" "length indices = 6"
  by (simp_all add: indices_def)

lemma length_concat_vertices:
  "(\<And>i. length (q i) = 6) \<Longrightarrow> length (concat (map q is)) = 6 * length is"
  by (induction "is") simp_all

lemma concat_vertices_empty:
  assumes "\<And>i. length (q i) = 6"
  shows "concat (map q [0..<n]) = [] \<longleftrightarrow> n = 0"
proof -
  have "length (concat (map q [0..<n])) = 6 * n"
    using length_concat_vertices[of q "[0..<n]"] assms by simp
  then have "concat (map q [0..<n]) = [] \<longleftrightarrow> 6 * n = 0"
    by (metis length_0_conv)
  then show ?thesis by simp
qed

lemma texture_quad_loop:
  "length coords \<le> length matrices \<Longrightarrow>
   for_each [0..<length coords] (texture_quad E coords matrices tsz) [] =
     Inr (concat (map (texture_vertices E coords matrices tsz) [0..<length coords]))"
  using for_each_append[of "[0..<length coords]" "texture_quad E coords matrices tsz"
      "texture_vertices E coords matrices tsz" "[]"]
  by (simp add: texture_quad_def vector_at_def texture_vertices_def Let_def)

lemma color_quad_loop:
  "length coords \<le> length matrices \<Longrightarrow> length coords \<le> length cols \<Longrightarrow>
   for_each [0..<length coords] (color_quad E coords matrices cols) [] =
     Inr (concat (map (color_vertices E coords matrices cols) [0..<length coords]))"
  using for_each_append[of "[0..<length coords]" "color_quad E coords matrices cols"
      "color_vertices E coords matrices cols" "[]"]
  by (simp add: color_quad_def vector_at_def color_vertices_def Let_def)

lemma porter_duff_quad_loop:
  "aligned s \<Longrightarrow>
   for_each [0..<length (texture_coords s)] (porter_duff_quad E s tsz) [] =
     Inr (concat (map (porter_duff_vertices E s tsz) [0..<length (texture_coords s)]))"
  using for_each_append[of "[0..<length (texture_coords s)]" "porter_duff_quad E s tsz"
      "porter_duff_vertices E s tsz" "[]"]
  by (simp add: porter_duff_quad_def vector_at_def porter_duff_vertices_def Let_def aligned_def)

lemma extend_bounding_box_loop:
  "length (texture_coords s) \<le> length (transforms s) \<Longrightarrow>
   \<exists>bb. for_each [0..<length (texture_coords s)] (extend_bounding_box E s) b = Inr bb"
  using for_each_pure[of "[0..<length (texture_coords s)]" "extend_bounding_box E s"
      "\<lambda>i bb. Union E (TransformBounds E (MakeSize (GetSize (texture_coords s ! i)))
                          (transforms s ! i)) bb" b]
  by (simp add: extend_bounding_box_def vector_at_def Let_def)

lemma ComputeBoundingBox_total:
  "length (texture_coords s) \<le> length (transforms s) \<Longrightarrow>
   \<exists>bb. ComputeBoundingBox E s = Inr (bb, s\<lparr>bounding_box_cache := Some bb\<rparr>)"
  using extend_bounding_box_loop[of s E "MakeXYWH 0 0 0 0"]
  by (cases "bounding_box_cache s") (auto simp: ComputeBoundingBox_def)

lemma texture_vertices_length: "length (texture_vertices E coords matrices tsz i) = 6"
  by (simp add: texture_vertices_def indices_def)

lemma color_vertices_length: "length (color_vertices E coords matrices cols i) = 6"
  by (simp add: color_vertices_def indices_def)

lemma porter_duff_vertices_length: "length (porter_duff_vertices E s tsz i) = 6"
  by (simp add: porter_duff_vertices_def indices_def)

lemma AtlasTextureContents_Render_no_texture:
  "selected_texture c = None \<Longrightarrow> AtlasTextureContents_Render E c entity pass = Inr (True, pass)"
  by (simp add: AtlasTextureContents_Render_def selected_texture_def)

lemma AtlasTextureContents_Render_in_range:
  assumes "selected_texture c = Some tex"
    and "length (selected_coords c) \<le> length (selected_matrices c)"
  shows "AtlasTextureContents_Render E c entity pass =
           (if selected_coords c = [] then Inr (True, pass)
            else Inr (submit E (texture_command E c tex entity pass) pass))"
proof -
  have loop: "for_each [0..<length (selected_coords c)]
                (texture_quad E (selected_coords c) (selected_matrices c) (Texture_GetSize tex)) [] =
              Inr (concat (map (texture_vertices E (selected_coords c) (selected_matrices c)
                                  (Texture_GetSize tex)) [0..<length (selected_coords c)]))"
    using assms(2) by (rule texture_quad_loop)
  have empty: "concat (map (texture_vertices E (selected_coords c) (selected_matrices c)
                 (Texture_GetSize tex)) [0..<length (selected_coords c)]) = [] \<longleftrightarrow>
               selected_coords c = []"
    using concat_vertices_empty[of "texture_vertices E (selected_coords c) (selected_matrices c)
                 (Texture_GetSize tex)" "length (selected_coords c)"]
    by (simp add: texture_vertices_length)
  have "AtlasTextureContents_Render E c entity pass =
          and_then
            (for_each [0..<length (selected_coords c)]
               (texture_quad E (selected_coords c) (selected_matrices c) (Texture_GetSize tex)) [])
            (\<lambda>vertex_builder.
               if vertex_builder = [] then Inr (True, pass)
               else Inr (submit E
                      (TextureFillCommand ''AtlasTexture'' (OptionsFromPassAndEntity entity None)
                         (GetClipDepth entity) vertex_builder
                         (MatrixMultiply E (GetOrthographicTransform pass) (GetTransform entity))
                         (GetYCoordScale tex) (tex_alpha c) tex
                         (sampler_descriptor (tex_parent c))) pass))"
    using assms(1)
    by (simp add: AtlasTextureContents_Render_def selected_texture_def selected_coords_def
          selected_matrices_def submit_def Let_def cong del: if_weak_cong)
  then show ?thesis
    unfolding loop by (simp only: and_then.simps empty texture_command_def)
qed

lemma AtlasColorContents_Render_in_range:
  assumes "length (color_coords c) \<le> length (color_matrices c)"
    and "length (color_coords c) \<le> length (color_colors c)"
  shows "AtlasColorContents_Render E c entity pass =
           (if color_coords c = [] then Inr (True, pass)
            else Inr (submit E (color_command E c entity pass) pass))"
proof -
  have loop: "for_each [0..<length (color_coords c)]
                (color_quad E (color_coords c) (color_matrices c) (color_colors c)) [] =
              Inr (concat (map (color_vertices E (color_coords c) (color_matrices c)
                                  (color_colors c)) [0..<length (color_coords c)]))"
    using assms by (rule color_quad_loop)
  have empty: "concat (map (color_vertices E (color_coords c) (color_matrices c)
                 (color_colors c)) [0..<length (color_coords c)]) = [] \<longleftrightarrow> color_coords c = []"
    using concat_vertices_empty[of "color_vertices E (color_coords c) (color_matrices c)
                 (color_colors c)" "length (color_coords c)"]
    by (simp add: color_vertices_length)
  have "AtlasColorContents_Render E c entity pass =
          and_then
            (for_each [0..<length (color_coords c)]
               (color_quad E (color_coords c) (color_matrices c) (color_colors c)) [])
            (\<lambda>vertex_builder.
               if vertex_builder = [] then Inr (True, pass)
               else Inr (submit E
                      (GeometryColorCommand ''AtlasColors''
                         (OptionsFromPassAndEntity entity (Some kSourceOver))
                         (GetClipDepth entity) vertex_builder
                         (MatrixMultiply E (GetOrthographicTransform pass) (GetTransform entity))
                         (col_alpha c)) pass))"
    by (simp add: AtlasColorContents_Render_def color_coords_def color_matrices_def
          color_colors_def submit_def Let_def cong del: if_weak_cong)
  then show ?thesis
    unfolding loop by (simp only: and_then.simps empty color_command_def)
qed

lemma PorterDuff_Render_aligned:
  assumes "texture s = Some tex" and "aligned s"
  shows "PorterDuff_Render E s entity pass =
           Inr (submit E (porter_duff_command E s tex entity pass) pass)"
  using assms
  by (simp add: PorterDuff_Render_def porter_duff_quad_loop porter_duff_command_def submit_def
        Let_def)

lemma invariant_in_range:
  "length_invariant s \<Longrightarrow> length (texture_coords s) \<le> length (transforms s)"
  by (simp add: length_invariant_def)

lemma invariant_colors_aligned:
  "length_invariant s \<Longrightarrow> colors s \<noteq> [] \<Longrightarrow> aligned s"
  by (auto simp: length_invariant_def aligned_def)

lemma aligned_cache: "aligned (s\<lparr>bounding_box_cache := b\<rparr>) = aligned s"
  by (simp add: aligned_def)

lemma length_invariant_cache:
  "length_invariant (s\<lparr>bounding_box_cache := b\<rparr>) = length_invariant s"
  by (simp add: length_invariant_def)

lemma select_strategy_not_benign:
  assumes "texture s = Some tex" "blend_mode s \<noteq> kClear" "0 < alpha s"
    and "ComputeBoundingBox E s = Inr (bb, s')"
  shows "select_strategy E s =
           Inr (if blend_mode s = kSource \<or> colors s = []
                then DirectTexture ((AtlasTextureContents_new s')\<lparr>tex_alpha := alpha s,
                                                                    tex_coverage := bb\<rparr>)
                else if blend_mode s = kDestination
                then DirectColor ((AtlasColorContents_new s')\<lparr>col_alpha := alpha s,
                                                               col_coverage := bb\<rparr>)
                else if blend_index (blend_mode s) \<le> blend_index kModulate
                then SinglePassBlend
                else Compositing bb, s')"
  using assms ComputeBoundingBox_frame[OF assms(4)]
  by (simp add: select_strategy_def)

lemma source_over_atlas_hyps:
  "texture source_over_atlas = Some demo_texture" "blend_mode source_over_atlas \<noteq> kClear"
  "0 < alpha source_over_atlas" "single_pass_selected source_over_atlas"
  "length_invariant source_over_atlas"
  by (simp_all add: source_over_atlas_def single_pass_selected_def length_invariant_def)

lemma empty_source_atlas_bounding_box:
  "ComputeBoundingBox demo_collaborators empty_source_atlas =
     Inr (MakeXYWH 0 0 0 0, empty_source_atlas\<lparr>bounding_box_cache := Some (MakeXYWH 0 0 0 0)\<rparr>)"
  by (simp add: ComputeBoundingBox_def empty_source_atlas_def)

lemma ComputeBoundingBox_colors:
  "ComputeBoundingBox E (s\<lparr>colors := cs\<rparr>) =
     and_then (ComputeBoundingBox E s) (\<lambda>(bb, s'). Inr (bb, s'\<lparr>colors := cs\<rparr>))"
proof -
  have "extend_bounding_box E (s\<lparr>colors := cs\<rparr>) = extend_bounding_box E s"
    by (intro ext) (simp add: extend_bounding_box_def)
  then show ?thesis
    by (cases "for_each [0..<length (texture_coords s)] (extend_bounding_box E s)
                 (MakeXYWH 0 0 0 0)")
       (simp_all add: ComputeBoundingBox_def split: option.splits)
qed

lemma AtlasTextureContents_Render_alt:
  "AtlasTextureContents_Render E c entity pass =
     (case selected_texture c of
        None \<Rightarrow> Inr (True, pass)
      | Some tex \<Rightarrow>
          and_then
            (for_each [0..<length (selected_coords c)]
               (texture_quad E (selected_coords c) (selected_matrices c) (Texture_GetSize tex)) [])
            (\<lambda>vertex_builder.
               if vertex_builder = [] then Inr (True, pass)
               else Inr (submit E
                      (TextureFillCommand ''AtlasTexture'' (OptionsFromPassAndEntity entity None)
                         (GetClipDepth entity) vertex_builder
                         (MatrixMultiply E (GetOrthographicTransform pass) (GetTransform entity))
                         (GetYCoordScale tex) (tex_alpha c) tex
                         (sampler_descriptor (tex_parent c))) pass)))"
  by (simp add: AtlasTextureContents_Render_def selected_texture_def selected_coords_def
        selected_matrices_def submit_def Let_def cong del: if_weak_cong split: option.splits)

lemma AtlasTextureContents_Render_cong:
  assumes "selected_texture c = selected_texture c'"
    and "selected_coords c = selected_coords c'"
    and "selected_matrices c = selected_matrices c'"
    and "tex_alpha c = tex_alpha c'"
    and "sampler_descriptor (tex_parent c) = sampler_descriptor (tex_parent c')"
  shows "AtlasTextureContents_Render E c entity pass =
         AtlasTextureContents_Render E c' entity pass"
  unfolding AtlasTextureContents_Render_alt assms ..

lemma texture_child_colors:
  "AtlasTextureContents_Render E
     ((AtlasTextureContents_new (s\<lparr>colors := cs\<rparr>))\<lparr>tex_alpha := a, tex_coverage := bb\<rparr>)
     entity pass =
   AtlasTextureContents_Render E
     ((AtlasTextureContents_new s)\<lparr>tex_alpha := a, tex_coverage := bb\<rparr>) entity pass"
  by (rule AtlasTextureContents_Render_cong)
     (simp_all add: selected_texture_def selected_coords_def selected_matrices_def
        AtlasTextureContents_new_def)

lemma cull_rect_atlas_hyps:
  "texture cull_rect_atlas = Some demo_texture" "blend_mode cull_rect_atlas \<noteq> kClear"
  "0 < alpha cull_rect_atlas" "blend_mode cull_rect_atlas = kSource \<or> colors cull_rect_atlas = []"
  "length_invariant cull_rect_atlas"
  by (simp_all add: cull_rect_atlas_def length_invariant_def)

lemma pack_entries_lengths:
  "length (sub_colors (pack_entries E gs)) = length (sub_texture_coords (pack_entries E gs))"
  "length (sub_transforms (pack_entries E gs)) = length (sub_texture_coords (pack_entries E gs))"
  "length (result_transforms (pack_entries E gs)) =
     length (result_texture_coords (pack_entries E gs))"
  by (simp_all add: pack_entries_spec length_spec_shelf length_placed_members
        length_concat_members)

lemma GenerateSubAtlas_lengths:
  assumes "GenerateSubAtlas E s = Inr sub"
  shows "length (sub_colors sub) = length (sub_texture_coords sub)"
    and "length (sub_transforms sub) = length (sub_texture_coords sub)"
    and "length (result_transforms sub) = length (result_texture_coords sub)"
proof -
  from assms obtain gs where "sub = pack_entries E gs"
    by (auto simp: GenerateSubAtlas_def and_then_Inr_iff split: if_splits)
  then show "length (sub_colors sub) = length (sub_texture_coords sub)"
    and "length (sub_transforms sub) = length (sub_texture_coords sub)"
    and "length (result_transforms sub) = length (result_texture_coords sub)"
    by (simp_all add: pack_entries_lengths)
qed

lemma texture_render_total:
  assumes "length (selected_coords c) \<le> length (selected_matrices c)"
  shows "\<exists>res. AtlasTextureContents_Render E c entity pass = Inr res"
proof (cases "selected_texture c")
  case None
  from AtlasTextureContents_Render_no_texture[OF this, of E entity pass]
  show ?thesis by blast
next
  case (Some tex)
  from AtlasTextureContents_Render_in_range[OF Some assms, of E entity pass]
  show ?thesis by (cases "selected_coords c = []") auto
qed

lemma color_render_total:
  assumes "length (color_coords c) \<le> length (color_matrices c)"
    and "length (color_coords c) \<le> length (color_colors c)"
  shows "\<exists>res. AtlasColorContents_Render E c entity pass = Inr res"
  using AtlasColorContents_Render_in_range[OF assms, of E entity pass]
  by (cases "color_coords c = []") auto

lemma cull_rect_multiply_atlas_bounding_box:
  "ComputeBoundingBox demo_collaborators cull_rect_multiply_atlas =
     Inr (MakeXYWH 0 0 50 50,
          cull_rect_multiply_atlas\<lparr>bounding_box_cache := Some (MakeXYWH 0 0 50 50)\<rparr>)"
  by (simp add: ComputeBoundingBox_def cull_rect_multiply_atlas_def cull_rect_atlas_def
        extend_bounding_box_def vector_at_def
        demo_collaborators_def demo_TransformBounds_def demo_Union_def MakeSize_def GetSize_def
        MakeXYWH_def Let_def)

lemma cull_rect_multiply_atlas_hyps:
  "\<not> (texture cull_rect_multiply_atlas = None \<or> blend_mode cull_rect_multiply_atlas = kClear \<or>
      alpha cull_rect_multiply_atlas \<le> 0)"
  "length_invariant cull_rect_multiply_atlas"
  "\<not> direct_selected cull_rect_multiply_atlas"
  "\<not> single_pass_selected cull_rect_multiply_atlas"
  "cull_rect cull_rect_multiply_atlas = Some (MakeXYWH 0 0 5 5)"
  by (simp_all add: cull_rect_multiply_atlas_def cull_rect_atlas_def length_invariant_def
        direct_selected_def single_pass_selected_def)

text \<open>What each strategy returns under the length invariant, with the children it rendered.\<close>

lemma run_strategy_logged_children_ex:
  assumes tex: "texture s = Some tex" and nc: "blend_mode s \<noteq> kClear" and pos: "0 < alpha s"
    and inv: "length_invariant s"
    and bb: "ComputeBoundingBox E s = Inr (bb, s')"
  shows "\<exists>strategy ok pass' children.
           select_strategy E s = Inr (strategy, s') \<and>
           run_strategy_logged E strategy s' entity pass = Inr (ok, pass', children) \<and>
           (direct_selected s \<longrightarrow> map child_coverage children = [bb]) \<and>
           (single_pass_selected s \<longrightarrow> children = []) \<and>
           (\<not> direct_selected s \<and> \<not> single_pass_selected s \<longrightarrow>
              (\<exists>sub_atlas.
                 GenerateSubAtlas E s' = Inr sub_atlas \<and>
                 children =
                   (case RenderToSnapshot E (blend_mode s') (dst_contents s' sub_atlas)
                           (src_contents s' sub_atlas) of
                      None \<Rightarrow> []
                    | Some snapshot_texture \<Rightarrow>
                        [RenderedTexture
                           (resample_contents s' bb snapshot_texture sub_atlas)])))"
proof -
  have s'_def: "s' = s\<lparr>bounding_box_cache := Some bb\<rparr>" by (rule ComputeBoundingBox_frame[OF bb])
  note sel = select_strategy_not_benign[OF tex nc pos bb]
  have fields: "texture_coords s' = texture_coords s" "transforms s' = transforms s"
    "colors s' = colors s" "blend_mode s' = blend_mode s" "texture s' = texture s"
    by (simp_all add: s'_def)
  consider (tex) "blend_mode s = kSource \<or> colors s = []"
    | (col) "\<not> (blend_mode s = kSource \<or> colors s = [])" "blend_mode s = kDestination"
    | (pd) "\<not> (blend_mode s = kSource \<or> colors s = [])" "blend_mode s \<noteq> kDestination"
        "blend_index (blend_mode s) \<le> blend_index kModulate"
    | (adv) "\<not> (blend_mode s = kSource \<or> colors s = [])" "blend_mode s \<noteq> kDestination"
        "\<not> blend_index (blend_mode s) \<le> blend_index kModulate"
    by blast
  then show ?thesis
  proof cases
    case tex
    define child where
      "child = (AtlasTextureContents_new s')\<lparr>tex_alpha := alpha s, tex_coverage := bb\<rparr>"
    have s: "select_strategy E s = Inr (DirectTexture child, s')"
      using sel tex by (auto simp: child_def)
    have "length (selected_coords child) \<le> length (selected_matrices child)"
      using invariant_in_range[OF inv]
      by (simp add: child_def selected_coords_def selected_matrices_def
            AtlasTextureContents_new_def fields)
    from texture_render_total[OF this, of E entity pass]
    obtain ok pass' where "AtlasTextureContents_Render E child entity pass = Inr (ok, pass')"
      by auto
    then have "run_strategy_logged E (DirectTexture child) s' entity pass =
                 Inr (ok, pass', [RenderedTexture child])"
      by (simp add: run_strategy_logged_def)
    moreover have "child_coverage (RenderedTexture child) = bb" by (simp add: child_def)
    moreover have "direct_selected s" "\<not> single_pass_selected s"
      using tex by (auto simp: direct_selected_def single_pass_selected_def)
    ultimately show ?thesis using s by auto
  next
    case col
    have al: "aligned s" using inv col(1) by (auto intro: invariant_colors_aligned)
    define child where
      "child = (AtlasColorContents_new s')\<lparr>col_alpha := alpha s, col_coverage := bb\<rparr>"
    have s: "select_strategy E s = Inr (DirectColor child, s')"
      using sel col by (auto simp: child_def)
    have "length (color_coords child) \<le> length (color_matrices child)"
      "length (color_coords child) \<le> length (color_colors child)"
      using al
      by (simp_all add: child_def color_coords_def color_matrices_def color_colors_def
            AtlasColorContents_new_def fields aligned_def)
    from color_render_total[OF this, of E entity pass]
    obtain ok pass' where "AtlasColorContents_Render E child entity pass = Inr (ok, pass')"
      by auto
    then have "run_strategy_logged E (DirectColor child) s' entity pass =
                 Inr (ok, pass', [RenderedColor child])"
      by (simp add: run_strategy_logged_def)
    moreover have "child_coverage (RenderedColor child) = bb" by (simp add: child_def)
    moreover have "direct_selected s" "\<not> single_pass_selected s"
      using col by (auto simp: direct_selected_def single_pass_selected_def)
    ultimately show ?thesis using s by auto
  next
    case pd
    have al: "aligned s" using inv pd(1) by (auto intro: invariant_colors_aligned)
    then have al': "aligned s'" by (simp add: s'_def aligned_cache)
    have s: "select_strategy E s = Inr (SinglePassBlend, s')"
      using sel pd by auto
    have "run_strategy_logged E SinglePassBlend s' entity pass =
            Inr (fst (submit E (porter_duff_command E s' tex entity pass) pass),
                 snd (submit E (porter_duff_command E s' tex entity pass) pass), [])"
      using PorterDuff_Render_aligned[of s' tex, OF _ al'] tex
      by (simp add: run_strategy_logged_def fields split: prod.splits)
    moreover have "\<not> direct_selected s" "single_pass_selected s"
      using pd by (auto simp: direct_selected_def single_pass_selected_def)
    ultimately show ?thesis using s by auto
  next
    case adv
    have al: "aligned s" using inv adv(1) by (auto intro: invariant_colors_aligned)
    then have al': "aligned s'" by (simp add: s'_def aligned_cache)
    have pre: "GenerateSubAtlas_precondition s'"
      using adv by (auto simp: GenerateSubAtlas_precondition_def fields)
    have s: "select_strategy E s = Inr (Compositing bb, s')"
      using sel adv by auto
    from GenerateSubAtlas_indexable[OF _ aligned_indexable[OF al'], of E] pre
    obtain sub where sub: "GenerateSubAtlas E s' = Inr sub"
      by (auto simp: entry_check_passes_def)
    note lens = GenerateSubAtlas_lengths[OF sub]
    define children where
      "children = (case RenderToSnapshot E (blend_mode s') (dst_contents s' sub)
                           (src_contents s' sub) of
                      None \<Rightarrow> []
                    | Some snapshot_texture \<Rightarrow>
                        [RenderedTexture (resample_contents s' bb snapshot_texture sub)])"
    have "\<exists>ok pass'. Compositing_Render E s' bb entity pass = Inr (ok, pass', children)"
    proof (cases "RenderToSnapshot E (blend_mode s') (dst_contents s' sub) (src_contents s' sub)")
      case None
      then show ?thesis by (auto simp: Compositing_Render_def sub children_def)
    next
      case (Some snapshot_texture)
      have "\<exists>res. AtlasTextureContents_Render E
                    (resample_contents s' bb snapshot_texture sub) entity pass = Inr res"
        by (rule texture_render_total)
           (simp add: resample_contents_def AtlasTextureContents_new_def selected_coords_def
              selected_matrices_def lens)
      then show ?thesis by (auto simp: Compositing_Render_def sub Some Let_def children_def)
    qed
    then obtain ok pass' where
      "run_strategy_logged E (Compositing bb) s' entity pass = Inr (ok, pass', children)"
      by (auto simp: run_strategy_logged_def)
    moreover have "\<not> direct_selected s" "\<not> single_pass_selected s"
      using adv by (auto simp: direct_selected_def single_pass_selected_def)
    ultimately show ?thesis using s sub children_def by auto
  qed
qed

lemma Render_children_logged:
  "select_strategy E s = Inr (strategy, s') \<Longrightarrow>
   run_strategy_logged E strategy s' entity pass = Inr (ok, pass', children) \<Longrightarrow>
   Render_children E s entity pass = Inr children \<and> Render E s entity pass = Inr (ok, pass', s')"
  by (simp add: Render_children_def Render_def run_strategy_def)

lemma run_strategy_logged_children:
  assumes "texture s = Some tex" and "blend_mode s \<noteq> kClear" and "0 < alpha s"
    and "length_invariant s"
    and "ComputeBoundingBox E s = Inr (bb, s')"
  obtains strategy ok pass' children where
    "select_strategy E s = Inr (strategy, s')"
    and "run_strategy_logged E strategy s' entity pass = Inr (ok, pass', children)"
    and "direct_selected s \<longrightarrow> map child_coverage children = [bb]"
    and "single_pass_selected s \<longrightarrow> children = []"
    and "\<not> direct_selected s \<and> \<not> single_pass_selected s \<longrightarrow>
              (\<exists>sub_atlas.
                 GenerateSubAtlas E s' = Inr sub_atlas \<and>
                 children =
                   (case RenderToSnapshot E (blend_mode s') (dst_contents s' sub_atlas)
                           (src_contents s' sub_atlas) of
                      None \<Rightarrow> []
                    | Some snapshot_texture \<Rightarrow>
                        [RenderedTexture
                           (resample_contents s' bb snapshot_texture sub_atlas)]))"
  using run_strategy_logged_children_ex[OF assms, of entity pass]
  by (elim exE conjE) (rule that)

lemma cull_rect_children:
  assumes "s = cull_rect_atlas \<or> s = cull_rect_multiply_atlas"
  shows "map_sum id (map child_coverage) (Render_children demo_collaborators s demo_entity demo_pass) =
           Inr [MakeXYWH 0 0 50 50]"
proof -
  have hyps: "texture s = Some demo_texture" "blend_mode s \<noteq> kClear" "0 < alpha s"
    "length_invariant s"
    using assms
    by (auto simp: cull_rect_multiply_atlas_def cull_rect_atlas_def length_invariant_def)
  have bb: "ComputeBoundingBox demo_collaborators s =
              Inr (MakeXYWH 0 0 50 50, s\<lparr>bounding_box_cache := Some (MakeXYWH 0 0 50 50)\<rparr>)"
    using assms cull_rect_atlas_bounding_box cull_rect_multiply_atlas_bounding_box by auto
  have sel: "direct_selected s \<or> \<not> direct_selected s \<and> \<not> single_pass_selected s"
    using assms
    by (auto simp: cull_rect_multiply_atlas_def cull_rect_atlas_def direct_selected_def
          single_pass_selected_def)
  define s' where "s' = s\<lparr>bounding_box_cache := Some (MakeXYWH 0 0 50 50)\<rparr>"
  obtain strategy ok pass' children where
    s: "select_strategy demo_collaborators s = Inr (strategy, s')"
    and r: "run_strategy_logged demo_collaborators strategy s' demo_entity demo_pass =
              Inr (ok, pass', children)"
    and d: "direct_selected s \<longrightarrow> map child_coverage children = [MakeXYWH 0 0 50 50]"
    and p: "single_pass_selected s \<longrightarrow> children = []"
    and c: "\<not> direct_selected s \<and> \<not> single_pass_selected s \<longrightarrow>
              (\<exists>sub_atlas.
                 GenerateSubAtlas demo_collaborators s' = Inr sub_atlas \<and>
                 children =
                   (case RenderToSnapshot demo_collaborators (blend_mode s')
                           (dst_contents s' sub_atlas) (src_contents s' sub_atlas) of
                      None \<Rightarrow> []
                    | Some snapshot_texture \<Rightarrow>
                        [RenderedTexture
                           (resample_contents s' (MakeXYWH 0 0 50 50) snapshot_texture
                              sub_atlas)]))"
    by (rule run_strategy_logged_children[OF hyps bb[folded s'_def], of demo_entity demo_pass])
  have "map child_coverage children = [MakeXYWH 0 0 50 50]"
    using sel d c
    by (auto simp: demo_collaborators_def demo_RenderToSnapshot_def resample_contents_def)
  with Render_children_logged[OF s r] show ?thesis by simp
qed

section \<open>The coverage handed to the strategies\<close>

text \<open>
  C1, as stated, fails: with cull rect (0,0,5,5) and one instance whose bounding box is
  (0,0,50,50), the one child \<^verbatim>\<open>Render\<close> renders is handed the coverage (0,0,50,50), not
  the cull rect: the texture child under blend mode source, and the child that
  resamples the snapshot under an advanced blend mode.
\<close>

theorem Render_coverage_counterexample:
  "cull_rect cull_rect_atlas = Some (MakeXYWH 0 0 5 5) \<and>
   map_sum id (map child_coverage)
     (Render_children demo_collaborators cull_rect_atlas demo_entity demo_pass) =
     Inr [MakeXYWH 0 0 50 50] \<and>
   cull_rect cull_rect_multiply_atlas = Some (MakeXYWH 0 0 5 5) \<and>
   map_sum id (map child_coverage)
     (Render_children demo_collaborators cull_rect_multiply_atlas demo_entity demo_pass) =
     Inr [MakeXYWH 0 0 50 50] \<and>
   MakeXYWH 0 0 50 50 \<noteq> MakeXYWH 0 0 5 5"
  using cull_rect_children[of cull_rect_atlas] cull_rect_children[of cull_rect_multiply_atlas]
  by (simp add: cull_rect_multiply_atlas_def cull_rect_atlas_def MakeXYWH_def)

text \<open>
  C1, amended: on every render call that is not a benign no-op, for an instance set that
  satisfies the length invariant, every child contents \<^verbatim>\<open>Render\<close> renders is handed, as
  its coverage, the bounding box \<^verbatim>\<open>ComputeBoundingBox\<close> returns (the cached one when there
  is one), whether or not a cull rect is present. A direct strategy (texture only or
  colour only) renders one such child; the single-pass strategy renders none; the
  compositing strategy generates the sub-atlas and renders one child, the one that
  resamples the snapshot of the blend filter, unless the filter yields no snapshot. The
  cull rect overrides only the coverage \<^verbatim>\<open>GetCoverage\<close> reports: the cull rect when
  present, the bounding box otherwise, each transformed by the entity's transform.
\<close>

theorem Render_coverage_is_bounding_box:
  assumes "\<not> (texture s = None \<or> blend_mode s = kClear \<or> alpha s \<le> 0)"
    and "length_invariant s"
  shows "\<exists>bb s' ok pass' children.
           ComputeBoundingBox E s = Inr (bb, s') \<and>
           (\<forall>cached. bounding_box_cache s = Some cached \<longrightarrow> bb = cached) \<and>
           Render E s entity pass = Inr (ok, pass', s') \<and>
           Render_children E s entity pass = Inr children \<and>
           (\<forall>child\<in>set children. child_coverage child = bb) \<and>
           (direct_selected s \<longrightarrow> map child_coverage children = [bb]) \<and>
           (single_pass_selected s \<longrightarrow> children = []) \<and>
           (\<not> direct_selected s \<and> \<not> single_pass_selected s \<longrightarrow>
              (\<exists>sub_atlas.
                 GenerateSubAtlas E s' = Inr sub_atlas \<and>
                 children =
                   (case RenderToSnapshot E (blend_mode s') (dst_contents s' sub_atlas)
                           (src_contents s' sub_atlas) of
                      None \<Rightarrow> []
                    | Some snapshot_texture \<Rightarrow>
                        [RenderedTexture
                           (resample_contents s' bb snapshot_texture sub_atlas)]))) \<and>
           GetCoverage E s entity =
             (case cull_rect s of
                Some cull \<Rightarrow> Inr (Some (TransformBounds E cull (GetTransform entity)), s)
              | None \<Rightarrow> Inr (Some (TransformBounds E bb (GetTransform entity)), s'))"
proof -
  from assms(1) obtain tex where tex: "texture s = Some tex" and nc: "blend_mode s \<noteq> kClear"
    and pos: "0 < alpha s" by auto
  from ComputeBoundingBox_total[OF invariant_in_range[OF assms(2)], of E]
  obtain bb where bb: "ComputeBoundingBox E s = Inr (bb, s\<lparr>bounding_box_cache := Some bb\<rparr>)"
    by blast
  define s' where "s' = s\<lparr>bounding_box_cache := Some bb\<rparr>"
  obtain strategy ok pass' children where
    s: "select_strategy E s = Inr (strategy, s')"
    and r: "run_strategy_logged E strategy s' entity pass = Inr (ok, pass', children)"
    and d: "direct_selected s \<longrightarrow> map child_coverage children = [bb]"
    and p: "single_pass_selected s \<longrightarrow> children = []"
    and c: "\<not> direct_selected s \<and> \<not> single_pass_selected s \<longrightarrow>
              (\<exists>sub_atlas.
                 GenerateSubAtlas E s' = Inr sub_atlas \<and>
                 children =
                   (case RenderToSnapshot E (blend_mode s') (dst_contents s' sub_atlas)
                           (src_contents s' sub_atlas) of
                      None \<Rightarrow> []
                    | Some snapshot_texture \<Rightarrow>
                        [RenderedTexture
                           (resample_contents s' bb snapshot_texture sub_atlas)]))"
    by (rule run_strategy_logged_children[OF tex nc pos assms(2) bb[folded s'_def],
          of entity pass])
  have all: "\<forall>child\<in>set children. child_coverage child = bb"
  proof (cases "direct_selected s")
    case True
    with d have "map child_coverage children = [bb]" by simp
    then have "set (map child_coverage children) = {bb}" by simp
    then show ?thesis by auto
  next
    case False
    show ?thesis
    proof (cases "single_pass_selected s")
      case True
      with p show ?thesis by simp
    next
      case sp: False
      with False c show ?thesis
        by (auto simp: resample_contents_def split: option.splits)
    qed
  qed
  have cache: "\<forall>cached. bounding_box_cache s = Some cached \<longrightarrow> bb = cached"
    using bb by (auto simp: ComputeBoundingBox_def)
  have get: "GetCoverage E s entity =
           (case cull_rect s of
              Some cull \<Rightarrow> Inr (Some (TransformBounds E cull (GetTransform entity)), s)
            | None \<Rightarrow> Inr (Some (TransformBounds E bb (GetTransform entity)), s'))"
    by (simp add: GetCoverage_def bb s'_def split: option.splits)
  have rr: "Render E s entity pass = Inr (ok, pass', s')"
    and rc: "Render_children E s entity pass = Inr children"
    using Render_children_logged[OF s r] by simp_all
  show ?thesis
    by (rule exI[of _ bb], rule exI[of _ s'], rule exI[of _ ok], rule exI[of _ pass'],
        rule exI[of _ children])
       (intro conjI bb[folded s'_def] cache rr rc all d p c get)
qed

theorem Render_coverage_is_bounding_box_witness:
  "\<exists>ok pass' s' child.
     Render demo_collaborators cull_rect_multiply_atlas demo_entity demo_pass =
       Inr (ok, pass', s') \<and>
     Render_children demo_collaborators cull_rect_multiply_atlas demo_entity demo_pass =
       Inr [RenderedTexture child] \<and>
     tex_coverage child = MakeXYWH 0 0 50 50 \<and>
     cull_rect cull_rect_multiply_atlas = Some (MakeXYWH 0 0 5 5) \<and>
     GetCoverage demo_collaborators cull_rect_multiply_atlas demo_entity =
       Inr (Some (MakeXYWH 0 0 5 5), cull_rect_multiply_atlas)"
proof -
  from Render_coverage_is_bounding_box[OF cull_rect_multiply_atlas_hyps(1,2),
      of demo_collaborators demo_entity demo_pass]
  obtain bb s' ok pass' children where
    bb: "ComputeBoundingBox demo_collaborators cull_rect_multiply_atlas = Inr (bb, s')"
    and run: "Render demo_collaborators cull_rect_multiply_atlas demo_entity demo_pass =
                Inr (ok, pass', s')"
    and log: "Render_children demo_collaborators cull_rect_multiply_atlas demo_entity demo_pass =
                Inr children"
    and c: "\<not> direct_selected cull_rect_multiply_atlas \<and>
            \<not> single_pass_selected cull_rect_multiply_atlas \<longrightarrow>
              (\<exists>sub_atlas.
                 GenerateSubAtlas demo_collaborators s' = Inr sub_atlas \<and>
                 children =
                   (case RenderToSnapshot demo_collaborators (blend_mode s')
                           (dst_contents s' sub_atlas) (src_contents s' sub_atlas) of
                      None \<Rightarrow> []
                    | Some snapshot_texture \<Rightarrow>
                        [RenderedTexture
                           (resample_contents s' bb snapshot_texture sub_atlas)]))"
    and get: "GetCoverage demo_collaborators cull_rect_multiply_atlas demo_entity =
             (case cull_rect cull_rect_multiply_atlas of
                Some cull \<Rightarrow>
                  Inr (Some (TransformBounds demo_collaborators cull (GetTransform demo_entity)),
                       cull_rect_multiply_atlas)
              | None \<Rightarrow>
                  Inr (Some (TransformBounds demo_collaborators bb (GetTransform demo_entity)),
                       s'))"
    by (elim exE conjE) (rule that)
  from bb have bb_eq: "bb = MakeXYWH 0 0 50 50"
    by (simp add: cull_rect_multiply_atlas_bounding_box)
  from c cull_rect_multiply_atlas_hyps(3,4) obtain sub_atlas where
    "children = [RenderedTexture (resample_contents s' bb demo_texture sub_atlas)]"
    by (auto simp: demo_collaborators_def demo_RenderToSnapshot_def)
  moreover have "tex_coverage (resample_contents s' bb demo_texture sub_atlas) = MakeXYWH 0 0 50 50"
    by (simp add: resample_contents_def bb_eq)
  moreover have "GetCoverage demo_collaborators cull_rect_multiply_atlas demo_entity =
          Inr (Some (MakeXYWH 0 0 5 5), cull_rect_multiply_atlas)"
    unfolding get
    by (simp add: cull_rect_multiply_atlas_def cull_rect_atlas_def demo_collaborators_def
          demo_TransformBounds_def demo_entity_def MakeXYWH_def)
  ultimately show ?thesis using run log cull_rect_multiply_atlas_hyps(5) by blast
qed

section \<open>The single-pass blend\<close>

text \<open>
  C6: for an instance set dispatched to the single-pass strategy (texture present, mode
  not clear, alpha positive, colours non-empty, mode a simple one other than source and
  destination) that satisfies the length invariant, \<^verbatim>\<open>Render\<close> appends exactly one draw
  to the pass, a Porter-Duff blend draw of six vertices per instance on the instance
  set's texture; its five blend coefficients are the table entry for the inverse of the
  blend mode, or for \<open>source\<close> when the mode has no inverse; its \<open>output_alpha\<close> is the
  instance set's alpha and its \<open>input_alpha\<close> is 1.
\<close>

theorem Render_single_pass_blend:
  assumes "texture s = Some tex" "blend_mode s \<noteq> kClear" "0 < alpha s"
    and "single_pass_selected s" "length_invariant s"
  shows "\<exists>s' vertices mvp frag_info sampler.
           select_strategy E s = Inr (SinglePassBlend, s') \<and>
           Render E s entity pass =
             Inr (Draw E (PorterDuffBlendCommand OptionsFromPass (GetClipDepth entity) vertices
                            mvp (GetYCoordScale tex) frag_info tex sampler),
                  pass\<lparr>commands := commands pass @
                     [PorterDuffBlendCommand OptionsFromPass (GetClipDepth entity) vertices
                        mvp (GetYCoordScale tex) frag_info tex sampler]\<rparr>,
                  s') \<and>
           length vertices = 6 * length (texture_coords s) \<and>
           (src_coeff frag_info, src_coeff_dst_alpha frag_info, dst_coeff frag_info,
            dst_coeff_src_alpha frag_info, dst_coeff_src_color frag_info) =
             kPorterDuffCoefficients E
               (blend_index (case InvertPorterDuffBlend E (blend_mode s) of
                               Some inverted \<Rightarrow> inverted | None \<Rightarrow> kSource)) \<and>
           output_alpha frag_info = alpha s \<and> input_alpha frag_info = 1"
proof -
  have ne: "colors s \<noteq> []" using assms(4) by (simp add: single_pass_selected_def)
  have al: "aligned s" using assms(5) ne by (rule invariant_colors_aligned)
  from ComputeBoundingBox_total[OF invariant_in_range[OF assms(5)], of E]
  obtain bb where bb: "ComputeBoundingBox E s = Inr (bb, s\<lparr>bounding_box_cache := Some bb\<rparr>)"
    by blast
  define s' where "s' = s\<lparr>bounding_box_cache := Some bb\<rparr>"
  have sel: "select_strategy E s = Inr (SinglePassBlend, s')"
    using select_strategy_not_benign[OF assms(1,2,3) bb[folded s'_def]] assms(4)
    by (simp add: single_pass_selected_def)
  have tex': "texture s' = Some tex" and al': "aligned s'"
    using assms(1) al by (simp_all add: s'_def aligned_cache)
  define cmd where "cmd = porter_duff_command E s' tex entity pass"
  have run: "Render E s entity pass = Inr (Draw E cmd, pass\<lparr>commands := commands pass @ [cmd]\<rparr>, s')"
    by (simp add: Render_def sel run_strategy_cases PorterDuff_Render_aligned[OF tex' al']
          submit_def cmd_def)
  define vertices where
    "vertices = concat (map (porter_duff_vertices E s' (Texture_GetSize tex))
                          [0..<length (texture_coords s')])"
  define sampler where
    "sampler = (if SupportsDecalSamplerAddressMode E
                then (sampler_descriptor s')\<lparr>width_address_mode := kDecal,
                                                height_address_mode := kDecal\<rparr>
                else sampler_descriptor s')"
  have cmd_eq: "cmd = PorterDuffBlendCommand OptionsFromPass (GetClipDepth entity) vertices
                  (MatrixMultiply E (GetOrthographicTransform pass) (GetTransform entity))
                  (GetYCoordScale tex) (porter_duff_frag_info E s') tex sampler"
    by (simp add: cmd_def porter_duff_command_def vertices_def sampler_def)
  have len: "length vertices = 6 * length (texture_coords s)"
    unfolding vertices_def
    using length_concat_vertices[of "porter_duff_vertices E s' (Texture_GetSize tex)"
        "[0..<length (texture_coords s')]"]
    by (simp add: porter_duff_vertices_length s'_def)
  have coeff: "(src_coeff (porter_duff_frag_info E s'),
                src_coeff_dst_alpha (porter_duff_frag_info E s'),
                dst_coeff (porter_duff_frag_info E s'),
                dst_coeff_src_alpha (porter_duff_frag_info E s'),
                dst_coeff_src_color (porter_duff_frag_info E s')) =
               kPorterDuffCoefficients E
                 (blend_index (case InvertPorterDuffBlend E (blend_mode s) of
                                 Some inverted \<Rightarrow> inverted | None \<Rightarrow> kSource))"
    by (simp add: porter_duff_frag_info_def s'_def Let_def split: prod.splits)
  have alphas: "output_alpha (porter_duff_frag_info E s') = alpha s"
    "input_alpha (porter_duff_frag_info E s') = 1"
    by (simp_all add: porter_duff_frag_info_def s'_def Let_def split: prod.splits)
  from sel run[unfolded cmd_eq] len coeff alphas show ?thesis by blast
qed

theorem Render_single_pass_blend_witness:
  "\<exists>s' vertices mvp frag_info sampler.
     select_strategy demo_collaborators source_over_atlas = Inr (SinglePassBlend, s') \<and>
     Render demo_collaborators source_over_atlas demo_entity demo_pass =
       Inr (True,
            demo_pass\<lparr>commands :=
              [PorterDuffBlendCommand OptionsFromPass 0 vertices mvp 1 frag_info demo_texture
                 sampler]\<rparr>,
            s') \<and>
     length vertices = 6 \<and>
     (src_coeff frag_info, src_coeff_dst_alpha frag_info, dst_coeff frag_info,
      dst_coeff_src_alpha frag_info, dst_coeff_src_color frag_info) = (1, -1, 1, 0, 0) \<and>
     output_alpha frag_info = 1 \<and> input_alpha frag_info = 1"
proof -
  have coeff: "kPorterDuffCoefficients demo_collaborators
                 (blend_index (case InvertPorterDuffBlend demo_collaborators
                                      (blend_mode source_over_atlas) of
                                 Some inverted \<Rightarrow> inverted | None \<Rightarrow> kSource)) = (1, -1, 1, 0, 0)"
    by (simp add: demo_collaborators_def source_over_atlas_def demo_InvertPorterDuffBlend_def
          demo_kPorterDuffCoefficients_def)
  have facts: "Draw demo_collaborators c = True" "GetClipDepth demo_entity = 0"
    "GetYCoordScale demo_texture = 1" "commands demo_pass = []"
    "alpha source_over_atlas = 1" "length (texture_coords source_over_atlas) = 1" for c
    by (simp_all add: demo_collaborators_def demo_Draw_def demo_entity_def demo_texture_def
          demo_pass_def source_over_atlas_def)
  from Render_single_pass_blend[OF source_over_atlas_hyps, of demo_collaborators demo_entity
      demo_pass]
  show ?thesis unfolding coeff facts by simp
qed

section \<open>The benign no-op\<close>

text \<open>
  C7: when the texture is absent, or the blend mode is clear, or alpha is at most 0,
  \<^verbatim>\<open>Render\<close> returns success, the render pass is as before (no draw is issued) and the
  instance set is as before; the strategy selected is the no-op.
\<close>

theorem Render_benign_no_op:
  "texture s = None \<or> blend_mode s = kClear \<or> alpha s \<le> 0 \<Longrightarrow>
   Render E s entity pass = Inr (True, pass, s) \<and> select_strategy E s = Inr (NoOp, s)"
  by (simp add: Render_def select_strategy_def run_strategy_cases)

theorem Render_benign_no_op_witness:
  "Render demo_collaborators (cull_rect_atlas\<lparr>blend_mode := kClear\<rparr>) demo_entity demo_pass =
     Inr (True, demo_pass, cull_rect_atlas\<lparr>blend_mode := kClear\<rparr>) \<and>
   Render demo_collaborators (cull_rect_atlas\<lparr>texture := None\<rparr>) demo_entity demo_pass =
     Inr (True, demo_pass, cull_rect_atlas\<lparr>texture := None\<rparr>) \<and>
   Render demo_collaborators (cull_rect_atlas\<lparr>alpha := 0\<rparr>) demo_entity demo_pass =
     Inr (True, demo_pass, cull_rect_atlas\<lparr>alpha := 0\<rparr>)"
  using
    Render_benign_no_op[of "cull_rect_atlas\<lparr>blend_mode := kClear\<rparr>"
      demo_collaborators demo_entity demo_pass]
    Render_benign_no_op[of "cull_rect_atlas\<lparr>texture := None\<rparr>"
      demo_collaborators demo_entity demo_pass]
    Render_benign_no_op[of "cull_rect_atlas\<lparr>alpha := 0\<rparr>"
      demo_collaborators demo_entity demo_pass]
  by simp

section \<open>The texture-only path\<close>

text \<open>
  C8, as stated, fails: for an instance set without instances whose blend mode is source
  (texture present, alpha 1), \<^verbatim>\<open>Render\<close> succeeds and leaves the pass without any draw.
\<close>

theorem Render_texture_only_counterexample:
  "texture empty_source_atlas = Some demo_texture \<and> blend_mode empty_source_atlas = kSource \<and>
   0 < alpha empty_source_atlas \<and> length_invariant empty_source_atlas \<and>
   render_output (Render demo_collaborators empty_source_atlas demo_entity demo_pass) =
     Inr (True, demo_pass) \<and>
   commands demo_pass = []"
  by (simp add: Render_def select_strategy_def empty_source_atlas_bounding_box run_strategy_cases
        AtlasTextureContents_Render_def AtlasTextureContents_new_def render_output_def)
     (simp add: empty_source_atlas_def length_invariant_def demo_pass_def)

text \<open>
  C8, amended: for an instance set with blend mode source or without colours (texture
  present, mode not clear, alpha positive) that satisfies the length invariant,
  \<^verbatim>\<open>Render\<close> issues no draw when there is no instance and otherwise exactly one draw, a
  texture-fill draw of six vertices (position and texture coordinates, no colour) per
  instance on the instance set's texture with the instance set's alpha; and the success
  flag and the pass afterwards are the same for every other colours list the instance
  set could carry on this path.
\<close>

theorem Render_texture_only:
  assumes "texture s = Some tex" "blend_mode s \<noteq> kClear" "0 < alpha s"
    and "blend_mode s = kSource \<or> colors s = []" "length_invariant s"
  shows "\<exists>ok pass' s' vertices mvp.
           Render E s entity pass = Inr (ok, pass', s') \<and>
           length vertices = 6 * length (texture_coords s) \<and>
           (ok, pass') =
             (if texture_coords s = [] then (True, pass)
              else (Draw E (TextureFillCommand ''AtlasTexture''
                              (OptionsFromPassAndEntity entity None) (GetClipDepth entity)
                              vertices mvp (GetYCoordScale tex) (alpha s) tex
                              (sampler_descriptor s)),
                    pass\<lparr>commands := commands pass @
                      [TextureFillCommand ''AtlasTexture''
                         (OptionsFromPassAndEntity entity None) (GetClipDepth entity)
                         vertices mvp (GetYCoordScale tex) (alpha s) tex
                         (sampler_descriptor s)]\<rparr>)) \<and>
           (\<forall>cs. blend_mode s = kSource \<or> cs = [] \<longrightarrow>
              render_output (Render E (s\<lparr>colors := cs\<rparr>) entity pass) = Inr (ok, pass'))"
proof -
  from ComputeBoundingBox_total[OF invariant_in_range[OF assms(5)], of E]
  obtain bb where bb: "ComputeBoundingBox E s = Inr (bb, s\<lparr>bounding_box_cache := Some bb\<rparr>)"
    by blast
  define s' where "s' = s\<lparr>bounding_box_cache := Some bb\<rparr>"
  define child where
    "child = (AtlasTextureContents_new s')\<lparr>tex_alpha := alpha s, tex_coverage := bb\<rparr>"
  have sel: "select_strategy E s = Inr (DirectTexture child, s')"
    using select_strategy_not_benign[OF assms(1,2,3) bb[folded s'_def]] assms(4)
    by (auto simp: child_def)
  have ctex: "selected_texture child = Some tex"
    and ccoords: "selected_coords child = texture_coords s"
    and cmats: "selected_matrices child = transforms s"
    using assms(1)
    by (simp_all add: child_def s'_def AtlasTextureContents_new_def selected_texture_def
          selected_coords_def selected_matrices_def)
  have inr: "length (selected_coords child) \<le> length (selected_matrices child)"
    unfolding ccoords cmats using assms(5) by (rule invariant_in_range)
  define cmd where "cmd = texture_command E child tex entity pass"
  define out where
    "out = (if texture_coords s = [] then (True, pass) else submit E cmd pass)"
  have child_run: "AtlasTextureContents_Render E child entity pass = Inr out"
    unfolding AtlasTextureContents_Render_in_range[OF ctex inr] ccoords out_def cmd_def by simp
  have run: "Render E s entity pass = Inr (fst out, snd out, s')"
    by (simp add: Render_def sel run_strategy_cases child_run split: prod.splits)
  define vertices where
    "vertices = concat (map (texture_vertices E (texture_coords s) (transforms s)
                               (Texture_GetSize tex)) [0..<length (texture_coords s)])"
  have cmd_eq: "cmd = TextureFillCommand ''AtlasTexture''
                        (OptionsFromPassAndEntity entity None) (GetClipDepth entity) vertices
                        (MatrixMultiply E (GetOrthographicTransform pass) (GetTransform entity))
                        (GetYCoordScale tex) (alpha s) tex (sampler_descriptor s)"
    unfolding cmd_def texture_command_def ccoords cmats vertices_def
    by (simp add: child_def s'_def AtlasTextureContents_new_def)
  have len: "length vertices = 6 * length (texture_coords s)"
    unfolding vertices_def
    using length_concat_vertices[of "texture_vertices E (texture_coords s) (transforms s)
                               (Texture_GetSize tex)" "[0..<length (texture_coords s)]"]
    by (simp add: texture_vertices_length)
  have out_eq: "(fst out, snd out) =
             (if texture_coords s = [] then (True, pass)
              else (Draw E cmd, pass\<lparr>commands := commands pass @ [cmd]\<rparr>))"
    by (simp add: out_def submit_def)
  have indep: "render_output (Render E (s\<lparr>colors := cs\<rparr>) entity pass) = Inr (fst out, snd out)"
    if cs: "blend_mode s = kSource \<or> cs = []" for cs
  proof -
    have bb': "ComputeBoundingBox E (s\<lparr>colors := cs\<rparr>) = Inr (bb, s'\<lparr>colors := cs\<rparr>)"
      by (simp add: ComputeBoundingBox_colors bb s'_def)
    have "select_strategy E (s\<lparr>colors := cs\<rparr>) =
            Inr (DirectTexture ((AtlasTextureContents_new (s'\<lparr>colors := cs\<rparr>))
                                  \<lparr>tex_alpha := alpha s, tex_coverage := bb\<rparr>), s'\<lparr>colors := cs\<rparr>)"
      using select_strategy_not_benign[of "s\<lparr>colors := cs\<rparr>" tex E bb "s'\<lparr>colors := cs\<rparr>"]
        assms(1,2,3) bb' cs
      by auto
    then show ?thesis
      using child_run
      by (simp add: Render_def run_strategy_cases texture_child_colors child_def render_output_def
            split: prod.splits)
  qed
  from run len out_eq[unfolded cmd_eq] indep show ?thesis by blast
qed

theorem Render_texture_only_witness:
  "\<exists>ok pass' s' vertices mvp.
     Render demo_collaborators cull_rect_atlas demo_entity demo_pass = Inr (ok, pass', s') \<and>
     length vertices = 6 \<and>
     (ok, pass') =
       (True, demo_pass\<lparr>commands :=
          [TextureFillCommand ''AtlasTexture'' (OptionsFromPassAndEntity demo_entity None) 0
             vertices mvp 1 1 demo_texture demo_sampler]\<rparr>) \<and>
     render_output (Render demo_collaborators (cull_rect_atlas\<lparr>colors := []\<rparr>) demo_entity
                      demo_pass) = Inr (ok, pass')"
proof -
  have facts: "Draw demo_collaborators c = True" "GetClipDepth demo_entity = 0"
    "GetYCoordScale demo_texture = 1" "commands demo_pass = []"
    "alpha cull_rect_atlas = 1" "length (texture_coords cull_rect_atlas) = 1"
    "texture_coords cull_rect_atlas \<noteq> []" "sampler_descriptor cull_rect_atlas = demo_sampler"
    "blend_mode cull_rect_atlas = kSource" for c
    by (simp_all add: demo_collaborators_def demo_Draw_def demo_entity_def demo_texture_def
          demo_pass_def cull_rect_atlas_def)
  from Render_texture_only[OF cull_rect_atlas_hyps, of demo_collaborators demo_entity demo_pass]
  obtain ok pass' s' vertices mvp where
    run: "Render demo_collaborators cull_rect_atlas demo_entity demo_pass = Inr (ok, pass', s')"
    and len: "length vertices = 6 * length (texture_coords cull_rect_atlas)"
    and out: "(ok, pass') =
             (if texture_coords cull_rect_atlas = [] then (True, demo_pass)
              else (Draw demo_collaborators
                      (TextureFillCommand ''AtlasTexture''
                         (OptionsFromPassAndEntity demo_entity None) (GetClipDepth demo_entity)
                         vertices mvp (GetYCoordScale demo_texture) (alpha cull_rect_atlas)
                         demo_texture (sampler_descriptor cull_rect_atlas)),
                    demo_pass\<lparr>commands := commands demo_pass @
                      [TextureFillCommand ''AtlasTexture''
                         (OptionsFromPassAndEntity demo_entity None) (GetClipDepth demo_entity)
                         vertices mvp (GetYCoordScale demo_texture) (alpha cull_rect_atlas)
                         demo_texture (sampler_descriptor cull_rect_atlas)]\<rparr>))"
    and indep: "\<forall>cs. blend_mode cull_rect_atlas = kSource \<or> cs = [] \<longrightarrow>
              render_output (Render demo_collaborators (cull_rect_atlas\<lparr>colors := cs\<rparr>)
                               demo_entity demo_pass) = Inr (ok, pass')"
    by blast
  from len have len': "length vertices = 6" by (simp add: facts)
  from out have out': "(ok, pass') =
       (True, demo_pass\<lparr>commands :=
          [TextureFillCommand ''AtlasTexture'' (OptionsFromPassAndEntity demo_entity None) 0
             vertices mvp 1 1 demo_texture demo_sampler]\<rparr>)"
    by (simp add: facts)
  from indep have "render_output (Render demo_collaborators (cull_rect_atlas\<lparr>colors := []\<rparr>)
                      demo_entity demo_pass) = Inr (ok, pass')" by blast
  with run len' out' show ?thesis by blast
qed

section \<open>Encoding a compute pass with an empty size\<close>

text \<open>
  C9, as stated, fails: with a live context, a backend that would succeed, a thread-group
  size of (8,8) and a grid size of (0,0), \<^verbatim>\<open>EncodeCommands\<close> reports failure, in a debug
  build and in a release build alike.
\<close>

theorem EncodeCommands_empty_grid_counterexample:
  "fst (EncodeCommands True demo_OnEncodeCommands empty_grid_pass) = False \<and>
   fst (EncodeCommands False demo_OnEncodeCommands empty_grid_pass) = False \<and>
   IsEmpty (grid_size empty_grid_pass) \<and>
   \<not> IsEmpty (thread_group_size empty_grid_pass) \<and>
   pass_context empty_grid_pass = Some () \<and>
   demo_OnEncodeCommands () (grid_size empty_grid_pass) (thread_group_size empty_grid_pass) = True"
  by (simp add: EncodeCommands_def empty_grid_pass_def SetGridSize_def SetThreadGroupSize_def
        IsEmpty_def demo_OnEncodeCommands_def)

text \<open>
  C9, amended: encoding a compute pass whose grid size or thread-group size is empty
  returns failure in every build, whatever the backend would have answered (the backend
  is not consulted); the diagnostic warning is the only thing logged, and it is logged
  in a debug build only: a release build, where \<^verbatim>\<open>FML_DLOG\<close> is compiled out, logs nothing.
\<close>

theorem EncodeCommands_empty_size_fails:
  "IsEmpty (grid_size p) \<or> IsEmpty (thread_group_size p) \<Longrightarrow>
   EncodeCommands dlog_enabled OnEncodeCommands p =
     (False,
      if dlog_enabled
      then [WARNING ''Attempted to encode a compute pass with an empty grid or thread group size.'']
      else [])"
  by (simp add: EncodeCommands_def FML_DLOG_def)

theorem EncodeCommands_empty_size_fails_witness:
  "IsEmpty (grid_size empty_grid_pass) \<and>
   EncodeCommands True demo_OnEncodeCommands empty_grid_pass =
     (False,
      [WARNING ''Attempted to encode a compute pass with an empty grid or thread group size.'']) \<and>
   EncodeCommands False demo_OnEncodeCommands empty_grid_pass = (False, [])"
proof -
  have h: "IsEmpty (grid_size empty_grid_pass)"
    by (simp add: empty_grid_pass_def SetGridSize_def SetThreadGroupSize_def IsEmpty_def)
  then have e: "IsEmpty (grid_size empty_grid_pass) \<or> IsEmpty (thread_group_size empty_grid_pass)" ..
  from EncodeCommands_empty_size_fails[OF e, of True demo_OnEncodeCommands]
       EncodeCommands_empty_size_fails[OF e, of False demo_OnEncodeCommands] h
  show ?thesis by simp
qed

section \<open>Parallel-array accesses are in bounds\<close>

text \<open>
  C10: for an instance set that satisfies the length invariant, \<^verbatim>\<open>Render\<close> selects a
  strategy and runs it without an out-of-range read, a null dereference or a failed
  assertion. Whenever the strategy reads the colours (direct colour, single pass,
  compositing), the colours are non-empty and as many as the regions, because sets
  without colours go to the texture-only strategy first. On the compositing path the
  entry assertion of \<^verbatim>\<open>GenerateSubAtlas\<close> holds, the sub-atlas is generated, and the
  destination (colour) and source (texture) layers handed to the blend filter render
  without an out-of-range read on any entity and pass.
\<close>

theorem Render_array_accesses_in_bounds:
  assumes "length_invariant s"
  shows "\<exists>strategy s' ok pass'.
           select_strategy E s = Inr (strategy, s') \<and>
           run_strategy E strategy s' entity pass = Inr (ok, pass') \<and>
           Render E s entity pass = Inr (ok, pass', s') \<and>
           (colors_consumed strategy \<longrightarrow> colors s \<noteq> [] \<and>
              length (colors s) = length (texture_coords s)) \<and>
           (\<forall>coverage. strategy = Compositing coverage \<longrightarrow>
              GenerateSubAtlas_precondition s' \<and>
              (\<exists>sub_atlas. GenerateSubAtlas E s' = Inr sub_atlas \<and>
                 (\<forall>e p. \<exists>res. AtlasColorContents_Render E (dst_contents s' sub_atlas) e p = Inr res) \<and>
                 (\<forall>e p. \<exists>res. AtlasTextureContents_Render E (src_contents s' sub_atlas) e p = Inr res)))"
proof (cases "texture s = None \<or> blend_mode s = kClear \<or> alpha s \<le> 0")
  case True
  then have "select_strategy E s = Inr (NoOp, s)" "Render E s entity pass = Inr (True, pass, s)"
    by (simp_all add: select_strategy_def Render_def run_strategy_cases)
  moreover have "run_strategy E NoOp s entity pass = Inr (True, pass)"
    by (simp add: run_strategy_cases)
  ultimately show ?thesis by (auto simp: colors_consumed_def)
next
  case False
  then obtain tex where tex: "texture s = Some tex" and nc: "blend_mode s \<noteq> kClear"
    and pos: "0 < alpha s" by auto
  from ComputeBoundingBox_total[OF invariant_in_range[OF assms], of E]
  obtain bb where bb: "ComputeBoundingBox E s = Inr (bb, s\<lparr>bounding_box_cache := Some bb\<rparr>)"
    by blast
  define s' where "s' = s\<lparr>bounding_box_cache := Some bb\<rparr>"
  note sel = select_strategy_not_benign[OF tex nc pos bb[folded s'_def]]
  have inv': "length_invariant s'" using assms by (simp add: s'_def length_invariant_cache)
  have fields: "texture_coords s' = texture_coords s" "transforms s' = transforms s"
    "colors s' = colors s" "blend_mode s' = blend_mode s" "texture s' = texture s"
    by (simp_all add: s'_def)
  have finish: ?thesis
    if "select_strategy E s = Inr (strategy, s')"
      and "run_strategy E strategy s' entity pass = Inr (ok, pass')"
      and "colors_consumed strategy \<longrightarrow> colors s \<noteq> [] \<and>
              length (colors s) = length (texture_coords s)"
      and "\<forall>coverage. strategy = Compositing coverage \<longrightarrow>
              GenerateSubAtlas_precondition s' \<and>
              (\<exists>sub_atlas. GenerateSubAtlas E s' = Inr sub_atlas \<and>
                 (\<forall>e p. \<exists>res. AtlasColorContents_Render E (dst_contents s' sub_atlas) e p = Inr res) \<and>
                 (\<forall>e p. \<exists>res. AtlasTextureContents_Render E (src_contents s' sub_atlas) e p = Inr res))"
    for strategy ok pass'
  proof -
    have "Render E s entity pass = Inr (ok, pass', s')"
      using that(1,2) by (simp add: Render_def)
    with that show ?thesis by blast
  qed
  consider (tex) "blend_mode s = kSource \<or> colors s = []"
    | (col) "\<not> (blend_mode s = kSource \<or> colors s = [])" "blend_mode s = kDestination"
    | (pd) "\<not> (blend_mode s = kSource \<or> colors s = [])" "blend_mode s \<noteq> kDestination"
        "blend_index (blend_mode s) \<le> blend_index kModulate"
    | (adv) "\<not> (blend_mode s = kSource \<or> colors s = [])" "blend_mode s \<noteq> kDestination"
        "\<not> blend_index (blend_mode s) \<le> blend_index kModulate"
    by blast
  then show ?thesis
  proof cases
    case tex
    define child where
      "child = (AtlasTextureContents_new s')\<lparr>tex_alpha := alpha s, tex_coverage := bb\<rparr>"
    have s: "select_strategy E s = Inr (DirectTexture child, s')"
      using sel tex by (auto simp: child_def)
    have "length (selected_coords child) \<le> length (selected_matrices child)"
      using invariant_in_range[OF assms]
      by (simp add: child_def selected_coords_def selected_matrices_def
            AtlasTextureContents_new_def fields)
    from texture_render_total[OF this, of E entity pass]
    obtain ok pass' where "AtlasTextureContents_Render E child entity pass = Inr (ok, pass')"
      by auto
    then have "run_strategy E (DirectTexture child) s' entity pass = Inr (ok, pass')"
      by (simp add: run_strategy_cases)
    from finish[OF s this] show ?thesis by (simp add: colors_consumed_def)
  next
    case col
    have al: "aligned s" using assms col(1) by (auto intro: invariant_colors_aligned)
    define child where
      "child = (AtlasColorContents_new s')\<lparr>col_alpha := alpha s, col_coverage := bb\<rparr>"
    have s: "select_strategy E s = Inr (DirectColor child, s')"
      using sel col by (auto simp: child_def)
    have "length (color_coords child) \<le> length (color_matrices child)"
      "length (color_coords child) \<le> length (color_colors child)"
      using al
      by (simp_all add: child_def color_coords_def color_matrices_def color_colors_def
            AtlasColorContents_new_def fields aligned_def)
    from color_render_total[OF this, of E entity pass]
    obtain ok pass' where "AtlasColorContents_Render E child entity pass = Inr (ok, pass')"
      by auto
    then have "run_strategy E (DirectColor child) s' entity pass = Inr (ok, pass')"
      by (simp add: run_strategy_cases)
    from finish[OF s this] al col(1) show ?thesis by (simp add: colors_consumed_def aligned_def)
  next
    case pd
    have al: "aligned s" using assms pd(1) by (auto intro: invariant_colors_aligned)
    then have al': "aligned s'" by (simp add: s'_def aligned_cache)
    have s: "select_strategy E s = Inr (SinglePassBlend, s')"
      using sel pd by auto
    have "run_strategy E SinglePassBlend s' entity pass =
            Inr (submit E (porter_duff_command E s' tex entity pass) pass)"
      using PorterDuff_Render_aligned[of s' tex, OF _ al'] tex
      by (simp add: run_strategy_cases fields)
    then have "run_strategy E SinglePassBlend s' entity pass =
                 Inr (fst (submit E (porter_duff_command E s' tex entity pass) pass),
                      snd (submit E (porter_duff_command E s' tex entity pass) pass))"
      by simp
    from finish[OF s this] al pd(1) show ?thesis by (simp add: colors_consumed_def aligned_def)
  next
    case adv
    have al: "aligned s" using assms adv(1) by (auto intro: invariant_colors_aligned)
    then have al': "aligned s'" by (simp add: s'_def aligned_cache)
    have pre: "GenerateSubAtlas_precondition s'"
      using adv by (auto simp: GenerateSubAtlas_precondition_def fields)
    have s: "select_strategy E s = Inr (Compositing bb, s')"
      using sel adv by auto
    from GenerateSubAtlas_indexable[OF _ aligned_indexable[OF al'], of E] pre
    obtain sub where sub: "GenerateSubAtlas E s' = Inr sub"
      by (auto simp: entry_check_passes_def)
    note lens = GenerateSubAtlas_lengths[OF sub]
    have dst: "\<exists>res. AtlasColorContents_Render E (dst_contents s' sub) e p = Inr res" for e p
      by (rule color_render_total)
         (simp_all add: dst_contents_def AtlasColorContents_new_def color_coords_def
            color_matrices_def color_colors_def lens)
    have src: "\<exists>res. AtlasTextureContents_Render E (src_contents s' sub) e p = Inr res" for e p
      by (rule texture_render_total)
         (simp add: src_contents_def AtlasTextureContents_new_def selected_coords_def
            selected_matrices_def lens)
    have "\<exists>res. Compositing_Render E s' bb entity pass = Inr res"
    proof (cases "RenderToSnapshot E (blend_mode s') (dst_contents s' sub) (src_contents s' sub)")
      case None
      then show ?thesis by (auto simp: Compositing_Render_def sub)
    next
      case (Some snapshot_texture)
      have "\<exists>res. AtlasTextureContents_Render E
                    (resample_contents s' bb snapshot_texture sub) entity pass = Inr res"
        by (rule texture_render_total)
           (simp add: resample_contents_def AtlasTextureContents_new_def selected_coords_def
              selected_matrices_def lens)
      then show ?thesis by (auto simp: Compositing_Render_def sub Some Let_def)
    qed
    then obtain ok pass' where "run_strategy E (Compositing bb) s' entity pass = Inr (ok, pass')"
      by (auto simp: run_strategy_cases)
    from finish[OF s this] al adv(1) pre sub dst src show ?thesis
      by (simp add: colors_consumed_def aligned_def)
  qed
qed

theorem Render_array_accesses_in_bounds_witness:
  "\<exists>coverage s' ok pass' sub_atlas.
     select_strategy demo_collaborators dedup_atlas = Inr (Compositing coverage, s') \<and>
     Render demo_collaborators dedup_atlas demo_entity demo_pass = Inr (ok, pass', s') \<and>
     colors dedup_atlas \<noteq> [] \<and>
     GenerateSubAtlas demo_collaborators s' = Inr sub_atlas \<and>
     (\<exists>res. AtlasColorContents_Render demo_collaborators (dst_contents s' sub_atlas)
              demo_entity demo_pass = Inr res) \<and>
     (\<exists>res. AtlasTextureContents_Render demo_collaborators (src_contents s' sub_atlas)
              demo_entity demo_pass = Inr res)"
proof -
  from Render_array_accesses_in_bounds[OF dedup_atlas_hyps(1), of demo_collaborators demo_entity
      demo_pass]
  obtain strategy s' ok pass' where
    sel: "select_strategy demo_collaborators dedup_atlas = Inr (strategy, s')"
    and run: "Render demo_collaborators dedup_atlas demo_entity demo_pass = Inr (ok, pass', s')"
    and col: "colors_consumed strategy \<longrightarrow> colors dedup_atlas \<noteq> [] \<and>
              length (colors dedup_atlas) = length (texture_coords dedup_atlas)"
    and adv: "\<forall>coverage. strategy = Compositing coverage \<longrightarrow>
              GenerateSubAtlas_precondition s' \<and>
              (\<exists>sub_atlas. GenerateSubAtlas demo_collaborators s' = Inr sub_atlas \<and>
                 (\<forall>e p. \<exists>res. AtlasColorContents_Render demo_collaborators
                                 (dst_contents s' sub_atlas) e p = Inr res) \<and>
                 (\<forall>e p. \<exists>res. AtlasTextureContents_Render demo_collaborators
                                 (src_contents s' sub_atlas) e p = Inr res))"
    by blast
  from sel obtain bb where bb: "ComputeBoundingBox demo_collaborators dedup_atlas = Inr (bb, s')"
    by (auto simp: select_strategy_def dedup_atlas_def and_then_Inr_iff split: if_splits)
  have "select_strategy demo_collaborators dedup_atlas = Inr (Compositing bb, s')"
    using select_strategy_not_benign[OF _ _ _ bb, of demo_texture]
    by (simp add: dedup_atlas_def)
  with sel have strategy: "strategy = Compositing bb" by simp
  with adv obtain sub_atlas where
    "GenerateSubAtlas demo_collaborators s' = Inr sub_atlas"
    "\<forall>e p. \<exists>res. AtlasColorContents_Render demo_collaborators
                    (dst_contents s' sub_atlas) e p = Inr res"
    "\<forall>e p. \<exists>res. AtlasTextureContents_Render demo_collaborators
                    (src_contents s' sub_atlas) e p = Inr res"
    by blast
  moreover have "colors dedup_atlas \<noteq> []" by (simp add: dedup_atlas_def)
  ultimately show ?thesis using sel run strategy by blast
qed

end
